theory Spec2Isabelle
  imports Main "HOL-Library.Word"
begin

unbundle bit_operations_syntax

section \<open>The i40e transmit/receive data path (i40e_transceiver.c)\<close>

text \<open>
  A shallow embedding of the data-path functions of \<^verbatim>\<open>i40e_transceiver.c\<close>.
  Conventions used throughout:
  \<^item> the production (non-DEBUG) build is modelled: \<^verbatim>\<open>ASSERT\<close> is compiled out,
    \<^verbatim>\<open>VERIFY\<close>, \<^verbatim>\<open>panic\<close> and a dereference of \<^verbatim>\<open>NULL\<close> end the run with a
    \<open>fault\<close> (\<open>Inl\<close> of a sum type);
  \<^item> opaque handles and pointers into the control-block areas are \<open>nat option\<close>
    (\<open>None\<close> is \<^verbatim>\<open>NULL\<close>), addresses are 64-bit words (\<open>0\<close> is \<^verbatim>\<open>NULL\<close>);
  \<^item> ring indices and element counts are \<open>nat\<close> (ring sizes are far below
    \<open>2^31\<close>, so the C \<^verbatim>\<open>int\<close>/\<^verbatim>\<open>uint32_t\<close> conversions are the identity); the two
    index helpers are kept on \<open>int\<close>, as in the source;
  \<^item> locks are not modelled: every function runs atomically;
  \<^item> answers of the platform (allocation failures, DMA binding results, fault
    checks) are explicit arguments of the functions.
\<close>

datatype fault = VerifyFailed | NullDeref | WildAccess | Panic

subsection \<open>Descriptor index helpers\<close>

definition i40e_next_desc :: "int \<Rightarrow> int \<Rightarrow> int \<Rightarrow> int" where
  "i40e_next_desc base count sz =
     (if base + count < sz then base + count else base + count - sz)"

definition i40e_prev_desc :: "int \<Rightarrow> int \<Rightarrow> int \<Rightarrow> int" where
  "i40e_prev_desc base count sz =
     (if base \<ge> count then base - count else base - count + sz)"

subsection \<open>DMA buffers\<close>

text \<open>
  \<^verbatim>\<open>i40e_dma_buffer_t\<close>. The field \<open>dmab_mem\<close> is not a field of the C structure:
  it holds the bytes of the mapped region that starts at \<open>dmab_address\<close>.
\<close>

record i40e_dma_buffer =
  dmab_address :: "64 word"
  dmab_dma_address :: "64 word"
  dmab_size :: nat
  dmab_len :: nat
  dmab_dma_handle :: "nat option"
  dmab_acc_handle :: "nat option"
  dmab_mem :: "8 word list"

text \<open>The calls \<^verbatim>\<open>i40e_free_dma_buffer\<close> makes into the DDI, in order.\<close>

datatype ddi_call =
  Ddi_dma_unbind_handle nat
| Ddi_dma_mem_free nat
| Ddi_dma_free_handle nat

definition i40e_free_dma_buffer ::
  "i40e_dma_buffer \<Rightarrow> fault + (i40e_dma_buffer \<times> ddi_call list)" where
  "i40e_free_dma_buffer dmap =
     (if dmab_dma_address dmap \<noteq> 0 \<and> dmab_dma_handle dmap = None then Inl VerifyFailed
      else
        let (d1, c1) =
              (if dmab_dma_address dmap \<noteq> 0
               then (dmap\<lparr>dmab_dma_address := 0, dmab_size := 0\<rparr>,
                     [Ddi_dma_unbind_handle (the (dmab_dma_handle dmap))])
               else (dmap, []));
            (d2, c2) =
              (case dmab_acc_handle d1 of
                 Some h \<Rightarrow> (d1\<lparr>dmab_acc_handle := None, dmab_address := 0, dmab_mem := []\<rparr>,
                            [Ddi_dma_mem_free h])
               | None \<Rightarrow> (d1, []));
            (d3, c3) =
              (case dmab_dma_handle d2 of
                 Some h \<Rightarrow> (d2\<lparr>dmab_dma_handle := None\<rparr>, [Ddi_dma_free_handle h])
               | None \<Rightarrow> (d2, []))
        in Inr (d3\<lparr>dmab_len := 0\<rparr>, c1 @ c2 @ c3))"

text \<open>
  The relation between the fields that the three \<^verbatim>\<open>ASSERT\<close>s at the end of
  \<^verbatim>\<open>i40e_free_dma_buffer\<close> rely on ("these should only be set if we have valid
  handles allocated"): a size only with a bound bus address, a virtual address
  only with an access handle.
\<close>

definition dmab_consistent :: "i40e_dma_buffer \<Rightarrow> bool" where
  "dmab_consistent d \<longleftrightarrow>
     (dmab_dma_address d = 0 \<longrightarrow> dmab_size d = 0) \<and>
     (dmab_acc_handle d = None \<longrightarrow> dmab_address d = 0)"

definition dmab_zero :: i40e_dma_buffer where
  "dmab_zero = \<lparr>dmab_address = 0, dmab_dma_address = 0, dmab_size = 0, dmab_len = 0,
     dmab_dma_handle = None, dmab_acc_handle = None, dmab_mem = []\<rparr>"

subsection \<open>Message blocks\<close>

text \<open>
  An \<^verbatim>\<open>mblk_t\<close> with its data block. \<open>db_mem\<close> is the content of the data buffer
  (\<^verbatim>\<open>db_base\<close> to \<^verbatim>\<open>db_lim\<close>); \<open>b_rptr\<close> and \<open>b_wptr\<close> are offsets into it.
  \<open>db_frtn\<close> is the argument of the free routine of a block made by
  \<^verbatim>\<open>desballoc\<close> (the index of the receive control block that owns the buffer).
  The last four fields are what \<^verbatim>\<open>mac_hcksum_get/set\<close>, \<^verbatim>\<open>mac_lso_get\<close> and
  \<^verbatim>\<open>mac_tunnel_type_get\<close> read and write. A frame is the list of its blocks in
  \<^verbatim>\<open>b_cont\<close> order; a list of frames is in \<^verbatim>\<open>b_next\<close> order.
\<close>

record mblk =
  b_rptr :: nat
  b_wptr :: nat
  db_mem :: "8 word list"
  db_frtn :: "nat option"
  db_cksumflags :: "32 word"
  db_lsoflags :: "32 word"
  db_mss :: "32 word"
  db_ttype :: "32 word"

definition MBLKL :: "mblk \<Rightarrow> nat" where
  "MBLKL mp = b_wptr mp - b_rptr mp"

definition msgsize :: "mblk list \<Rightarrow> nat" where
  "msgsize mp = sum_list (map MBLKL mp)"

definition mac_hcksum_set :: "mblk \<Rightarrow> 32 word \<Rightarrow> mblk" where
  "mac_hcksum_set mp flags = mp\<lparr>db_cksumflags := flags\<rparr>"

subsection \<open>Device and queue-pair state\<close>

text \<open>
  Constants of \<^verbatim>\<open>i40e_sw.h\<close> and \<^verbatim>\<open>i40e_type.h\<close>, which are not among the
  sources at hand; the values are those of the headers the driver is built with.
\<close>

definition I40E_STARTED :: "32 word" where "I40E_STARTED = 0x02"
definition I40E_SUSPENDED :: "32 word" where "I40E_SUSPENDED = 0x04"
definition I40E_OVERTEMP :: "32 word" where "I40E_OVERTEMP = 0x20"
definition I40E_ERROR :: "32 word" where "I40E_ERROR = 0x80"

definition I40E_POLL_NULL :: int where "I40E_POLL_NULL = -1"
definition I40E_BUF_IPHDR_ALIGNMENT :: nat where "I40E_BUF_IPHDR_ALIGNMENT = 2"

definition I40E_RX_DESC_STATUS_DD_SHIFT :: nat where "I40E_RX_DESC_STATUS_DD_SHIFT = 0"
definition I40E_RX_DESC_STATUS_EOF_SHIFT :: nat where "I40E_RX_DESC_STATUS_EOF_SHIFT = 1"
definition I40E_RXD_QW1_ERROR_SHIFT :: nat where "I40E_RXD_QW1_ERROR_SHIFT = 19"
definition I40E_RXD_QW1_ERROR_MASK :: "64 word" where
  "I40E_RXD_QW1_ERROR_MASK = push_bit I40E_RXD_QW1_ERROR_SHIFT 0xFF"
definition I40E_RXD_QW1_PTYPE_SHIFT :: nat where "I40E_RXD_QW1_PTYPE_SHIFT = 30"
definition I40E_RXD_QW1_PTYPE_MASK :: "64 word" where
  "I40E_RXD_QW1_PTYPE_MASK = push_bit I40E_RXD_QW1_PTYPE_SHIFT 0xFF"
definition I40E_RXD_QW1_LENGTH_PBUF_SHIFT :: nat where "I40E_RXD_QW1_LENGTH_PBUF_SHIFT = 38"
definition I40E_RXD_QW1_LENGTH_PBUF_MASK :: "64 word" where
  "I40E_RXD_QW1_LENGTH_PBUF_MASK = push_bit I40E_RXD_QW1_LENGTH_PBUF_SHIFT 0x3FFF"
definition I40E_RX_ERR_BITS :: "32 word" where "I40E_RX_ERR_BITS = 0x47"

datatype link_state = LINK_STATE_UNKNOWN | LINK_STATE_DOWN | LINK_STATE_UP

datatype i40e_reg = I40E_QRX_TAIL nat | I40E_QTX_TAIL nat

datatype kstat =
  Irxs_bytes | Irxs_packets | Irxs_rx_desc_error | Irxs_rx_intr_limit
| Irxs_rx_bind_norcb | Irxs_rx_bind_nomp | Irxs_rx_copy_nomem
| Itxs_bytes | Itxs_packets | Itxs_descriptors | Itxs_recycled
| Itxs_num_unblocked | Itxs_err_notcb | Itxs_err_nodescs | Itxs_err_context
| Itxs_hck_meoifail | Itxs_hck_nol2info | Itxs_hck_nol3info | Itxs_hck_nol4info
| Itxs_hck_badl3 | Itxs_hck_badl4

text \<open>
  The configuration fields of \<^verbatim>\<open>i40e_t\<close>, which the data path only reads.
\<close>

record i40e_conf =
  i40e_rx_dma_min :: nat
  i40e_rx_limit_per_intr :: nat
  i40e_rx_hcksum_enable :: bool
  i40e_tx_hcksum_enable :: bool
  i40e_tx_dma_min :: nat
  i40e_tx_block_thresh :: nat

text \<open>
  The fields of \<^verbatim>\<open>i40e_t\<close> the data path writes, together with what it does to
  the world outside: the register writes, the calls of
  \<^verbatim>\<open>ddi_fm_service_impact\<close>, \<^verbatim>\<open>cv_broadcast\<close> and \<^verbatim>\<open>mac_tx_ring_update\<close>,
  the DDI calls that release DMA resources, and the frames given to
  \<^verbatim>\<open>freemsg\<close>.
\<close>

record i40e_t =
  i40e_state :: "32 word"
  i40e_link_state :: link_state
  i40e_rx_pending :: "32 word"
  i40e_reg_writes :: "(i40e_reg \<times> nat) list"
  i40e_fm_service_impacts :: nat
  i40e_cv_broadcasts :: nat
  i40e_mac_tx_ring_updates :: nat
  i40e_ddi_calls :: "ddi_call list"
  i40e_freemsgs :: "mblk list list"

text \<open>
  The receive descriptor is a union: \<^verbatim>\<open>read.pkt_addr\<close> shares its storage with
  \<^verbatim>\<open>wb.qword0\<close>, and \<^verbatim>\<open>read.hdr_addr\<close> with \<^verbatim>\<open>wb.qword1.status_error_len\<close>.
\<close>

record i40e_rx_desc =
  rxd_qword0 :: "64 word"
  rxd_qword1 :: "64 word"

record i40e_rx_control_block =
  rcb_ref :: "32 word"
  rcb_mp :: "mblk option"
  rcb_dma :: i40e_dma_buffer

text \<open>
  \<^verbatim>\<open>i40e_rx_data_t\<close>. The work list and the free list hold pointers into
  \<open>rxd_rcb_area\<close>, here indices. \<open>rxd_released\<close> records that
  \<^verbatim>\<open>i40e_free_rx_data\<close> has released the structure.
\<close>

record i40e_rx_data =
  rxd_ring_size :: nat
  rxd_free_list_size :: nat
  rxd_desc_ring :: "i40e_rx_desc list"
  rxd_desc_next :: nat
  rxd_rcb_area :: "i40e_rx_control_block list"
  rxd_work_list :: "nat option list"
  rxd_free_list :: "nat option list"
  rxd_rcb_free :: nat
  rxd_rcb_pending :: "32 word"
  rxd_shutdown :: bool
  rxd_released :: bool

datatype i40e_tx_type = I40E_TX_NONE | I40E_TX_COPY | I40E_TX_DMA | I40E_TX_DESC

record i40e_dma_bind_info =
  dbi_paddr :: "64 word"
  dbi_len :: "64 word"

text \<open>
  \<^verbatim>\<open>i40e_tx_control_block_t\<close>. \<open>tcb_bind_info\<close> is the array of cookies with its
  length \<^verbatim>\<open>tcb_bind_ncookies\<close> (empty when the pointer is \<^verbatim>\<open>NULL\<close> and the
  count zero). The link \<^verbatim>\<open>tcb_next\<close>, which only chains the
  blocks reclaimed by one call of \<^verbatim>\<open>i40e_tx_recycle_ring\<close>, is a local list there.
\<close>

record i40e_tx_control_block =
  tcb_type :: i40e_tx_type
  tcb_mp :: "mblk list option"
  tcb_dma :: i40e_dma_buffer
  tcb_dma_handle :: nat
  tcb_lso_dma_handle :: nat
  tcb_bind_info :: "i40e_dma_bind_info list"
  tcb_used_lso :: bool

text \<open>
  A transmit descriptor is two little-endian quadwords: \<^verbatim>\<open>buffer_addr\<close> and
  \<^verbatim>\<open>cmd_type_offset_bsz\<close> of a data descriptor; of a context descriptor the
  first holds \<^verbatim>\<open>tunneling_params\<close> (bits 0-31), \<^verbatim>\<open>l2tag2\<close> (bits 32-47) and a
  reserved field, the second is \<^verbatim>\<open>type_cmd_tso_mss\<close>.
\<close>

record i40e_tx_desc =
  txd_qword0 :: "64 word"
  txd_qword1 :: "64 word"

text \<open>
  One queue pair (\<^verbatim>\<open>i40e_trqpair_t\<close>) with the structures it points to: the
  device (\<open>itrq_i40e\<close>) and the receive data (\<open>itrq_rxdata\<close>). The statistics
  \<^verbatim>\<open>itrq_rxstat\<close> and \<^verbatim>\<open>itrq_txstat\<close> are the counters \<open>itrq_kstat\<close>.
  \<open>itrq_desc_wbhead\<close> is the value of the write-back head the device maintains
  behind the transmit ring.
\<close>

record i40e_trqpair =
  itrq_index :: nat
  itrq_i40e :: i40e_t
  itrq_kstat :: "kstat \<Rightarrow> 64 word"
  itrq_rxdata :: i40e_rx_data
  itrq_tx_ring_size :: nat
  itrq_tx_free_list_size :: nat
  itrq_desc_ring :: "i40e_tx_desc list"
  itrq_desc_wbhead :: nat
  itrq_desc_head :: nat
  itrq_desc_tail :: nat
  itrq_desc_free :: "32 word"
  itrq_tcb_area :: "i40e_tx_control_block list"
  itrq_tcb_work_list :: "nat option list"
  itrq_tcb_free_list :: "nat option list"
  itrq_tcb_free :: nat
  itrq_tx_blocked :: bool

definition kstat_inc :: "kstat \<Rightarrow> i40e_trqpair \<Rightarrow> i40e_trqpair" where
  "kstat_inc k itrq = itrq\<lparr>itrq_kstat := (itrq_kstat itrq)(k := itrq_kstat itrq k + 1)\<rparr>"

definition kstat_add :: "kstat \<Rightarrow> 64 word \<Rightarrow> i40e_trqpair \<Rightarrow> i40e_trqpair" where
  "kstat_add k n itrq = itrq\<lparr>itrq_kstat := (itrq_kstat itrq)(k := itrq_kstat itrq k + n)\<rparr>"

text \<open>
  The pair \<^verbatim>\<open>ddi_fm_service_impact(..., DDI_SERVICE_DEGRADED)\<close>,
  \<^verbatim>\<open>atomic_or_32(&i40e->i40e_state, I40E_ERROR)\<close> that follows every failed
  fault-management check.
\<close>

definition i40e_fm_error :: "i40e_trqpair \<Rightarrow> i40e_trqpair" where
  "i40e_fm_error itrq = itrq\<lparr>itrq_i40e := (itrq_i40e itrq)
     \<lparr>i40e_state := i40e_state (itrq_i40e itrq) OR I40E_ERROR,
      i40e_fm_service_impacts := i40e_fm_service_impacts (itrq_i40e itrq) + 1\<rparr>\<rparr>"

text \<open>The admission test shared by \<^verbatim>\<open>i40e_ring_rx\<close> and \<^verbatim>\<open>i40e_ring_tx\<close>.\<close>

definition i40e_state_ok :: "32 word \<Rightarrow> bool" where
  "i40e_state_ok st \<longleftrightarrow>
     \<not> (st AND I40E_STARTED = 0 \<or> st AND I40E_OVERTEMP \<noteq> 0 \<or>
        st AND I40E_SUSPENDED \<noteq> 0 \<or> st AND I40E_ERROR \<noteq> 0)"

subsection \<open>The receive control-block pool\<close>

definition i40e_rcb_free :: "i40e_rx_data \<Rightarrow> nat \<Rightarrow> fault + i40e_rx_data" where
  "i40e_rcb_free rxd rcb =
     (if rxd_rcb_free rxd < length (rxd_free_list rxd)
      then Inr (rxd\<lparr>rxd_free_list := (rxd_free_list rxd)[rxd_rcb_free rxd := Some rcb],
                    rxd_rcb_free := rxd_rcb_free rxd + 1\<rparr>)
      else Inl WildAccess)"

definition i40e_rcb_alloc :: "i40e_rx_data \<Rightarrow> fault + (nat option \<times> i40e_rx_data)" where
  "i40e_rcb_alloc rxd =
     (if rxd_rcb_free rxd = 0 then Inr (None, rxd)
      else let n = rxd_rcb_free rxd - 1 in
        if n \<ge> length (rxd_free_list rxd) then Inl WildAccess
        else (case rxd_free_list rxd ! n of
                None \<Rightarrow> Inl VerifyFailed
              | Some rcb \<Rightarrow>
                  Inr (Some rcb, rxd\<lparr>rxd_rcb_free := n,
                                     rxd_free_list := (rxd_free_list rxd)[n := None]\<rparr>)))"

text \<open>
  \<^verbatim>\<open>desballoc(rcb->rcb_dma.dmab_address, rcb->rcb_dma.dmab_size, 0, &rcb->rcb_free_rtn)\<close>
  when it succeeds: a block over the control block's DMA memory.
\<close>

definition desballoc :: "i40e_dma_buffer \<Rightarrow> nat \<Rightarrow> mblk" where
  "desballoc dma arg = \<lparr>b_rptr = 0, b_wptr = 0, db_mem = dmab_mem dma, db_frtn = Some arg,
     db_cksumflags = 0, db_lsoflags = 0, db_mss = 0, db_ttype = 0\<rparr>"

definition i40e_free_rx_data :: "i40e_rx_data \<Rightarrow> fault + i40e_rx_data" where
  "i40e_free_rx_data rxd =
     (if rxd_rcb_pending rxd \<noteq> 0 then Inl VerifyFailed
      else Inr (rxd\<lparr>rxd_rcb_area := [], rxd_free_list := [], rxd_work_list := [],
                    rxd_released := True\<rparr>))"

text \<open>
  \<^verbatim>\<open>i40e_rx_recycle(arg)\<close>, the free routine of a loaned block. \<open>desballoc_ok\<close>
  tells whether its \<^verbatim>\<open>desballoc\<close> succeeds. The \<^verbatim>\<open>freemsg\<close> of the last
  reference re-enters this function with a reference count of zero, which is the
  immediate return at the top.
\<close>

definition i40e_rx_recycle :: "bool \<Rightarrow> nat \<Rightarrow> i40e_trqpair \<Rightarrow> fault + i40e_trqpair" where
  "i40e_rx_recycle desballoc_ok arg itrq =
     (let rxd = itrq_rxdata itrq in
      if arg \<ge> length (rxd_rcb_area rxd) then Inl WildAccess
      else let rcb = rxd_rcb_area rxd ! arg in
        if rcb_ref rcb = 0 then Inr itrq
        else
          let mp = (if desballoc_ok then Some (desballoc (rcb_dma rcb) arg) else None);
              rxd1 = rxd\<lparr>rxd_rcb_area := (rxd_rcb_area rxd)[arg := rcb\<lparr>rcb_mp := mp\<rparr>]\<rparr>
          in (case i40e_rcb_free rxd1 arg of
                Inl f \<Rightarrow> Inl f
              | Inr rxd2 \<Rightarrow>
                  let ref = rcb_ref rcb - 1 in
                  if ref \<noteq> 0
                  then Inr (itrq\<lparr>itrq_rxdata := rxd2\<lparr>rxd_rcb_area :=
                              (rxd_rcb_area rxd2)[arg := rcb\<lparr>rcb_mp := mp, rcb_ref := ref\<rparr>]\<rparr>\<rparr>)
                  else (case i40e_free_dma_buffer (rcb_dma rcb) of
                          Inl f \<Rightarrow> Inl f
                        | Inr (dma', calls) \<Rightarrow>
                            let rxd3 = rxd2\<lparr>rxd_rcb_area := (rxd_rcb_area rxd2)
                                         [arg := \<lparr>rcb_ref = ref, rcb_mp = None, rcb_dma = dma'\<rparr>],
                                       rxd_rcb_pending := rxd_rcb_pending rxd2 - 1\<rparr>;
                                dev = (itrq_i40e itrq)
                                  \<lparr>i40e_rx_pending := i40e_rx_pending (itrq_i40e itrq) - 1,
                                   i40e_ddi_calls := i40e_ddi_calls (itrq_i40e itrq) @ calls,
                                   i40e_freemsgs := i40e_freemsgs (itrq_i40e itrq) @
                                     (case mp of None \<Rightarrow> [] | Some m \<Rightarrow> [[m]])\<rparr>
                            in if rxd_shutdown rxd3 \<and> rxd_rcb_pending rxd3 = 0
                               then (case i40e_free_rx_data rxd3 of
                                       Inl f \<Rightarrow> Inl f
                                     | Inr rxd4 \<Rightarrow>
                                         Inr (itrq\<lparr>itrq_rxdata := rxd4, itrq_i40e := dev
                                           \<lparr>i40e_cv_broadcasts := i40e_cv_broadcasts dev + 1\<rparr>\<rparr>))
                               else Inr (itrq\<lparr>itrq_rxdata := rxd3, itrq_i40e := dev\<rparr>))))"

subsection \<open>The receive ring engine\<close>

text \<open>
  What the platform answers while one descriptor is processed: whether the
  \<^verbatim>\<open>desballoc\<close> of \<^verbatim>\<open>i40e_rx_bind\<close> succeeds, whether
  \<^verbatim>\<open>i40e_check_dma_handle\<close> reports \<^verbatim>\<open>DDI_FM_OK\<close> in \<^verbatim>\<open>i40e_rx_bind\<close> and in
  \<^verbatim>\<open>i40e_rx_copy\<close>, whether \<^verbatim>\<open>allocb\<close> succeeds, and the checksum flags that
  \<^verbatim>\<open>i40e_rx_hcksum\<close> derives from status word, error bits and packet type
  (that function and the packet-type table it consults are not embedded).
\<close>

record rx_env =
  env_bind_desballoc_ok :: bool
  env_bind_dma_ok :: bool
  env_copy_dma_ok :: bool
  env_allocb_ok :: bool
  env_hcksum :: "64 word \<Rightarrow> 32 word \<Rightarrow> 32 word \<Rightarrow> 32 word"

text \<open>The control block \<^verbatim>\<open>rxd->rxd_work_list[index]\<close>, dereferenced.\<close>

definition rx_work_rcb :: "i40e_rx_data \<Rightarrow> nat \<Rightarrow> fault + nat" where
  "rx_work_rcb rxd index =
     (if index \<ge> length (rxd_work_list rxd) then Inl WildAccess
      else (case rxd_work_list rxd ! index of
              None \<Rightarrow> Inl NullDeref
            | Some rcb \<Rightarrow> if rcb < length (rxd_rcb_area rxd) then Inr rcb else Inl WildAccess))"

definition i40e_rx_bind ::
  "rx_env \<Rightarrow> nat \<Rightarrow> nat \<Rightarrow> i40e_trqpair \<Rightarrow> fault + (mblk option \<times> i40e_trqpair)" where
  "i40e_rx_bind env index plen itrq =
     (case i40e_rcb_alloc (itrq_rxdata itrq) of
        Inl f \<Rightarrow> Inl f
      | Inr (None, rxd) \<Rightarrow> Inr (None, kstat_inc Irxs_rx_bind_norcb itrq)
      | Inr (Some rep_rcb, rxd) \<Rightarrow>
          (case rx_work_rcb rxd index of
             Inl f \<Rightarrow> Inl f
           | Inr rcbi \<Rightarrow>
               let rcb = rxd_rcb_area rxd ! rcbi;
                   mp0 = (case rcb_mp rcb of
                            Some m \<Rightarrow> Some m
                          | None \<Rightarrow> if env_bind_desballoc_ok env
                                    then Some (desballoc (rcb_dma rcb) rcbi) else None)
               in (case mp0 of
                     None \<Rightarrow>
                       (case i40e_rcb_free rxd rcbi of
                          Inl f \<Rightarrow> Inl f
                        | Inr rxd' \<Rightarrow>
                            Inr (None, kstat_inc Irxs_rx_bind_nomp (itrq\<lparr>itrq_rxdata := rxd'\<rparr>)))
                   | Some m \<Rightarrow>
                       if \<not> env_bind_dma_ok env
                       then (case i40e_rcb_free
                                     (rxd\<lparr>rxd_rcb_area := (rxd_rcb_area rxd)
                                            [rcbi := rcb\<lparr>rcb_mp := Some m\<rparr>]\<rparr>) rcbi of
                               Inl f \<Rightarrow> Inl f
                             | Inr rxd' \<Rightarrow> Inr (None, i40e_fm_error (itrq\<lparr>itrq_rxdata := rxd'\<rparr>)))
                       else
                         let mp = m\<lparr>b_wptr := b_rptr m + plen, db_mem := dmab_mem (rcb_dma rcb)\<rparr>;
                             rcb' = rcb\<lparr>rcb_mp := Some mp, rcb_ref := rcb_ref rcb + 1\<rparr>
                         in Inr (Some mp, itrq\<lparr>itrq_rxdata := rxd
                               \<lparr>rxd_rcb_area := (rxd_rcb_area rxd)[rcbi := rcb'],
                                rxd_work_list := (rxd_work_list rxd)[index := Some rep_rcb]\<rparr>\<rparr>))))"

text \<open>
  \<^verbatim>\<open>i40e_rx_copy\<close>. The block of \<^verbatim>\<open>allocb(plen + I40E_BUF_IPHDR_ALIGNMENT, 0)\<close> is
  taken to be zero-filled before the copy; a \<^verbatim>\<open>bcopy\<close> that would read past the
  mapped region is a fault.
\<close>

definition i40e_rx_copy ::
  "rx_env \<Rightarrow> nat \<Rightarrow> nat \<Rightarrow> i40e_trqpair \<Rightarrow> fault + (mblk option \<times> i40e_trqpair)" where
  "i40e_rx_copy env index plen itrq =
     (case rx_work_rcb (itrq_rxdata itrq) index of
        Inl f \<Rightarrow> Inl f
      | Inr rcbi \<Rightarrow>
          let rcb = rxd_rcb_area (itrq_rxdata itrq) ! rcbi in
          if \<not> env_copy_dma_ok env then Inr (None, i40e_fm_error itrq)
          else if \<not> env_allocb_ok env then Inr (None, kstat_inc Irxs_rx_copy_nomem itrq)
          else if plen > length (dmab_mem (rcb_dma rcb)) then Inl WildAccess
          else Inr (Some \<lparr>b_rptr = I40E_BUF_IPHDR_ALIGNMENT,
                           b_wptr = I40E_BUF_IPHDR_ALIGNMENT + plen,
                           db_mem = replicate I40E_BUF_IPHDR_ALIGNMENT 0 @
                                    take plen (dmab_mem (rcb_dma rcb)),
                           db_frtn = None, db_cksumflags = 0, db_lsoflags = 0,
                           db_mss = 0, db_ttype = 0\<rparr>, itrq))"

text \<open>
  The two statements \<^verbatim>\<open>if (plen >= i40e->i40e_rx_dma_min) mp = i40e_rx_bind(...);
  if (mp == NULL) mp = i40e_rx_copy(...);\<close> of the loop body.
\<close>

definition rx_frame ::
  "i40e_conf \<Rightarrow> rx_env \<Rightarrow> nat \<Rightarrow> nat \<Rightarrow> i40e_trqpair \<Rightarrow> fault + (mblk option \<times> i40e_trqpair)"
  where
  "rx_frame conf env index plen itrq =
     (if plen \<ge> i40e_rx_dma_min conf
      then (case i40e_rx_bind env index plen itrq of
              Inl f \<Rightarrow> Inl f
            | Inr (Some mp, itrq') \<Rightarrow> Inr (Some mp, itrq')
            | Inr (None, itrq') \<Rightarrow> i40e_rx_copy env index plen itrq')
      else i40e_rx_copy env index plen itrq)"

text \<open>The variables of the descriptor walk of \<^verbatim>\<open>i40e_ring_rx\<close>.\<close>

record rx_walk =
  rw_itrq :: i40e_trqpair
  rw_cur_head :: nat
  rw_rx_bytes :: nat
  rw_rx_frames :: nat
  rw_mps :: "mblk list"

datatype 'a loop = Break 'a | Continue 'a

text \<open>The conversion of an \<^verbatim>\<open>int\<close> to \<^verbatim>\<open>uint64_t\<close>.\<close>

definition uint64_of_int :: "int \<Rightarrow> nat" where
  "uint64_of_int i = nat (i mod 2 ^ 64)"

text \<open>
  The end of the loop body, from the label \<^verbatim>\<open>discard\<close>: re-arm the descriptor,
  advance, count the frame and test the limit.
\<close>

definition rx_discard :: "i40e_conf \<Rightarrow> rx_walk \<Rightarrow> fault + rx_walk loop" where
  "rx_discard conf w =
     (let itrq = rw_itrq w; rxd = itrq_rxdata itrq; cur_head = rw_cur_head w in
      case rx_work_rcb rxd cur_head of
        Inl f \<Rightarrow> Inl f
      | Inr rcbi \<Rightarrow>
          if cur_head \<ge> length (rxd_desc_ring rxd) then Inl WildAccess
          else
            let rcb = rxd_rcb_area rxd ! rcbi;
                ring = (rxd_desc_ring rxd)
                  [cur_head := \<lparr>rxd_qword0 = dmab_dma_address (rcb_dma rcb), rxd_qword1 = 0\<rparr>];
                next = nat (i40e_next_desc (int cur_head) 1 (int (rxd_ring_size rxd)));
                frames = rw_rx_frames w + 1;
                w' = w\<lparr>rw_itrq := itrq\<lparr>itrq_rxdata := rxd\<lparr>rxd_desc_ring := ring\<rparr>\<rparr>,
                       rw_cur_head := next, rw_rx_frames := frames\<rparr>
            in if frames > i40e_rx_limit_per_intr conf
               then Inr (Break (w'\<lparr>rw_itrq := kstat_inc Irxs_rx_intr_limit (rw_itrq w')\<rparr>))
               else Inr (Continue w'))"

text \<open>The fields of the status word \<^verbatim>\<open>wb.qword1.status_error_len\<close> the loop reads.\<close>

definition rx_desc_dd :: "64 word \<Rightarrow> bool" where
  "rx_desc_dd stword \<longleftrightarrow> stword AND push_bit I40E_RX_DESC_STATUS_DD_SHIFT 1 \<noteq> 0"

definition rx_desc_eop :: "64 word \<Rightarrow> bool" where
  "rx_desc_eop stword \<longleftrightarrow> stword AND push_bit I40E_RX_DESC_STATUS_EOF_SHIFT 1 \<noteq> 0"

definition rx_desc_error :: "64 word \<Rightarrow> 32 word" where
  "rx_desc_error stword =
     ucast (drop_bit I40E_RXD_QW1_ERROR_SHIFT (stword AND I40E_RXD_QW1_ERROR_MASK))"

definition rx_desc_plen :: "64 word \<Rightarrow> nat" where
  "rx_desc_plen stword =
     unat (ucast (drop_bit I40E_RXD_QW1_LENGTH_PBUF_SHIFT
                    (stword AND I40E_RXD_QW1_LENGTH_PBUF_MASK)) :: 32 word)"

definition rx_desc_ptype :: "64 word \<Rightarrow> 32 word" where
  "rx_desc_ptype stword =
     ucast (drop_bit I40E_RXD_QW1_PTYPE_SHIFT (stword AND I40E_RXD_QW1_PTYPE_MASK))"

text \<open>
  One evaluation of the loop condition and body. \<open>env\<close> gives the platform's
  answers for this descriptor.
\<close>

definition rx_step :: "i40e_conf \<Rightarrow> rx_env \<Rightarrow> int \<Rightarrow> rx_walk \<Rightarrow> fault + rx_walk loop" where
  "rx_step conf env poll_bytes w =
     (let itrq = rw_itrq w; rxd = itrq_rxdata itrq; cur_head = rw_cur_head w in
      if cur_head \<ge> length (rxd_desc_ring rxd) then Inl WildAccess
      else
        let stword = rxd_qword1 (rxd_desc_ring rxd ! cur_head) in
        if \<not> rx_desc_dd stword then Inr (Break w)
        else if \<not> rx_desc_eop stword then Inl VerifyFailed
        else
          let error = rx_desc_error stword in
          if error AND I40E_RX_ERR_BITS \<noteq> 0
          then rx_discard conf (w\<lparr>rw_itrq := kstat_inc Irxs_rx_desc_error itrq\<rparr>)
          else
            let plen = rx_desc_plen stword;
                ptype = rx_desc_ptype stword
            in
            if poll_bytes \<noteq> I40E_POLL_NULL \<and>
               rw_rx_bytes w + plen > uint64_of_int poll_bytes
            then Inr (Break w)
            else (case rx_frame conf env cur_head plen itrq of
                    Inl f \<Rightarrow> Inl f
                  | Inr (mp, itrq') \<Rightarrow>
                      rx_discard conf (w\<lparr>rw_itrq := itrq',
                        rw_rx_bytes := rw_rx_bytes w + plen,
                        rw_mps := rw_mps w @
                          (case mp of
                             None \<Rightarrow> []
                           | Some m \<Rightarrow>
                               [if i40e_rx_hcksum_enable conf \<and>
                                   env_hcksum env stword error ptype \<noteq> 0
                                then mac_hcksum_set m (env_hcksum env stword error ptype)
                                else m])\<rparr>)))"

text \<open>
  The \<^verbatim>\<open>while\<close> loop of \<^verbatim>\<open>i40e_ring_rx\<close>. \<open>envs n\<close> gives the platform's answers
  for the descriptor processed after \<open>n\<close> descriptors have been consumed.
\<close>

function rx_loop ::
  "i40e_conf \<Rightarrow> (nat \<Rightarrow> rx_env) \<Rightarrow> int \<Rightarrow> rx_walk \<Rightarrow> fault + rx_walk" where
  "rx_loop conf envs poll_bytes w =
     (case rx_step conf (envs (rw_rx_frames w)) poll_bytes w of
        Inl f \<Rightarrow> Inl f
      | Inr (Break w') \<Rightarrow> Inr w'
      | Inr (Continue w') \<Rightarrow> rx_loop conf envs poll_bytes w')"
  by pat_completeness auto
termination
proof (relation "measure (\<lambda>(conf, envs, poll_bytes, w).
                   Suc (i40e_rx_limit_per_intr conf) - rw_rx_frames w)")
  show "wf (measure (\<lambda>(conf, envs, poll_bytes, w).
              Suc (i40e_rx_limit_per_intr conf) - rw_rx_frames w))"
    by simp
next
  fix conf :: i40e_conf and envs :: "nat \<Rightarrow> rx_env" and poll_bytes :: int
    and w :: rx_walk and r w'
  assume step: "rx_step conf (envs (rw_rx_frames w)) poll_bytes w = Inr r"
    and r: "r = Continue w'"
  have disc: "rw_rx_frames w' = Suc (rw_rx_frames w0) \<and>
              rw_rx_frames w' \<le> i40e_rx_limit_per_intr conf"
    if "rx_discard conf w0 = Inr (Continue w')" for w0
    using that
    by (auto simp: rx_discard_def Let_def split: sum.splits if_splits)
  from step r have "rw_rx_frames w' = Suc (rw_rx_frames w) \<and>
                    rw_rx_frames w' \<le> i40e_rx_limit_per_intr conf"
    by (auto simp: rx_step_def Let_def split: if_splits sum.splits prod.splits dest!: disc)
  then show "((conf, envs, poll_bytes, w'), (conf, envs, poll_bytes, w))
             \<in> measure (\<lambda>(conf, envs, poll_bytes, w).
                  Suc (i40e_rx_limit_per_intr conf) - rw_rx_frames w)"
    by (simp, arith)
qed

declare rx_loop.simps [simp del]

text \<open>
  The platform's answers during one call of \<^verbatim>\<open>i40e_ring_rx\<close>: the checks of the
  descriptor area's DMA handle before and after the walk, the check of the
  register handle after the tail write, and the answers for each descriptor.
\<close>

record rx_platform =
  plat_desc_dma_ok_entry :: bool
  plat_desc_dma_ok_exit :: bool
  plat_reg_ok :: bool
  plat_frames :: "nat \<Rightarrow> rx_env"

text \<open>The part of \<^verbatim>\<open>i40e_ring_rx\<close> after the loop.\<close>

definition rx_finish :: "rx_platform \<Rightarrow> rx_walk \<Rightarrow> i40e_trqpair" where
  "rx_finish plat w =
     (let itrq1 = (if plat_desc_dma_ok_exit plat then rw_itrq w else i40e_fm_error (rw_itrq w))
      in if rw_rx_frames w \<noteq> 0
         then
           let tail = i40e_prev_desc (int (rw_cur_head w)) 1
                        (int (rxd_ring_size (itrq_rxdata itrq1)));
               itrq2 = itrq1\<lparr>itrq_rxdata := (itrq_rxdata itrq1)\<lparr>rxd_desc_next := rw_cur_head w\<rparr>,
                              itrq_i40e := (itrq_i40e itrq1)\<lparr>i40e_reg_writes :=
                                i40e_reg_writes (itrq_i40e itrq1) @
                                [(I40E_QRX_TAIL (itrq_index itrq1), nat (tail mod 2 ^ 32))]\<rparr>\<rparr>;
               itrq3 = (if plat_reg_ok plat then itrq2 else i40e_fm_error itrq2)
           in kstat_add Irxs_packets (of_nat (rw_rx_frames w))
                (kstat_add Irxs_bytes (of_nat (rw_rx_bytes w)) itrq3)
         else itrq1)"

definition rx_walk_init :: "i40e_trqpair \<Rightarrow> rx_walk" where
  "rx_walk_init itrq = \<lparr>rw_itrq = itrq, rw_cur_head = rxd_desc_next (itrq_rxdata itrq),
     rw_rx_bytes = 0, rw_rx_frames = 0, rw_mps = []\<rparr>"

definition i40e_ring_rx ::
  "i40e_conf \<Rightarrow> rx_platform \<Rightarrow> int \<Rightarrow> i40e_trqpair \<Rightarrow> fault + (mblk list \<times> i40e_trqpair)"
  where
  "i40e_ring_rx conf plat poll_bytes itrq =
     (if \<not> i40e_state_ok (i40e_state (itrq_i40e itrq)) then Inr ([], itrq)
      else if \<not> plat_desc_dma_ok_entry plat then Inr ([], i40e_fm_error itrq)
      else (case rx_loop conf (plat_frames plat) poll_bytes (rx_walk_init itrq) of
              Inl f \<Rightarrow> Inl f
            | Inr w \<Rightarrow> Inr (rw_mps w, rx_finish plat w)))"

subsection \<open>Example states\<close>

text \<open>
  A started device with a receive ring of four descriptors, four control blocks
  on the work list and four on the free list, each with a buffer of eight
  bytes, and an idle transmit ring of four descriptors with six control blocks.
  \<open>ex_stword n\<close> is the status word of a completed descriptor (DD and EOP set,
  no error) of a frame of \<open>n\<close> bytes.
\<close>

definition ex_stword :: "64 word \<Rightarrow> 64 word" where
  "ex_stword n = push_bit 38 n OR 3"

definition ex_dma :: "nat \<Rightarrow> i40e_dma_buffer" where
  "ex_dma h = \<lparr>dmab_address = 0x1002, dmab_dma_address = 0x2002, dmab_size = 8, dmab_len = 0,
     dmab_dma_handle = Some h, dmab_acc_handle = Some h,
     dmab_mem = [1, 2, 3, 4, 5, 6, 7, 8]\<rparr>"

definition ex_rcb :: "nat \<Rightarrow> i40e_rx_control_block" where
  "ex_rcb h = \<lparr>rcb_ref = 1, rcb_mp = Some (desballoc (ex_dma h) h), rcb_dma = ex_dma h\<rparr>"

definition ex_rxd :: "i40e_rx_desc list \<Rightarrow> i40e_rx_data" where
  "ex_rxd ring = \<lparr>rxd_ring_size = 4, rxd_free_list_size = 4, rxd_desc_ring = ring,
     rxd_desc_next = 0,
     rxd_rcb_area = [ex_rcb 0, ex_rcb 1, ex_rcb 2, ex_rcb 3,
                     ex_rcb 4, ex_rcb 5, ex_rcb 6, ex_rcb 7],
     rxd_work_list = [Some 0, Some 1, Some 2, Some 3],
     rxd_free_list = [Some 4, Some 5, Some 6, Some 7],
     rxd_rcb_free = 4, rxd_rcb_pending = 0, rxd_shutdown = False, rxd_released = False\<rparr>"

definition ex_dev :: i40e_t where
  "ex_dev = \<lparr>i40e_state = 0x03, i40e_link_state = LINK_STATE_UP, i40e_rx_pending = 0,
     i40e_reg_writes = [], i40e_fm_service_impacts = 0, i40e_cv_broadcasts = 0,
     i40e_mac_tx_ring_updates = 0, i40e_ddi_calls = [], i40e_freemsgs = []\<rparr>"

definition ex_tcb :: "nat \<Rightarrow> i40e_tx_control_block" where
  "ex_tcb h = \<lparr>tcb_type = I40E_TX_NONE, tcb_mp = None,
     tcb_dma = (ex_dma h)\<lparr>dmab_size := 64, dmab_mem := replicate 64 0\<rparr>,
     tcb_dma_handle = 100 + h, tcb_lso_dma_handle = 200 + h,
     tcb_bind_info = [], tcb_used_lso = False\<rparr>"

definition ex_itrq :: "i40e_rx_desc list \<Rightarrow> i40e_trqpair" where
  "ex_itrq ring = \<lparr>itrq_index = 0, itrq_i40e = ex_dev, itrq_kstat = (\<lambda>k. 0),
     itrq_rxdata = ex_rxd ring,
     itrq_tx_ring_size = 4, itrq_tx_free_list_size = 6,
     itrq_desc_ring = replicate 4 \<lparr>txd_qword0 = 0, txd_qword1 = 0\<rparr>,
     itrq_desc_wbhead = 0, itrq_desc_head = 0, itrq_desc_tail = 0, itrq_desc_free = 4,
     itrq_tcb_area = [ex_tcb 0, ex_tcb 1, ex_tcb 2, ex_tcb 3, ex_tcb 4, ex_tcb 5],
     itrq_tcb_work_list = [None, None, None, None],
     itrq_tcb_free_list = [Some 0, Some 1, Some 2, Some 3, Some 4, Some 5],
     itrq_tcb_free = 6, itrq_tx_blocked = False\<rparr>"

definition ex_conf :: i40e_conf where
  "ex_conf = \<lparr>i40e_rx_dma_min = 256, i40e_rx_limit_per_intr = 256,
     i40e_rx_hcksum_enable = True, i40e_tx_hcksum_enable = True,
     i40e_tx_dma_min = 256, i40e_tx_block_thresh = 2\<rparr>"

definition ex_env :: rx_env where
  "ex_env = \<lparr>env_bind_desballoc_ok = True, env_bind_dma_ok = True, env_copy_dma_ok = True,
     env_allocb_ok = True, env_hcksum = (\<lambda>stword err ptype. 0)\<rparr>"

definition ex_plat :: rx_platform where
  "ex_plat = \<lparr>plat_desc_dma_ok_entry = True, plat_desc_dma_ok_exit = True,
     plat_reg_ok = True, plat_frames = (\<lambda>n. ex_env)\<rparr>"

definition ex_ready :: "64 word \<Rightarrow> i40e_rx_desc" where
  "ex_ready n = \<lparr>rxd_qword0 = 0, rxd_qword1 = ex_stword n\<rparr>"

definition ex_armed :: i40e_rx_desc where
  "ex_armed = \<lparr>rxd_qword0 = 0x2002, rxd_qword1 = 0\<rparr>"

subsection \<open>Auxiliary notions for the statements\<close>

text \<open>
  The walk variables a loop step hands on, whether it breaks or continues; the
  parts of the queue pair the walk never writes (the ring's index and size, the
  software head \<open>rxd_desc_next\<close>, the register writes made so far); and the status word of the descriptor the walk
  is looking at.
\<close>

definition loop_val :: "'a loop \<Rightarrow> 'a" where
  "loop_val r = (case r of Break x \<Rightarrow> x | Continue x \<Rightarrow> x)"

definition rx_static ::
  "i40e_trqpair \<Rightarrow> nat \<times> nat \<times> nat \<times> (i40e_reg \<times> nat) list" where
  "rx_static itrq = (itrq_index itrq, rxd_ring_size (itrq_rxdata itrq),
     rxd_desc_next (itrq_rxdata itrq), i40e_reg_writes (itrq_i40e itrq))"

definition rx_stword :: "rx_walk \<Rightarrow> 64 word" where
  "rx_stword w = rxd_qword1 (rxd_desc_ring (itrq_rxdata (rw_itrq w)) ! rw_cur_head w)"

text \<open>
  Two receive rings: one on which no descriptor is complete, and one with
  completed frames of 4, 5 and 6 bytes followed by an armed descriptor.
\<close>

definition ex_idle :: i40e_trqpair where
  "ex_idle = ex_itrq [ex_armed, ex_armed, ex_armed, ex_armed]"

definition ex_three :: i40e_trqpair where
  "ex_three = ex_itrq [ex_ready 4, ex_ready 5, ex_ready 6, ex_armed]"

text \<open>
  The idle ring with a first control block that holds no reference, and the
  ring of three frames with an empty free list.
\<close>

definition ex_ref_zero :: i40e_trqpair where
  "ex_ref_zero = ex_idle\<lparr>itrq_rxdata := (ex_rxd [ex_armed, ex_armed, ex_armed, ex_armed])
     \<lparr>rxd_rcb_area := [(ex_rcb 0)\<lparr>rcb_ref := 0, rcb_mp := None\<rparr>, ex_rcb 1, ex_rcb 2, ex_rcb 3,
                       ex_rcb 4, ex_rcb 5, ex_rcb 6, ex_rcb 7]\<rparr>\<rparr>"

definition ex_no_free :: i40e_trqpair where
  "ex_no_free = ex_three\<lparr>itrq_rxdata := (itrq_rxdata ex_three)
     \<lparr>rxd_free_list := [None, None, None, None], rxd_rcb_free := 0\<rparr>\<rparr>"

subsection \<open>The transmit frame parser\<close>

text \<open>
  Constants of the network headers (\<^verbatim>\<open>sys/ethernet.h\<close>, \<^verbatim>\<open>netinet/in.h\<close>,
  \<^verbatim>\<open>inet/ip.h\<close>, \<^verbatim>\<open>sys/vxlan.h\<close>, \<^verbatim>\<open>sys/mac_provider.h\<close>), which are not among
  the sources at hand: the Ethernet types, the IP protocol numbers, the offsets
  and sizes the parser takes with \<^verbatim>\<open>offsetof\<close> and \<^verbatim>\<open>sizeof\<close>, and the two
  tunnel types.
\<close>

definition ETHERTYPE_IP :: "16 word" where "ETHERTYPE_IP = 0x0800"
definition ETHERTYPE_VLAN :: "16 word" where "ETHERTYPE_VLAN = 0x8100"
definition ETHERTYPE_IPV6 :: "16 word" where "ETHERTYPE_IPV6 = 0x86dd"
definition IPPROTO_TCP :: "8 word" where "IPPROTO_TCP = 6"
definition IPPROTO_UDP :: "8 word" where "IPPROTO_UDP = 17"
definition IPPROTO_SCTP :: "8 word" where "IPPROTO_SCTP = 132"
definition TTYPE_NONE :: "32 word" where "TTYPE_NONE = 0"
definition TTYPE_VXLAN :: "32 word" where "TTYPE_VXLAN = 1"
definition VXLAN_HDR_LEN :: nat where "VXLAN_HDR_LEN = 8"

definition off_ether_type :: nat where "off_ether_type = 12"
definition off_vlan_ether_type :: nat where "off_vlan_ether_type = 16"
definition sizeof_ether_header :: "8 word" where "sizeof_ether_header = 14"
definition sizeof_ether_vlan_header :: "8 word" where "sizeof_ether_vlan_header = 18"
definition off_ipha_version_and_hdr_length :: nat where "off_ipha_version_and_hdr_length = 0"
definition off_ipha_protocol :: nat where "off_ipha_protocol = 9"
definition off_ip6_nxt :: nat where "off_ip6_nxt = 6"
definition off_th_offset_and_rsrvd :: nat where "off_th_offset_and_rsrvd = 12"
definition sizeof_udphdr :: "8 word" where "sizeof_udphdr = 8"
definition sizeof_sctp_hdr :: "8 word" where "sizeof_sctp_hdr = 12"

definition MEOI_L2INFO_SET :: "32 word" where "MEOI_L2INFO_SET = 0x01"
definition MEOI_VLAN_TAGGED :: "32 word" where "MEOI_VLAN_TAGGED = 0x02"
definition MEOI_L3INFO_SET :: "32 word" where "MEOI_L3INFO_SET = 0x04"
definition MEOI_L3CKSUM_SET :: "32 word" where "MEOI_L3CKSUM_SET = 0x08"
definition MEOI_L4INFO_SET :: "32 word" where "MEOI_L4INFO_SET = 0x10"
definition MEOI_L4CKSUM_SET :: "32 word" where "MEOI_L4CKSUM_SET = 0x20"
definition MEOI_TUNNEL_INFO_SET :: "32 word" where "MEOI_TUNNEL_INFO_SET = 0x40"
definition MEOI_L2_L3_L4 :: "32 word" where
  "MEOI_L2_L3_L4 = MEOI_L2INFO_SET OR MEOI_L3INFO_SET OR MEOI_L4INFO_SET"

text \<open>
  \<^verbatim>\<open>mac_ether_offload_info_t\<close>, without the four members the source marks as
  not used.
\<close>

record mac_ether_offload_info_t =
  meoi_flags :: "32 word"
  meoi_l2hlen :: "8 word"
  meoi_l3proto :: "16 word"
  meoi_l3hlen :: "8 word"
  meoi_l4proto :: "8 word"
  meoi_l4hlen :: "8 word"
  meoi_tun_protlen :: "8 word"
  meoi_tun_l2hlen :: "8 word"
  meoi_tun_l3proto :: "16 word"
  meoi_tun_l3hlen :: "8 word"
  meoi_tun_l4proto :: "8 word"
  meoi_tun_l4hlen :: "8 word"

definition meoi_zero :: mac_ether_offload_info_t where
  "meoi_zero = \<lparr>meoi_flags = 0, meoi_l2hlen = 0, meoi_l3proto = 0, meoi_l3hlen = 0,
     meoi_l4proto = 0, meoi_l4hlen = 0, meoi_tun_protlen = 0, meoi_tun_l2hlen = 0,
     meoi_tun_l3proto = 0, meoi_tun_l3hlen = 0, meoi_tun_l4proto = 0, meoi_tun_l4hlen = 0\<rparr>"

text \<open>
  The walk \<^verbatim>\<open>while (off >= mpsize) { mp = mp->b_cont; off -= mpsize; mpsize =
  MBLKL(mp); }\<close> of the two byte readers: the block the offset falls into, the
  blocks after it, and the offset within it. Running off the end of the chain
  dereferences \<^verbatim>\<open>NULL\<close>.
\<close>

fun meoi_walk :: "mblk list \<Rightarrow> nat \<Rightarrow> fault + (mblk \<times> mblk list \<times> nat)" where
  "meoi_walk [] off = Inl NullDeref"
| "meoi_walk (m # ms) off =
     (if off \<ge> MBLKL m then meoi_walk ms (off - MBLKL m) else Inr (m, ms, off))"

text \<open>The byte at \<^verbatim>\<open>mp->b_rptr + off\<close>; outside the data buffer the read is a fault.\<close>

definition mblk_byte :: "mblk \<Rightarrow> nat \<Rightarrow> fault + 8 word" where
  "mblk_byte m off =
     (if b_rptr m + off < length (db_mem m) then Inr (db_mem m ! (b_rptr m + off))
      else Inl WildAccess)"

text \<open>
  The two readers return \<open>None\<close> for the C return value \<open>-1\<close> and the value
  read for \<open>0\<close>. Both test \<^verbatim>\<open>off + sizeof (uint16_t) > mpsize\<close>.
\<close>

definition i40e_meoi_get_uint8 :: "mblk list \<Rightarrow> nat \<Rightarrow> fault + 8 word option" where
  "i40e_meoi_get_uint8 mp off =
     (if off + 2 > msgsize mp then Inr None
      else (case meoi_walk mp off of
              Inl f \<Rightarrow> Inl f
            | Inr (m, ms, off') \<Rightarrow>
                (case mblk_byte m off' of Inl f \<Rightarrow> Inl f | Inr b \<Rightarrow> Inr (Some b))))"

definition i40e_meoi_get_uint16 :: "mblk list \<Rightarrow> nat \<Rightarrow> fault + 16 word option" where
  "i40e_meoi_get_uint16 mp off =
     (if off + 2 > msgsize mp then Inr None
      else (case meoi_walk mp off of
              Inl f \<Rightarrow> Inl f
            | Inr (m, ms, off') \<Rightarrow>
                (case mblk_byte m off' of
                   Inl f \<Rightarrow> Inl f
                 | Inr hi \<Rightarrow>
                     (case (if off' + 1 = MBLKL m
                            then (case ms of [] \<Rightarrow> Inl NullDeref | m' # ms' \<Rightarrow> mblk_byte m' 0)
                            else mblk_byte m (off' + 1)) of
                        Inl f \<Rightarrow> Inl f
                      | Inr lo \<Rightarrow> Inr (Some (push_bit 8 (ucast hi) OR ucast lo))))))"

text \<open>
  \<^verbatim>\<open>mac_ether_offload_info(mp, meoi, ttype, starting_off)\<close>: the C return value
  together with the structure as the function leaves it.
\<close>

function mac_ether_offload_info ::
  "mblk list \<Rightarrow> 32 word \<Rightarrow> nat \<Rightarrow> fault + (int \<times> mac_ether_offload_info_t)" where
  "mac_ether_offload_info mp ttype starting_off =
     (let meoi = meoi_zero in
      if ttype \<noteq> TTYPE_NONE \<and> ttype \<noteq> TTYPE_VXLAN then Inr (-1, meoi)
      else
      case i40e_meoi_get_uint16 mp (off_ether_type + starting_off) of
        Inl f \<Rightarrow> Inl f
      | Inr None \<Rightarrow> Inr (-1, meoi)
      | Inr (Some ether0) \<Rightarrow>
      case (if ether0 = ETHERTYPE_VLAN
            then (case i40e_meoi_get_uint16 mp (off_vlan_ether_type + starting_off) of
                    Inl f \<Rightarrow> Inl f
                  | Inr None \<Rightarrow> Inr None
                  | Inr (Some e) \<Rightarrow>
                      Inr (Some (e, sizeof_ether_vlan_header,
                                 meoi\<lparr>meoi_flags := meoi_flags meoi OR MEOI_VLAN_TAGGED\<rparr>)))
            else Inr (Some (ether0, sizeof_ether_header, meoi))) of
        Inl f \<Rightarrow> Inl f
      | Inr None \<Rightarrow> Inr (-1, meoi)
      | Inr (Some (ether, maclen, meoi1)) \<Rightarrow>
      let meoi2 = meoi1\<lparr>meoi_flags := meoi_flags meoi1 OR MEOI_L2INFO_SET,
                        meoi_l2hlen := maclen, meoi_l3proto := ether\<rparr>
      in
      case (if ether = ETHERTYPE_IP
            then (case i40e_meoi_get_uint8 mp
                         (off_ipha_version_and_hdr_length + unat maclen + starting_off) of
                    Inl f \<Rightarrow> Inl f
                  | Inr None \<Rightarrow> Inr (Inl (-1))
                  | Inr (Some b) \<Rightarrow>
                      let iplen = b AND 0x0f in
                      if iplen < 5 \<or> iplen > 0x0f then Inr (Inl (-1))
                      else (case i40e_meoi_get_uint8 mp
                                   (off_ipha_protocol + unat maclen + starting_off) of
                              Inl f \<Rightarrow> Inl f
                            | Inr None \<Rightarrow> Inr (Inl (-1))
                            | Inr (Some ipproto) \<Rightarrow> Inr (Inr (iplen * 4, ipproto))))
            else if ether = ETHERTYPE_IPV6
            then (case i40e_meoi_get_uint8 mp (off_ip6_nxt + unat maclen + starting_off) of
                    Inl f \<Rightarrow> Inl f
                  | Inr None \<Rightarrow> Inr (Inl (-1))
                  | Inr (Some ipproto) \<Rightarrow> Inr (Inr (40, ipproto)))
            else Inr (Inl 0)) of
        Inl f \<Rightarrow> Inl f
      | Inr (Inl ret) \<Rightarrow> Inr (ret, meoi2)
      | Inr (Inr (iplen, ipproto)) \<Rightarrow>
      let meoi3 = meoi2\<lparr>meoi_l3hlen := iplen, meoi_l4proto := ipproto,
                        meoi_flags := meoi_flags meoi2 OR MEOI_L3INFO_SET\<rparr>
      in
      case (if ipproto = IPPROTO_TCP
            then (case i40e_meoi_get_uint8 mp
                         (off_th_offset_and_rsrvd + unat maclen + unat iplen + starting_off) of
                    Inl f \<Rightarrow> Inl f
                  | Inr None \<Rightarrow> Inr (Inl (-1))
                  | Inr (Some b) \<Rightarrow>
                      let l4len = drop_bit 4 (b AND 0xf0) in
                      if l4len < 5 \<or> l4len > 0xf then Inr (Inl (-1))
                      else Inr (Inr (l4len * 4)))
            else if ipproto = IPPROTO_UDP then Inr (Inr sizeof_udphdr)
            else if ipproto = IPPROTO_SCTP then Inr (Inr sizeof_sctp_hdr)
            else Inr (Inl 0)) of
        Inl f \<Rightarrow> Inl f
      | Inr (Inl ret) \<Rightarrow> Inr (ret, meoi3)
      | Inr (Inr l4len) \<Rightarrow>
      let meoi4 = meoi3\<lparr>meoi_l4hlen := l4len,
                        meoi_flags := meoi_flags meoi3 OR MEOI_L4INFO_SET\<rparr>
      in
      if ttype = TTYPE_VXLAN
      then
        if ipproto \<noteq> IPPROTO_UDP then Inr (-1, meoi4)
        else (case mac_ether_offload_info mp TTYPE_NONE
                     (unat maclen + unat iplen + unat l4len + VXLAN_HDR_LEN) of
                Inl f \<Rightarrow> Inl f
              | Inr (ret, meo) \<Rightarrow>
                  if ret \<noteq> 0 then Inr (ret, meoi4)
                  else if meoi_flags meo AND MEOI_L2_L3_L4 \<noteq> MEOI_L2_L3_L4
                  then Inr (-1, meoi4)
                  else Inr (0, meoi4\<lparr>meoi_tun_protlen := of_nat VXLAN_HDR_LEN,
                                      meoi_tun_l2hlen := meoi_l2hlen meo,
                                      meoi_tun_l3proto := meoi_l3proto meo,
                                      meoi_tun_l3hlen := meoi_l3hlen meo,
                                      meoi_tun_l4proto := meoi_l4proto meo,
                                      meoi_tun_l4hlen := meoi_l4hlen meo,
                                      meoi_flags := meoi_flags meoi4 OR MEOI_TUNNEL_INFO_SET\<rparr>))
      else Inr (0, meoi4))"
  by pat_completeness auto
termination
  by (relation "measure (\<lambda>(mp, ttype, starting_off). if ttype = TTYPE_VXLAN then 1 else 0)")
     (auto simp: TTYPE_VXLAN_def TTYPE_NONE_def)

declare mac_ether_offload_info.simps [simp del]

subsection \<open>The transmit context\<close>

text \<open>
  Constants of \<^verbatim>\<open>sys/pattr.h\<close>, \<^verbatim>\<open>i40e_type.h\<close> and \<^verbatim>\<open>i40e_sw.h\<close>, which are not
  among the sources at hand. The command bits, shifts and descriptor types are
  those of the device's descriptor formats. The values of the two
  \<^verbatim>\<open>HCK_INNER\<close> flags stand for those of \<^verbatim>\<open>sys/pattr.h\<close>; the functions only
  test them as bits of the checksum flags.
\<close>

definition HCK_IPV4_HDRCKSUM :: "32 word" where "HCK_IPV4_HDRCKSUM = 0x01"
definition HCK_PARTIALCKSUM :: "32 word" where "HCK_PARTIALCKSUM = 0x02"
definition HCK_INNER_IPV4_HDRCKSUM_NEEDED :: "32 word" where
  "HCK_INNER_IPV4_HDRCKSUM_NEEDED = 0x20"
definition HCK_INNER_PSEUDO_NEEDED :: "32 word" where "HCK_INNER_PSEUDO_NEEDED = 0x40"
definition HW_LSO :: "32 word" where "HW_LSO = 0x10"

definition I40E_TX_DESC_CMD_EOP :: "32 word" where "I40E_TX_DESC_CMD_EOP = 0x0001"
definition I40E_TX_DESC_CMD_RS :: "32 word" where "I40E_TX_DESC_CMD_RS = 0x0002"
definition I40E_TX_DESC_CMD_ICRC :: "32 word" where "I40E_TX_DESC_CMD_ICRC = 0x0004"
definition I40E_TX_DESC_CMD_IIPT_IPV6 :: "32 word" where "I40E_TX_DESC_CMD_IIPT_IPV6 = 0x0020"
definition I40E_TX_DESC_CMD_IIPT_IPV4 :: "32 word" where "I40E_TX_DESC_CMD_IIPT_IPV4 = 0x0040"
definition I40E_TX_DESC_CMD_IIPT_IPV4_CSUM :: "32 word" where
  "I40E_TX_DESC_CMD_IIPT_IPV4_CSUM = 0x0060"
definition I40E_TX_DESC_CMD_L4T_EOFT_TCP :: "32 word" where
  "I40E_TX_DESC_CMD_L4T_EOFT_TCP = 0x0100"
definition I40E_TX_DESC_CMD_L4T_EOFT_SCTP :: "32 word" where
  "I40E_TX_DESC_CMD_L4T_EOFT_SCTP = 0x0200"
definition I40E_TX_DESC_CMD_L4T_EOFT_UDP :: "32 word" where
  "I40E_TX_DESC_CMD_L4T_EOFT_UDP = 0x0300"

definition I40E_TX_DESC_LENGTH_MACLEN_SHIFT :: nat where "I40E_TX_DESC_LENGTH_MACLEN_SHIFT = 0"
definition I40E_TX_DESC_LENGTH_IPLEN_SHIFT :: nat where "I40E_TX_DESC_LENGTH_IPLEN_SHIFT = 7"
definition I40E_TX_DESC_LENGTH_L4_FC_LEN_SHIFT :: nat where
  "I40E_TX_DESC_LENGTH_L4_FC_LEN_SHIFT = 14"

definition I40E_TX_DESC_DTYPE_DATA :: "64 word" where "I40E_TX_DESC_DTYPE_DATA = 0x0"
definition I40E_TX_DESC_DTYPE_CONTEXT :: "64 word" where "I40E_TX_DESC_DTYPE_CONTEXT = 0x1"
definition I40E_TXD_QW1_CMD_SHIFT :: nat where "I40E_TXD_QW1_CMD_SHIFT = 4"
definition I40E_TXD_QW1_OFFSET_SHIFT :: nat where "I40E_TXD_QW1_OFFSET_SHIFT = 16"
definition I40E_TXD_QW1_TX_BUF_SZ_SHIFT :: nat where "I40E_TXD_QW1_TX_BUF_SZ_SHIFT = 34"

definition I40E_TX_CTX_DESC_TSO :: "32 word" where "I40E_TX_CTX_DESC_TSO = 0x01"
definition I40E_TXD_CTX_QW1_CMD_SHIFT :: nat where "I40E_TXD_CTX_QW1_CMD_SHIFT = 4"
definition I40E_TXD_CTX_QW1_TSO_LEN_SHIFT :: nat where "I40E_TXD_CTX_QW1_TSO_LEN_SHIFT = 30"
definition I40E_TXD_CTX_QW1_MSS_SHIFT :: nat where "I40E_TXD_CTX_QW1_MSS_SHIFT = 50"

definition I40E_TX_DESC_TNL_EIPT_IPV6 :: "32 word" where "I40E_TX_DESC_TNL_EIPT_IPV6 = 1"
definition I40E_TX_DESC_TNL_EIPT_IPV4 :: "32 word" where "I40E_TX_DESC_TNL_EIPT_IPV4 = 2"
definition I40E_TX_DESC_TNL_EIPT_IPV4_CSUM :: "32 word" where
  "I40E_TX_DESC_TNL_EIPT_IPV4_CSUM = 3"
definition I40E_TX_DESC_TNL_L4TUNT_UDP :: "32 word" where "I40E_TX_DESC_TNL_L4TUNT_UDP = 1"

definition I40E_TXD_TNL_SET_EIPT :: "32 word \<Rightarrow> 32 word" where
  "I40E_TXD_TNL_SET_EIPT x = push_bit 0 x"
definition I40E_TXD_TNL_SET_EIPLEN :: "32 word \<Rightarrow> 32 word" where
  "I40E_TXD_TNL_SET_EIPLEN x = push_bit 2 x"
definition I40E_TXD_TNL_SET_L4TUNT :: "32 word \<Rightarrow> 32 word" where
  "I40E_TXD_TNL_SET_L4TUNT x = push_bit 9 x"
definition I40E_TXD_TNL_SET_L4TUNLEN :: "32 word \<Rightarrow> 32 word" where
  "I40E_TXD_TNL_SET_L4TUNLEN x = push_bit 12 x"
definition I40E_TXD_TNL_SET_DECTTL :: "32 word \<Rightarrow> 32 word" where
  "I40E_TXD_TNL_SET_DECTTL x = push_bit 19 x"

record i40e_tx_context_t =
  itc_data_cmdflags :: "32 word"
  itc_data_offsets :: "32 word"
  itc_ctx_tunneled :: bool
  itc_ctx_tunnel_fld :: "32 word"
  itc_ctx_cmdflags :: "32 word"
  itc_ctx_tsolen :: "32 word"
  itc_ctx_mss :: "32 word"

definition tctx_zero :: i40e_tx_context_t where
  "tctx_zero = \<lparr>itc_data_cmdflags = 0, itc_data_offsets = 0, itc_ctx_tunneled = False,
     itc_ctx_tunnel_fld = 0, itc_ctx_cmdflags = 0, itc_ctx_tsolen = 0, itc_ctx_mss = 0\<rparr>"

text \<open>
  The attributes of a frame are those of its first block; a \<^verbatim>\<open>NULL\<close> frame is
  dereferenced.
\<close>

definition frame_head :: "mblk list \<Rightarrow> fault + mblk" where
  "frame_head mp = (case mp of [] \<Rightarrow> Inl NullDeref | m # ms \<Rightarrow> Inr m)"

text \<open>
  The switch on an L4 protocol that selects the \<^verbatim>\<open>L4T\<close> command bits, used for
  the inner protocol of a tunnelled frame and for the protocol of a plain one.
\<close>

definition tx_l4t :: "8 word \<Rightarrow> 32 word option" where
  "tx_l4t proto =
     (if proto = IPPROTO_TCP then Some I40E_TX_DESC_CMD_L4T_EOFT_TCP
      else if proto = IPPROTO_UDP then Some I40E_TX_DESC_CMD_L4T_EOFT_UDP
      else if proto = IPPROTO_SCTP then Some I40E_TX_DESC_CMD_L4T_EOFT_SCTP
      else None)"

text \<open>
  The branch \<^verbatim>\<open>if (tunneled) { ... }\<close> of \<^verbatim>\<open>i40e_tx_context\<close>: return value,
  context and queue pair (for the counters).
\<close>

definition tx_context_tunneled ::
  "32 word \<Rightarrow> mac_ether_offload_info_t \<Rightarrow> i40e_tx_context_t \<Rightarrow> i40e_trqpair \<Rightarrow>
   int \<times> i40e_tx_context_t \<times> i40e_trqpair" where
  "tx_context_tunneled chkflags meo tctx itrq =
     (if meoi_flags meo AND MEOI_L2INFO_SET = 0
      then (-1, tctx, kstat_inc Itxs_hck_nol2info itrq)
      else if meoi_flags meo AND MEOI_L3INFO_SET = 0
      then (-1, tctx, kstat_inc Itxs_hck_nol3info itrq)
      else if meoi_flags meo AND MEOI_L4INFO_SET = 0 \<or> meoi_l4proto meo \<noteq> IPPROTO_UDP
      then (-1, tctx, kstat_inc Itxs_hck_badl4 itrq)
      else if meoi_flags meo AND MEOI_TUNNEL_INFO_SET = 0 then (-1, tctx, itrq)
      else if chkflags AND HCK_PARTIALCKSUM \<noteq> 0 then (-1, tctx, itrq)
      else
        let l4tunlen = (ucast (meoi_l4hlen meo) + ucast (meoi_tun_l2hlen meo) +
                        ucast (meoi_tun_protlen meo) :: 32 word)
        in
        case (if chkflags AND HCK_IPV4_HDRCKSUM \<noteq> 0
              then (if meoi_l3proto meo = ETHERTYPE_IP
                    then Some I40E_TX_DESC_TNL_EIPT_IPV4_CSUM else None)
              else (if meoi_l3proto meo = ETHERTYPE_IP then Some I40E_TX_DESC_TNL_EIPT_IPV4
                    else if meoi_l3proto meo = ETHERTYPE_IPV6
                    then Some I40E_TX_DESC_TNL_EIPT_IPV6 else None)) of
          None \<Rightarrow> (-1, tctx, kstat_inc Itxs_hck_badl3 itrq)
        | Some eipt \<Rightarrow>
        let tctx1 = tctx\<lparr>itc_ctx_tunnel_fld :=
                       I40E_TXD_TNL_SET_EIPT eipt OR
                       I40E_TXD_TNL_SET_EIPLEN (ucast (drop_bit 2 (meoi_l3hlen meo))) OR
                       I40E_TXD_TNL_SET_L4TUNT I40E_TX_DESC_TNL_L4TUNT_UDP OR
                       I40E_TXD_TNL_SET_L4TUNLEN (drop_bit 1 l4tunlen) OR
                       I40E_TXD_TNL_SET_DECTTL 0,
                     itc_data_offsets := itc_data_offsets tctx OR
                       push_bit I40E_TX_DESC_LENGTH_MACLEN_SHIFT
                         (ucast (drop_bit 1 (meoi_l2hlen meo)))\<rparr>
        in
        case (if chkflags AND HCK_INNER_IPV4_HDRCKSUM_NEEDED \<noteq> 0
              then (if meoi_tun_l3proto meo \<noteq> ETHERTYPE_IP then None
                    else Some I40E_TX_DESC_CMD_IIPT_IPV4_CSUM)
              else (if meoi_l3proto meo = ETHERTYPE_IP then Some I40E_TX_DESC_CMD_IIPT_IPV4
                    else if meoi_l3proto meo = ETHERTYPE_IPV6
                    then Some I40E_TX_DESC_CMD_IIPT_IPV6 else None)) of
          None \<Rightarrow> (-1, tctx1, kstat_inc Itxs_hck_badl3 itrq)
        | Some iipt \<Rightarrow>
        let tctx2 = tctx1\<lparr>itc_data_cmdflags := itc_data_cmdflags tctx1 OR iipt,
                      itc_data_offsets := itc_data_offsets tctx1 OR
                        push_bit I40E_TX_DESC_LENGTH_IPLEN_SHIFT
                          (ucast (drop_bit 2 (meoi_tun_l3hlen meo)))\<rparr>
        in
        if chkflags AND HCK_INNER_PSEUDO_NEEDED \<noteq> 0
        then (case tx_l4t (meoi_tun_l4proto meo) of
                None \<Rightarrow> (-1, tctx2, kstat_inc Itxs_hck_badl4 itrq)
              | Some l4t \<Rightarrow>
                  (0, tctx2\<lparr>itc_data_cmdflags := itc_data_cmdflags tctx2 OR l4t,
                       itc_data_offsets := itc_data_offsets tctx2 OR
                         push_bit I40E_TX_DESC_LENGTH_L4_FC_LEN_SHIFT
                           (ucast (drop_bit 2 (meoi_tun_l4hlen meo)))\<rparr>, itrq))
        else (0, tctx2, itrq))"

text \<open>The branch \<^verbatim>\<open>else { /* Not tunneled */ ... }\<close>.\<close>

definition tx_context_plain ::
  "32 word \<Rightarrow> mac_ether_offload_info_t \<Rightarrow> i40e_tx_context_t \<Rightarrow> i40e_trqpair \<Rightarrow>
   int \<times> i40e_tx_context_t \<times> i40e_trqpair" where
  "tx_context_plain chkflags meo tctx itrq =
     (case (if chkflags AND HCK_IPV4_HDRCKSUM \<noteq> 0
            then (if meoi_flags meo AND MEOI_L2INFO_SET = 0
                  then Inl (kstat_inc Itxs_hck_nol2info itrq)
                  else if meoi_flags meo AND MEOI_L3INFO_SET = 0
                  then Inl (kstat_inc Itxs_hck_nol3info itrq)
                  else if meoi_l3proto meo \<noteq> ETHERTYPE_IP
                  then Inl (kstat_inc Itxs_hck_badl3 itrq)
                  else Inr (tctx\<lparr>itc_data_cmdflags :=
                                    itc_data_cmdflags tctx OR I40E_TX_DESC_CMD_IIPT_IPV4_CSUM,
                                  itc_data_offsets := itc_data_offsets tctx OR
                                    push_bit I40E_TX_DESC_LENGTH_MACLEN_SHIFT
                                      (ucast (drop_bit 1 (meoi_l2hlen meo))) OR
                                    push_bit I40E_TX_DESC_LENGTH_IPLEN_SHIFT
                                      (ucast (drop_bit 2 (meoi_l3hlen meo)))\<rparr>))
            else Inr tctx) of
        Inl itrq' \<Rightarrow> (-1, tctx, itrq')
      | Inr tctx1 \<Rightarrow>
          if chkflags AND HCK_PARTIALCKSUM \<noteq> 0
          then
            if meoi_flags meo AND MEOI_L4INFO_SET = 0
            then (-1, tctx1, kstat_inc Itxs_hck_nol4info itrq)
            else
              (case (if chkflags AND HCK_IPV4_HDRCKSUM = 0
                     then (if meoi_flags meo AND MEOI_L2INFO_SET = 0
                           then Inl (kstat_inc Itxs_hck_nol2info itrq)
                           else if meoi_flags meo AND MEOI_L3INFO_SET = 0
                           then Inl (kstat_inc Itxs_hck_nol3info itrq)
                           else
                             (case (if meoi_l3proto meo = ETHERTYPE_IP
                                    then Some I40E_TX_DESC_CMD_IIPT_IPV4
                                    else if meoi_l3proto meo = ETHERTYPE_IPV6
                                    then Some I40E_TX_DESC_CMD_IIPT_IPV6 else None) of
                                None \<Rightarrow> Inl (kstat_inc Itxs_hck_badl3 itrq)
                              | Some iipt \<Rightarrow>
                                  Inr (tctx1\<lparr>itc_data_cmdflags :=
                                               itc_data_cmdflags tctx1 OR iipt,
                                             itc_data_offsets := itc_data_offsets tctx1 OR
                                               push_bit I40E_TX_DESC_LENGTH_MACLEN_SHIFT
                                                 (ucast (drop_bit 1 (meoi_l2hlen meo))) OR
                                               push_bit I40E_TX_DESC_LENGTH_IPLEN_SHIFT
                                                 (ucast (drop_bit 2 (meoi_l3hlen meo)))\<rparr>)))
                     else Inr tctx1) of
                 Inl itrq' \<Rightarrow> (-1, tctx1, itrq')
               | Inr tctx2 \<Rightarrow>
                   (case tx_l4t (meoi_l4proto meo) of
                      None \<Rightarrow> (-1, tctx2, kstat_inc Itxs_hck_badl4 itrq)
                    | Some l4t \<Rightarrow>
                        (0, tctx2\<lparr>itc_data_cmdflags := itc_data_cmdflags tctx2 OR l4t,
                             itc_data_offsets := itc_data_offsets tctx2 OR
                               push_bit I40E_TX_DESC_LENGTH_L4_FC_LEN_SHIFT
                                 (ucast (drop_bit 2 (meoi_l4hlen meo)))\<rparr>, itrq)))
          else (0, tctx1, itrq))"

text \<open>
  \<^verbatim>\<open>i40e_tx_context(i40e, itrq, mp, tctx)\<close>: return value, context, and the
  queue pair with its counters.
\<close>

definition i40e_tx_context ::
  "i40e_conf \<Rightarrow> mblk list \<Rightarrow> i40e_trqpair \<Rightarrow>
   fault + (int \<times> i40e_tx_context_t \<times> i40e_trqpair)" where
  "i40e_tx_context conf mp itrq =
     (let tctx = tctx_zero in
      if \<not> i40e_tx_hcksum_enable conf then Inr (0, tctx, itrq)
      else
      case frame_head mp of
        Inl f \<Rightarrow> Inl f
      | Inr m \<Rightarrow>
      let chkflags = db_cksumflags m; mss = db_mss m; lsoflags = db_lsoflags m;
          ttype = db_ttype m
      in
      if chkflags = 0 \<and> lsoflags = 0 then Inr (0, tctx, itrq)
      else
      let tunneled = (chkflags AND
             (HCK_INNER_IPV4_HDRCKSUM_NEEDED OR HCK_INNER_PSEUDO_NEEDED) \<noteq> 0)
      in
      if tunneled \<and> ttype \<noteq> TTYPE_VXLAN then Inr (-1, tctx, itrq)
      else
      let tctx1 = tctx\<lparr>itc_ctx_tunneled := tunneled\<rparr> in
      case mac_ether_offload_info mp ttype 0 of
        Inl f \<Rightarrow> Inl f
      | Inr (ret, meo) \<Rightarrow>
      if ret \<noteq> 0 then Inr (ret, tctx1, kstat_inc Itxs_hck_meoifail itrq)
      else
      let (ret2, tctx2, itrq2) =
            (if tunneled then tx_context_tunneled chkflags meo tctx1 itrq
             else tx_context_plain chkflags meo tctx1 itrq)
      in
      if ret2 \<noteq> 0 then Inr (ret2, tctx2, itrq2)
      else if lsoflags AND HW_LSO \<noteq> 0
      then
        if \<not> (chkflags AND HCK_IPV4_HDRCKSUM \<noteq> 0 \<and> chkflags AND HCK_PARTIALCKSUM \<noteq> 0)
        then Inr (-1, tctx2, itrq2)
        else Inr (0, tctx2\<lparr>itc_ctx_cmdflags := itc_ctx_cmdflags tctx2 OR I40E_TX_CTX_DESC_TSO,
                           itc_ctx_mss := mss,
                           itc_ctx_tsolen := of_nat (msgsize mp) -
                             (ucast (meoi_l2hlen meo) + ucast (meoi_l3hlen meo) +
                              ucast (meoi_l4hlen meo))\<rparr>, itrq2)
      else Inr (0, tctx2, itrq2))"

subsection \<open>The transmit control-block pool\<close>

definition i40e_tcb_free :: "i40e_trqpair \<Rightarrow> nat \<Rightarrow> fault + i40e_trqpair" where
  "i40e_tcb_free itrq tcb =
     (if itrq_tcb_free itrq < length (itrq_tcb_free_list itrq)
      then Inr (itrq\<lparr>itrq_tcb_free_list := (itrq_tcb_free_list itrq)[itrq_tcb_free itrq := Some tcb],
                     itrq_tcb_free := itrq_tcb_free itrq + 1\<rparr>)
      else Inl WildAccess)"

definition i40e_tcb_alloc :: "i40e_trqpair \<Rightarrow> fault + (nat option \<times> i40e_trqpair)" where
  "i40e_tcb_alloc itrq =
     (if itrq_tcb_free itrq = 0 then Inr (None, itrq)
      else let n = itrq_tcb_free itrq - 1 in
        if n \<ge> length (itrq_tcb_free_list itrq) then Inl WildAccess
        else Inr (itrq_tcb_free_list itrq ! n,
                  itrq\<lparr>itrq_tcb_free := n,
                       itrq_tcb_free_list := (itrq_tcb_free_list itrq)[n := None]\<rparr>))"

text \<open>
  \<^verbatim>\<open>i40e_tcb_reset\<close> on a control block: the block afterwards, the handles it
  unbinds and the frames it gives to \<^verbatim>\<open>freemsg\<close>.
\<close>

definition i40e_tcb_reset ::
  "i40e_tx_control_block \<Rightarrow> fault + (i40e_tx_control_block \<times> ddi_call list \<times> mblk list list)"
  where
  "i40e_tcb_reset tcb =
     (case (case tcb_type tcb of
              I40E_TX_COPY \<Rightarrow> Inr (tcb\<lparr>tcb_dma := (tcb_dma tcb)\<lparr>dmab_len := 0\<rparr>\<rparr>, [])
            | I40E_TX_DMA \<Rightarrow>
                Inr (tcb\<lparr>tcb_bind_info := [], tcb_used_lso := False\<rparr>,
                     [Ddi_dma_unbind_handle
                        (if tcb_used_lso tcb then tcb_lso_dma_handle tcb
                         else tcb_dma_handle tcb)])
            | I40E_TX_DESC \<Rightarrow> Inr (tcb, [])
            | I40E_TX_NONE \<Rightarrow> Inl Panic) of
        Inl f \<Rightarrow> Inl f
      | Inr (tcb1, calls) \<Rightarrow>
          Inr (tcb1\<lparr>tcb_type := I40E_TX_NONE, tcb_mp := None\<rparr>, calls,
               (case tcb_mp tcb1 of None \<Rightarrow> [] | Some mp \<Rightarrow> [mp])))"

text \<open>
  The pair \<^verbatim>\<open>i40e_tcb_reset(tcb); i40e_tcb_free(itrq, tcb);\<close> on the control block
  with index \<open>t\<close>, with the effects of the reset recorded in the device.
\<close>

definition tx_tcb_reset_free :: "nat \<Rightarrow> i40e_trqpair \<Rightarrow> fault + i40e_trqpair" where
  "tx_tcb_reset_free t itrq =
     (if t \<ge> length (itrq_tcb_area itrq) then Inl WildAccess
      else (case i40e_tcb_reset (itrq_tcb_area itrq ! t) of
              Inl f \<Rightarrow> Inl f
            | Inr (tcb', calls, freed) \<Rightarrow>
                i40e_tcb_free
                  (itrq\<lparr>itrq_tcb_area := (itrq_tcb_area itrq)[t := tcb'],
                        itrq_i40e := (itrq_i40e itrq)
                          \<lparr>i40e_ddi_calls := i40e_ddi_calls (itrq_i40e itrq) @ calls,
                           i40e_freemsgs := i40e_freemsgs (itrq_i40e itrq) @ freed\<rparr>\<rparr>) t))"

subsection \<open>Transmit completion reclaim\<close>

text \<open>
  The inner \<^verbatim>\<open>for\<close> loop of \<^verbatim>\<open>i40e_tx_recycle_ring\<close>: zero \<open>n\<close> descriptors from
  \<open>toclean\<close>, counting them.
\<close>

fun tx_recycle_descs ::
  "nat \<Rightarrow> i40e_trqpair \<Rightarrow> nat \<Rightarrow> 32 word \<Rightarrow> fault + (i40e_trqpair \<times> nat \<times> 32 word)" where
  "tx_recycle_descs 0 itrq toclean count = Inr (itrq, toclean, count)"
| "tx_recycle_descs (Suc n) itrq toclean count =
     (if toclean \<ge> length (itrq_desc_ring itrq) then Inl WildAccess
      else tx_recycle_descs n
             (itrq\<lparr>itrq_desc_ring := (itrq_desc_ring itrq)
                     [toclean := \<lparr>txd_qword0 = 0, txd_qword1 = 0\<rparr>]\<rparr>)
             (nat (i40e_next_desc (int toclean) 1 (int (itrq_tx_ring_size itrq))))
             (count + 1))"

lemma tx_recycle_descs_work_list:
  "tx_recycle_descs n itrq toclean count = Inr (itrq', toclean', count') \<Longrightarrow>
     itrq_tcb_work_list itrq' = itrq_tcb_work_list itrq \<and>
     itrq_desc_wbhead itrq' = itrq_desc_wbhead itrq"
  by (induction n arbitrary: itrq toclean count) (auto split: if_splits)

text \<open>
  The \<^verbatim>\<open>while (toclean != wbhead)\<close> loop: the queue pair, the count, and the
  reclaimed control blocks, last one first (the chain \<^verbatim>\<open>tcbhead\<close>). Every
  iteration takes one control block off the work list.
\<close>

function tx_recycle_loop ::
  "i40e_trqpair \<Rightarrow> nat \<Rightarrow> 32 word \<Rightarrow> nat list \<Rightarrow> fault + (i40e_trqpair \<times> 32 word \<times> nat list)"
  where
  "tx_recycle_loop itrq toclean count tcbhead =
     (if toclean = itrq_desc_wbhead itrq then Inr (itrq, count, tcbhead)
      else if toclean \<ge> length (itrq_tcb_work_list itrq) then Inl WildAccess
      else (case itrq_tcb_work_list itrq ! toclean of
              None \<Rightarrow> Inl NullDeref
            | Some t \<Rightarrow>
                if t \<ge> length (itrq_tcb_area itrq) then Inl WildAccess
                else
                  let tcb = itrq_tcb_area itrq ! t;
                      desc_per_tcb = (if tcb_type tcb = I40E_TX_DMA
                                      then length (tcb_bind_info tcb) else 1)
                  in (case tx_recycle_descs desc_per_tcb
                             (itrq\<lparr>itrq_tcb_work_list :=
                                     (itrq_tcb_work_list itrq)[toclean := None]\<rparr>)
                             toclean count of
                        Inl f \<Rightarrow> Inl f
                      | Inr (itrq', toclean', count') \<Rightarrow>
                          tx_recycle_loop itrq' toclean' count' (t # tcbhead))))"
  by pat_completeness auto
termination
proof (relation "measure (\<lambda>(itrq, toclean, count, tcbhead).
                   length (filter (\<lambda>x. x \<noteq> None) (itrq_tcb_work_list itrq)))")
  show "wf (measure (\<lambda>(itrq, toclean, count, tcbhead).
              length (filter (\<lambda>x. x \<noteq> None) (itrq_tcb_work_list itrq))))"
    by simp
next
  fix itrq :: i40e_trqpair and toclean :: nat and count :: "32 word" and tcbhead :: "nat list"
    and t tcb desc_per_tcb r itrq' p toclean' count'
  assume ne: "toclean \<noteq> itrq_desc_wbhead itrq"
    and lt: "\<not> length (itrq_tcb_work_list itrq) \<le> toclean"
    and some: "itrq_tcb_work_list itrq ! toclean = Some t"
    and run: "tx_recycle_descs desc_per_tcb
                (itrq\<lparr>itrq_tcb_work_list := (itrq_tcb_work_list itrq)[toclean := None]\<rparr>)
                toclean count = Inr r"
    and r: "(itrq', p) = r" "(toclean', count') = p"
  have dec: "length (filter (\<lambda>x. x \<noteq> None) (xs[i := None]))
             < length (filter (\<lambda>x. x \<noteq> None) xs)"
    if "i < length xs" "xs ! i \<noteq> None" for xs :: "nat option list" and i
    using that
  proof (induction xs arbitrary: i)
    case Nil
    then show ?case by simp
  next
    case (Cons a xs)
    show ?case
    proof (cases i)
      case 0
      with Cons.prems show ?thesis by (simp add: le_imp_less_Suc)
    next
      case (Suc j)
      with Cons.prems have "j < length xs" "xs ! j \<noteq> None" by simp_all
      from Cons.IH[OF this] Suc show ?thesis by simp
    qed
  qed
  from run r have "itrq_tcb_work_list itrq' = (itrq_tcb_work_list itrq)[toclean := None]"
    by (auto dest!: tx_recycle_descs_work_list)
  with dec[of toclean "itrq_tcb_work_list itrq"] lt some
  show "((itrq', toclean', count', t # tcbhead), (itrq, toclean, count, tcbhead))
        \<in> measure (\<lambda>(itrq, toclean, count, tcbhead).
             length (filter (\<lambda>x. x \<noteq> None) (itrq_tcb_work_list itrq)))"
    by simp
qed

declare tx_recycle_loop.simps [simp del]

text \<open>The clean-up loop \<^verbatim>\<open>while (tcbhead != NULL)\<close> over the reclaimed blocks.\<close>

fun tx_recycle_cleanup :: "nat list \<Rightarrow> i40e_trqpair \<Rightarrow> fault + i40e_trqpair" where
  "tx_recycle_cleanup [] itrq = Inr itrq"
| "tx_recycle_cleanup (t # ts) itrq =
     (case tx_tcb_reset_free t itrq of
        Inl f \<Rightarrow> Inl f
      | Inr itrq' \<Rightarrow> tx_recycle_cleanup ts itrq')"

text \<open>
  The statements that clear the blocked flag: \<^verbatim>\<open>itrq->itrq_tx_blocked = B_FALSE;
  mac_tx_ring_update(...); itrq->itrq_txstat.itxs_num_unblocked.value.ui64++;\<close>
\<close>

definition tx_unblock :: "i40e_trqpair \<Rightarrow> i40e_trqpair" where
  "tx_unblock itrq = kstat_inc Itxs_num_unblocked
     (itrq\<lparr>itrq_tx_blocked := False,
           itrq_i40e := (itrq_i40e itrq)\<lparr>i40e_mac_tx_ring_updates :=
             i40e_mac_tx_ring_updates (itrq_i40e itrq) + 1\<rparr>\<rparr>)"

text \<open>
  The platform's answers to \<^verbatim>\<open>i40e_tx_recycle_ring\<close>: whether the \<^verbatim>\<open>ddi_dma_sync\<close>
  of the write-back head returns 0, and whether the descriptor area's DMA
  handle is sound.
\<close>

record recycle_env =
  rce_sync_ok :: bool
  rce_dma_ok :: bool

definition i40e_tx_recycle_ring ::
  "i40e_conf \<Rightarrow> recycle_env \<Rightarrow> i40e_trqpair \<Rightarrow> fault + i40e_trqpair" where
  "i40e_tx_recycle_ring conf env itrq =
     (if unat (itrq_desc_free itrq) = itrq_tx_ring_size itrq
      then Inr (if itrq_tx_blocked itrq then tx_unblock itrq else itrq)
      else if \<not> rce_sync_ok env then Inl VerifyFailed
      else if \<not> rce_dma_ok env then Inr (i40e_fm_error itrq)
      else
        (case tx_recycle_loop itrq (itrq_desc_head itrq) 0 [] of
           Inl f \<Rightarrow> Inl f
         | Inr (itrq1, count, tcbhead) \<Rightarrow>
             let itrq2 = kstat_add Itxs_recycled (ucast count)
                   (itrq1\<lparr>itrq_desc_head := itrq_desc_wbhead itrq1,
                          itrq_desc_free := itrq_desc_free itrq1 + count\<rparr>);
                 itrq3 = (if itrq_tx_blocked itrq2 \<and>
                             unat (itrq_desc_free itrq2) > i40e_tx_block_thresh conf
                          then tx_unblock itrq2 else itrq2)
             in tx_recycle_cleanup tcbhead itrq3))"

subsection \<open>The transmit ring engine\<close>

text \<open>
  What the platform answers while one fragment is bound: the cookies of
  \<^verbatim>\<open>ddi_dma_addr_bind_handle\<close> (\<open>None\<close> when the result is not
  \<^verbatim>\<open>DDI_DMA_MAPPED\<close>), whether the \<^verbatim>\<open>kmem_zalloc\<close> of the cookie array succeeds,
  and how many of the \<^verbatim>\<open>kmem_zalloc\<close> calls for single cookies succeed.
\<close>

record bind_env =
  be_cookies :: "i40e_dma_bind_info list option"
  be_info_alloc_ok :: bool
  be_dbi_allocs :: nat

text \<open>
  The label \<^verbatim>\<open>bffail\<close> of \<^verbatim>\<open>i40e_tx_bind_fragment\<close>, for control block \<open>t\<close> and the
  cookie count \<open>ncookies\<close> of the binding.
\<close>

definition tx_bffail :: "nat \<Rightarrow> nat \<Rightarrow> nat \<Rightarrow> i40e_trqpair \<Rightarrow> fault + i40e_trqpair" where
  "tx_bffail t dma_handle ncookies itrq =
     (case tx_tcb_reset_free t itrq of
        Inl f \<Rightarrow> Inl f
      | Inr itrq' \<Rightarrow>
          Inr (if ncookies \<noteq> 0
               then itrq'\<lparr>itrq_i40e := (itrq_i40e itrq')\<lparr>i40e_ddi_calls :=
                      i40e_ddi_calls (itrq_i40e itrq') @ [Ddi_dma_unbind_handle dma_handle]\<rparr>\<rparr>
               else itrq'))"

definition i40e_tx_bind_fragment ::
  "bind_env \<Rightarrow> bool \<Rightarrow> mblk \<Rightarrow> i40e_trqpair \<Rightarrow> fault + (nat option \<times> i40e_trqpair)" where
  "i40e_tx_bind_fragment env use_lso mp itrq =
     (case i40e_tcb_alloc itrq of
        Inl f \<Rightarrow> Inl f
      | Inr (None, itrq1) \<Rightarrow> Inr (None, kstat_inc Itxs_err_notcb itrq1)
      | Inr (Some t, itrq1) \<Rightarrow>
          if t \<ge> length (itrq_tcb_area itrq1) then Inl WildAccess
          else
            let tcb = (itrq_tcb_area itrq1 ! t)\<lparr>tcb_type := I40E_TX_DMA\<rparr>;
                dma_handle = (if use_lso then tcb_lso_dma_handle tcb else tcb_dma_handle tcb);
                itrq2 = itrq1\<lparr>itrq_tcb_area := (itrq_tcb_area itrq1)[t := tcb]\<rparr>
            in (case be_cookies env of
                  None \<Rightarrow>
                    (case tx_bffail t dma_handle 0 itrq2 of
                       Inl f \<Rightarrow> Inl f | Inr itrq3 \<Rightarrow> Inr (None, itrq3))
                | Some cookies \<Rightarrow>
                    if \<not> be_info_alloc_ok env
                    then (case tx_bffail t dma_handle (length cookies) itrq2 of
                            Inl f \<Rightarrow> Inl f | Inr itrq3 \<Rightarrow> Inr (None, itrq3))
                    else if be_dbi_allocs env < length cookies
                    then (case tx_bffail t dma_handle (length cookies)
                                 (itrq2\<lparr>itrq_tcb_area := (itrq_tcb_area itrq2)
                                    [t := tcb\<lparr>tcb_bind_info :=
                                            take (be_dbi_allocs env) cookies\<rparr>]\<rparr>) of
                            Inl f \<Rightarrow> Inl f | Inr itrq3 \<Rightarrow> Inr (None, itrq3))
                    else Inr (Some t, itrq2\<lparr>itrq_tcb_area := (itrq_tcb_area itrq2)
                                [t := tcb\<lparr>tcb_bind_info := cookies,
                                          tcb_used_lso := use_lso\<rparr>]\<rparr>)))"

text \<open>
  The data descriptor \<^verbatim>\<open>i40e_tx_set_data_desc\<close> builds for one cookie. \<^verbatim>\<open>cmd\<close> is
  an \<^verbatim>\<open>int\<close>, widened with its sign; the offsets are unsigned.
\<close>

definition tx_data_desc ::
  "i40e_tx_context_t \<Rightarrow> i40e_dma_bind_info \<Rightarrow> bool \<Rightarrow> i40e_tx_desc" where
  "tx_data_desc tctx dbi last_desc =
     (let cmd0 = I40E_TX_DESC_CMD_ICRC OR itc_data_cmdflags tctx;
          cmd = (if last_desc then cmd0 OR I40E_TX_DESC_CMD_EOP OR I40E_TX_DESC_CMD_RS
                 else cmd0)
      in \<lparr>txd_qword0 = dbi_paddr dbi,
          txd_qword1 = I40E_TX_DESC_DTYPE_DATA OR
            push_bit I40E_TXD_QW1_OFFSET_SHIFT (ucast (itc_data_offsets tctx)) OR
            push_bit I40E_TXD_QW1_CMD_SHIFT (scast cmd) OR
            push_bit I40E_TXD_QW1_TX_BUF_SZ_SHIFT (dbi_len dbi)\<rparr>)"

text \<open>
  Taking the descriptor at the tail: \<^verbatim>\<open>itrq_desc_free--\<close>, the write of the
  descriptor, and the tail advanced by \<^verbatim>\<open>i40e_next_desc\<close>.
\<close>

definition tx_put_desc :: "i40e_tx_desc \<Rightarrow> i40e_trqpair \<Rightarrow> fault + i40e_trqpair" where
  "tx_put_desc d itrq =
     (if itrq_desc_tail itrq \<ge> length (itrq_desc_ring itrq) then Inl WildAccess
      else Inr (itrq\<lparr>itrq_desc_free := itrq_desc_free itrq - 1,
                     itrq_desc_ring := (itrq_desc_ring itrq)[itrq_desc_tail itrq := d],
                     itrq_desc_tail := nat (i40e_next_desc (int (itrq_desc_tail itrq)) 1
                                              (int (itrq_tx_ring_size itrq)))\<rparr>))"

definition i40e_tx_set_data_desc ::
  "i40e_tx_context_t \<Rightarrow> i40e_dma_bind_info \<Rightarrow> bool \<Rightarrow> i40e_trqpair \<Rightarrow> fault + i40e_trqpair"
  where
  "i40e_tx_set_data_desc tctx dbi last_desc itrq =
     tx_put_desc (tx_data_desc tctx dbi last_desc) itrq"

text \<open>The store \<^verbatim>\<open>itrq->itrq_tcb_work_list[itrq->itrq_desc_tail] = tcb\<close>.\<close>

definition tx_set_work :: "nat \<Rightarrow> i40e_trqpair \<Rightarrow> fault + i40e_trqpair" where
  "tx_set_work t itrq =
     (if itrq_desc_tail itrq \<ge> length (itrq_tcb_work_list itrq) then Inl WildAccess
      else Inr (itrq\<lparr>itrq_tcb_work_list :=
                       (itrq_tcb_work_list itrq)[itrq_desc_tail itrq := Some t]\<rparr>))"

text \<open>
  The inner loop over the cookies of one control block. \<open>lastbuf\<close> is
  \<^verbatim>\<open>i == nbufs - 1\<close>; the cookie under work is the last of the block
  (\<^verbatim>\<open>c == tcb_bind_ncookies - 1\<close>) when no cookie follows it. The flag
  \<^verbatim>\<open>last_desc\<close> is handed on.
\<close>

fun tx_bind_cookies ::
  "i40e_tx_context_t \<Rightarrow> bool \<Rightarrow> i40e_dma_bind_info list \<Rightarrow> bool \<Rightarrow> i40e_trqpair \<Rightarrow>
   fault + (bool \<times> i40e_trqpair)" where
  "tx_bind_cookies tctx lastbuf [] last_desc itrq = Inr (last_desc, itrq)"
| "tx_bind_cookies tctx lastbuf (dbi # rest) last_desc itrq =
     (let last_desc' = (if lastbuf \<and> rest = [] then True else last_desc) in
      case i40e_tx_set_data_desc tctx dbi last_desc' itrq of
        Inl f \<Rightarrow> Inl f
      | Inr itrq' \<Rightarrow> tx_bind_cookies tctx lastbuf rest last_desc' itrq')"

text \<open>
  The outer loop \<^verbatim>\<open>for (i = 0; i < nbufs; i++)\<close> over the array \<^verbatim>\<open>tcb_dma\<close>; the
  block under work is the last (\<^verbatim>\<open>i == nbufs - 1\<close>) when none follows it.
\<close>

fun tx_bind_bufs ::
  "i40e_tx_context_t \<Rightarrow> nat list \<Rightarrow> bool \<Rightarrow> i40e_trqpair \<Rightarrow> fault + i40e_trqpair" where
  "tx_bind_bufs tctx [] last_desc itrq = Inr itrq"
| "tx_bind_bufs tctx (t # ts) last_desc itrq =
     (case tx_set_work t itrq of
        Inl f \<Rightarrow> Inl f
      | Inr itrq1 \<Rightarrow>
          if t \<ge> length (itrq_tcb_area itrq1) then Inl WildAccess
          else (case tx_bind_cookies tctx (ts = []) (tcb_bind_info (itrq_tcb_area itrq1 ! t))
                       last_desc itrq1 of
                  Inl f \<Rightarrow> Inl f
                | Inr (last_desc', itrq2) \<Rightarrow> tx_bind_bufs tctx ts last_desc' itrq2))"

text \<open>
  The loop of the bind path over the fragments of the frame \<open>mp\<close>: empty blocks
  are skipped, each other block gets a control block from
  \<^verbatim>\<open>i40e_tx_bind_fragment\<close>; the first one keeps the frame. The result is \<open>None\<close>
  when a binding fails (\<^verbatim>\<open>goto txfail\<close>), else the array \<^verbatim>\<open>tcb_dma\<close> (\<open>tcbs\<close>) and
  \<^verbatim>\<open>needed_desc\<close>.
\<close>

fun tx_bind_frags ::
  "(nat \<Rightarrow> bind_env) \<Rightarrow> bool \<Rightarrow> mblk list \<Rightarrow> mblk list \<Rightarrow> nat list \<Rightarrow> nat \<Rightarrow>
   i40e_trqpair \<Rightarrow> fault + ((nat list \<times> nat) option \<times> i40e_trqpair)" where
  "tx_bind_frags envs use_lso mp [] tcbs needed_desc itrq =
     Inr (Some (tcbs, needed_desc), itrq)"
| "tx_bind_frags envs use_lso mp (nmp # rest) tcbs needed_desc itrq =
     (if MBLKL nmp = 0 then tx_bind_frags envs use_lso mp rest tcbs needed_desc itrq
      else (case i40e_tx_bind_fragment (envs (length tcbs)) use_lso nmp itrq of
              Inl f \<Rightarrow> Inl f
            | Inr (None, itrq1) \<Rightarrow> Inr (None, itrq1)
            | Inr (Some t, itrq1) \<Rightarrow>
                let tcb = itrq_tcb_area itrq1 ! t;
                    itrq2 = (if tcbs = []
                             then itrq1\<lparr>itrq_tcb_area := (itrq_tcb_area itrq1)
                                    [t := tcb\<lparr>tcb_mp := Some mp\<rparr>]\<rparr>
                             else itrq1)
                in tx_bind_frags envs use_lso mp rest (tcbs @ [t])
                     (needed_desc + length (tcb_bind_info tcb)) itrq2))"

text \<open>
  The \<^verbatim>\<open>bcopy\<close> loop of the copy path into the control block's buffer. A copy
  that leaves the source block's buffer or the destination buffer is a fault.
\<close>

fun tx_bcopy :: "mblk list \<Rightarrow> i40e_dma_buffer \<Rightarrow> fault + i40e_dma_buffer" where
  "tx_bcopy [] d = Inr d"
| "tx_bcopy (nmp # rest) d =
     (let clen = MBLKL nmp in
      if b_rptr nmp + clen > length (db_mem nmp) \<or> dmab_len d + clen > length (dmab_mem d)
      then Inl WildAccess
      else tx_bcopy rest
             (d\<lparr>dmab_mem := take (dmab_len d) (dmab_mem d) @
                              take clen (drop (b_rptr nmp) (db_mem nmp)) @
                              drop (dmab_len d + clen) (dmab_mem d),
                dmab_len := dmab_len d + clen\<rparr>))"

text \<open>
  The label \<^verbatim>\<open>txfail\<close>: the context and copy control blocks that were allocated
  are reset and freed, the ring is marked blocked and the frame is returned.
\<close>

definition tx_release :: "nat option \<Rightarrow> i40e_trqpair \<Rightarrow> fault + i40e_trqpair" where
  "tx_release tcb itrq =
     (case tcb of
        None \<Rightarrow> Inr itrq
      | Some t \<Rightarrow>
          if t \<ge> length (itrq_tcb_area itrq) then Inl WildAccess
          else tx_tcb_reset_free t
                 (itrq\<lparr>itrq_tcb_area := (itrq_tcb_area itrq)
                         [t := (itrq_tcb_area itrq ! t)\<lparr>tcb_mp := None\<rparr>]\<rparr>))"

definition tx_txfail ::
  "mblk list \<Rightarrow> nat option \<Rightarrow> nat option \<Rightarrow> i40e_trqpair \<Rightarrow>
   fault + (mblk list option \<times> i40e_trqpair)" where
  "tx_txfail mp tcb_ctx tcb_data itrq =
     (case tx_release tcb_ctx itrq of
        Inl f \<Rightarrow> Inl f
      | Inr itrq1 \<Rightarrow>
          (case tx_release tcb_data itrq1 of
             Inl f \<Rightarrow> Inl f
           | Inr itrq2 \<Rightarrow> Inr (Some mp, itrq2\<lparr>itrq_tx_blocked := True\<rparr>)))"

text \<open>
  The platform's answers during one call of \<^verbatim>\<open>i40e_ring_tx\<close>: whether the
  \<^verbatim>\<open>kmem_zalloc\<close> of the array \<^verbatim>\<open>tcb_dma\<close> succeeds, the answers for the
  binding of each fragment, and whether the register handle is sound after the
  tail write.
\<close>

record tx_env =
  txe_tcb_dma_alloc_ok :: bool
  txe_frags :: "nat \<Rightarrow> bind_env"
  txe_reg_ok :: bool

text \<open>How the payload was staged: bound control blocks, or one copy block.\<close>

datatype tx_plan = Tx_bind "nat list" | Tx_copy nat

definition i40e_freemsg :: "mblk list \<Rightarrow> i40e_trqpair \<Rightarrow> i40e_trqpair" where
  "i40e_freemsg mp itrq = itrq\<lparr>itrq_i40e := (itrq_i40e itrq)\<lparr>i40e_freemsgs :=
     i40e_freemsgs (itrq_i40e itrq) @ [mp]\<rparr>\<rparr>"

text \<open>
  The allocation of the context control block, \<^verbatim>\<open>if (do_ctx_desc == B_TRUE) {...}\<close>:
  \<open>None\<close> stands for \<^verbatim>\<open>goto txfail\<close>, else the block (if any) and \<^verbatim>\<open>needed_desc\<close>.
\<close>

definition tx_ctx_alloc ::
  "bool \<Rightarrow> i40e_trqpair \<Rightarrow> fault + ((nat option \<times> nat) option \<times> i40e_trqpair)" where
  "tx_ctx_alloc do_ctx_desc itrq =
     (if do_ctx_desc
      then (case i40e_tcb_alloc itrq of
              Inl f \<Rightarrow> Inl f
            | Inr (None, itrq1) \<Rightarrow> Inr (None, kstat_inc Itxs_err_notcb itrq1)
            | Inr (Some t, itrq1) \<Rightarrow>
                if t \<ge> length (itrq_tcb_area itrq1) then Inl WildAccess
                else Inr (Some (Some t, 1),
                          itrq1\<lparr>itrq_tcb_area := (itrq_tcb_area itrq1)
                            [t := (itrq_tcb_area itrq1 ! t)\<lparr>tcb_type := I40E_TX_DESC\<rparr>]\<rparr>))
      else Inr (Some (None, 0), itrq))"

text \<open>
  The choice between bind and copy and the staging of the payload,
  \<^verbatim>\<open>if (use_lso == B_TRUE || mpsize > i40e->i40e_tx_dma_min) {...} else {...}\<close>:
  \<open>None\<close> stands for \<^verbatim>\<open>goto txfail\<close>.
\<close>

definition tx_data_alloc ::
  "i40e_conf \<Rightarrow> tx_env \<Rightarrow> bool \<Rightarrow> mblk list \<Rightarrow> nat \<Rightarrow> i40e_trqpair \<Rightarrow>
   fault + ((tx_plan \<times> nat) option \<times> i40e_trqpair)" where
  "tx_data_alloc conf env use_lso mp needed_desc itrq =
     (if use_lso \<or> msgsize mp > i40e_tx_dma_min conf
      then
        if \<not> txe_tcb_dma_alloc_ok env then Inr (None, itrq)
        else (case tx_bind_frags (txe_frags env) use_lso mp mp [] needed_desc itrq of
                Inl f \<Rightarrow> Inl f
              | Inr (None, itrq1) \<Rightarrow> Inr (None, itrq1)
              | Inr (Some (tcbs, needed), itrq1) \<Rightarrow> Inr (Some (Tx_bind tcbs, needed), itrq1))
      else (case i40e_tcb_alloc itrq of
              Inl f \<Rightarrow> Inl f
            | Inr (None, itrq1) \<Rightarrow> Inr (None, kstat_inc Itxs_err_notcb itrq1)
            | Inr (Some t, itrq1) \<Rightarrow>
                if t \<ge> length (itrq_tcb_area itrq1) then Inl WildAccess
                else
                  let tcb = (itrq_tcb_area itrq1 ! t)\<lparr>tcb_type := I40E_TX_COPY\<rparr> in
                  (case tx_bcopy mp (tcb_dma tcb) of
                     Inl f \<Rightarrow> Inl f
                   | Inr d \<Rightarrow>
                       Inr (Some (Tx_copy t, needed_desc + 1),
                            itrq1\<lparr>itrq_tcb_area := (itrq_tcb_area itrq1)
                              [t := tcb\<lparr>tcb_dma := d, tcb_mp := Some mp\<rparr>]\<rparr>))))"

text \<open>
  The context descriptor written over the ring entry \<open>old\<close>: the reserved
  sixteen bits of the first quadword keep their value.
\<close>

definition tx_ctx_desc :: "i40e_tx_context_t \<Rightarrow> i40e_tx_desc \<Rightarrow> i40e_tx_desc" where
  "tx_ctx_desc tctx old =
     \<lparr>txd_qword0 = (txd_qword0 old AND 0xFFFF000000000000) OR
        (if itc_ctx_tunneled tctx then ucast (itc_ctx_tunnel_fld tctx) else 0),
      txd_qword1 = I40E_TX_DESC_DTYPE_CONTEXT OR
        (if itc_ctx_cmdflags tctx AND I40E_TX_CTX_DESC_TSO \<noteq> 0
         then push_bit I40E_TXD_CTX_QW1_CMD_SHIFT (ucast (itc_ctx_cmdflags tctx)) OR
              push_bit I40E_TXD_CTX_QW1_TSO_LEN_SHIFT (ucast (itc_ctx_tsolen tctx)) OR
              push_bit I40E_TXD_CTX_QW1_MSS_SHIFT (ucast (itc_ctx_mss tctx))
         else 0)\<rparr>"

text \<open>
  The part of \<^verbatim>\<open>i40e_ring_tx\<close> after the admission gate: the context descriptor,
  the data descriptors, the tail register and the counters.
\<close>

definition tx_emit ::
  "tx_env \<Rightarrow> i40e_tx_context_t \<Rightarrow> nat option \<Rightarrow> tx_plan \<Rightarrow> nat \<Rightarrow> nat \<Rightarrow> i40e_trqpair \<Rightarrow>
   fault + i40e_trqpair" where
  "tx_emit env tctx tcb_ctx plan mpsize needed_desc itrq =
     (case (case tcb_ctx of
              None \<Rightarrow> Inr itrq
            | Some t \<Rightarrow>
                (case tx_set_work t itrq of
                   Inl f \<Rightarrow> Inl f
                 | Inr itrq1 \<Rightarrow>
                     if itrq_desc_tail itrq1 \<ge> length (itrq_desc_ring itrq1) then Inl WildAccess
                     else tx_put_desc
                            (tx_ctx_desc tctx (itrq_desc_ring itrq1 ! itrq_desc_tail itrq1))
                            itrq1)) of
        Inl f \<Rightarrow> Inl f
      | Inr itrq2 \<Rightarrow>
          (case (case plan of
                   Tx_bind tcbs \<Rightarrow> tx_bind_bufs tctx tcbs False itrq2
                 | Tx_copy t \<Rightarrow>
                     (case tx_set_work t itrq2 of
                        Inl f \<Rightarrow> Inl f
                      | Inr itrq3 \<Rightarrow>
                          if t \<ge> length (itrq_tcb_area itrq3) then Inl WildAccess
                          else
                            let d = tcb_dma (itrq_tcb_area itrq3 ! t) in
                            tx_put_desc
                              (tx_data_desc tctx
                                 \<lparr>dbi_paddr = dmab_dma_address d,
                                  dbi_len = of_nat (dmab_len d)\<rparr> True)
                              itrq3)) of
             Inl f \<Rightarrow> Inl f
           | Inr itrq4 \<Rightarrow>
               let itrq5 = itrq4\<lparr>itrq_i40e := (itrq_i40e itrq4)\<lparr>i40e_reg_writes :=
                             i40e_reg_writes (itrq_i40e itrq4) @
                             [(I40E_QTX_TAIL (itrq_index itrq4), itrq_desc_tail itrq4)]\<rparr>\<rparr>;
                   itrq6 = (if txe_reg_ok env then itrq5 else i40e_fm_error itrq5)
               in Inr (kstat_add Itxs_descriptors (of_nat needed_desc)
                        (kstat_inc Itxs_packets
                          (kstat_add Itxs_bytes (of_nat mpsize) itrq6)))))"

text \<open>
  \<^verbatim>\<open>i40e_ring_tx(arg, mp)\<close>: the returned frame (\<open>None\<close> for \<^verbatim>\<open>NULL\<close>) and the
  queue pair.
\<close>

definition i40e_ring_tx ::
  "i40e_conf \<Rightarrow> tx_env \<Rightarrow> mblk list \<Rightarrow> i40e_trqpair \<Rightarrow>
   fault + (mblk list option \<times> i40e_trqpair)" where
  "i40e_ring_tx conf env mp itrq =
     (if \<not> i40e_state_ok (i40e_state (itrq_i40e itrq)) \<or>
         i40e_link_state (itrq_i40e itrq) \<noteq> LINK_STATE_UP
      then Inr (None, i40e_freemsg mp itrq)
      else
      case i40e_tx_context conf mp itrq of
        Inl f \<Rightarrow> Inl f
      | Inr (ret, tctx, itrq1) \<Rightarrow>
      if ret < 0 then Inr (None, kstat_inc Itxs_err_context (i40e_freemsg mp itrq1))
      else
      let use_lso = (itc_ctx_cmdflags tctx AND I40E_TX_CTX_DESC_TSO \<noteq> 0);
          do_ctx_desc = (itc_ctx_cmdflags tctx AND I40E_TX_CTX_DESC_TSO \<noteq> 0 \<or>
                         itc_ctx_tunneled tctx)
      in
      case tx_ctx_alloc do_ctx_desc itrq1 of
        Inl f \<Rightarrow> Inl f
      | Inr (None, itrq2) \<Rightarrow> tx_txfail mp None None itrq2
      | Inr (Some (tcb_ctx, needed0), itrq2) \<Rightarrow>
      case tx_data_alloc conf env use_lso mp needed0 itrq2 of
        Inl f \<Rightarrow> Inl f
      | Inr (None, itrq3) \<Rightarrow> tx_txfail mp tcb_ctx None itrq3
      | Inr (Some (plan, needed_desc), itrq3) \<Rightarrow>
      if unat (itrq_desc_free itrq3) < i40e_tx_block_thresh conf
      then tx_txfail mp tcb_ctx (case plan of Tx_bind tcbs \<Rightarrow> None | Tx_copy t \<Rightarrow> Some t)
             (kstat_inc Itxs_err_nodescs itrq3)
      else (case tx_emit env tctx tcb_ctx plan (msgsize mp) needed_desc itrq3 of
              Inl f \<Rightarrow> Inl f
            | Inr itrq4 \<Rightarrow> Inr (None, itrq4)))"

text \<open>
  For the transmit side: a block holding the given bytes, a broadcast ARP frame
  of sixteen bytes in one block, a platform on which every allocation succeeds
  and every fragment binds to two cookies, and the idle queue pair with a single
  free descriptor left (below the block threshold of \<open>ex_conf\<close>).
\<close>

definition ex_mblk :: "8 word list \<Rightarrow> mblk" where
  "ex_mblk bytes = \<lparr>b_rptr = 0, b_wptr = length bytes, db_mem = bytes, db_frtn = None,
     db_cksumflags = 0, db_lsoflags = 0, db_mss = 0, db_ttype = 0\<rparr>"

definition ex_arp :: "mblk list" where
  "ex_arp = [ex_mblk [0xff, 0xff, 0xff, 0xff, 0xff, 0xff, 2, 0, 0, 0, 0, 1, 0x08, 0x06, 0, 1]]"

definition ex_tx_env :: tx_env where
  "ex_tx_env = \<lparr>txe_tcb_dma_alloc_ok = True,
     txe_frags = (\<lambda>i. \<lparr>be_cookies = Some [\<lparr>dbi_paddr = 0x5000, dbi_len = 8\<rparr>,
                                          \<lparr>dbi_paddr = 0x6000, dbi_len = 8\<rparr>],
        be_info_alloc_ok = True, be_dbi_allocs = 2\<rparr>), txe_reg_ok = True\<rparr>"

definition ex_low :: i40e_trqpair where
  "ex_low = ex_idle\<lparr>itrq_desc_free := 1\<rparr>"

text \<open>
  What the reclaim must not touch on its way: the blocked flag, the number of
  calls of \<^verbatim>\<open>mac_tx_ring_update\<close>, and the count of free descriptors.
\<close>

definition tx_upstream :: "i40e_trqpair \<Rightarrow> bool \<times> nat \<times> 32 word" where
  "tx_upstream itrq = (itrq_tx_blocked itrq, i40e_mac_tx_ring_updates (itrq_i40e itrq),
     itrq_desc_free itrq)"

text \<open>
  A blocked ring with one copy descriptor outstanding that the device has
  completed (the write-back head is 1), and a platform without faults.
\<close>

definition ex_blocked :: i40e_trqpair where
  "ex_blocked = ex_idle\<lparr>itrq_desc_free := 3, itrq_desc_tail := 1, itrq_desc_wbhead := 1,
     itrq_tcb_work_list := [Some 5, None, None, None],
     itrq_tcb_free_list := [Some 0, Some 1, Some 2, Some 3, Some 4, None],
     itrq_tcb_free := 5,
     itrq_tcb_area := [ex_tcb 0, ex_tcb 1, ex_tcb 2, ex_tcb 3, ex_tcb 4,
                       (ex_tcb 5)\<lparr>tcb_type := I40E_TX_COPY, tcb_mp := Some ex_arp\<rparr>],
     itrq_tx_blocked := True\<rparr>"

definition ex_rce :: recycle_env where
  "ex_rce = \<lparr>rce_sync_ok = True, rce_dma_ok = True\<rparr>"

text \<open>
  The test \<^verbatim>\<open>tunneled\<close> of \<^verbatim>\<open>i40e_tx_context\<close> on the checksum flags of a frame's
  first block.
\<close>

definition tx_tunneled :: "mblk \<Rightarrow> bool" where
  "tx_tunneled m \<longleftrightarrow>
     db_cksumflags m AND (HCK_INNER_IPV4_HDRCKSUM_NEEDED OR HCK_INNER_PSEUDO_NEEDED) \<noteq> 0"

text \<open>
  Three more frames: the ARP frame behind a VLAN tag; the ARP frame with a
  checksum flag set that asks for neither the IPv4 header checksum nor the
  partial checksum; and a frame of type IP whose header-length field is zero,
  with the IPv4 header checksum requested.
\<close>

definition ex_vlan_arp :: "mblk list" where
  "ex_vlan_arp = [ex_mblk [0xff, 0xff, 0xff, 0xff, 0xff, 0xff, 2, 0, 0, 0, 0, 1,
                           0x81, 0x00, 0, 5, 0x08, 0x06, 0, 1]]"

definition ex_arp_ck :: "mblk list" where
  "ex_arp_ck = [(ex_mblk [0xff, 0xff, 0xff, 0xff, 0xff, 0xff, 2, 0, 0, 0, 0, 1, 0x08, 0x06, 0, 1])
                  \<lparr>db_cksumflags := 4\<rparr>]"

definition ex_bad_ip :: "mblk list" where
  "ex_bad_ip = [(ex_mblk [0xff, 0xff, 0xff, 0xff, 0xff, 0xff, 2, 0, 0, 0, 0, 1, 0x08, 0x00, 0x40, 0])
                  \<lparr>db_cksumflags := 1\<rparr>]"

text \<open>
  The command field of a data descriptor: \<^verbatim>\<open>I40E_TXD_QW1_CMD_MASK\<close> of
  \<^verbatim>\<open>i40e_type.h\<close> and the field read back from the second quadword.
\<close>

definition I40E_TXD_QW1_CMD_MASK :: "64 word" where
  "I40E_TXD_QW1_CMD_MASK = push_bit I40E_TXD_QW1_CMD_SHIFT 0x3FF"

definition txd_cmd :: "i40e_tx_desc \<Rightarrow> 32 word" where
  "txd_cmd d = ucast (drop_bit I40E_TXD_QW1_CMD_SHIFT (txd_qword1 d AND I40E_TXD_QW1_CMD_MASK))"

text \<open>
  The transmit ring as the descriptor writes see it (ring, tail, size), and one
  write on it; the cookies of a list of bound control blocks, in order; and the
  descriptors of a non-empty list of cookies with the last one marked.
\<close>

definition tx_ring_view :: "i40e_trqpair \<Rightarrow> i40e_tx_desc list \<times> nat \<times> nat" where
  "tx_ring_view itrq = (itrq_desc_ring itrq, itrq_desc_tail itrq, itrq_tx_ring_size itrq)"

definition ring_put ::
  "i40e_tx_desc \<Rightarrow> i40e_tx_desc list \<times> nat \<times> nat \<Rightarrow> i40e_tx_desc list \<times> nat \<times> nat" where
  "ring_put d v = (case v of (ring, tail, sz) \<Rightarrow>
     (ring[tail := d], nat (i40e_next_desc (int tail) 1 (int sz)), sz))"

definition tx_cookies :: "i40e_trqpair \<Rightarrow> nat list \<Rightarrow> i40e_dma_bind_info list" where
  "tx_cookies itrq tcbs = concat (map (\<lambda>t. tcb_bind_info (itrq_tcb_area itrq ! t)) tcbs)"

definition tx_bind_expected ::
  "i40e_tx_context_t \<Rightarrow> i40e_dma_bind_info list \<Rightarrow> i40e_tx_desc list" where
  "tx_bind_expected tctx cookies =
     map (\<lambda>c. tx_data_desc tctx c False) (butlast cookies) @
     [tx_data_desc tctx (last cookies) True]"

text \<open>
  The idle queue pair with two bound control blocks: block 5 with two cookies
  (it keeps the frame) and block 4 with one.
\<close>

definition ex_bound :: i40e_trqpair where
  "ex_bound = ex_idle\<lparr>
     itrq_tcb_area := [ex_tcb 0, ex_tcb 1, ex_tcb 2, ex_tcb 3,
       (ex_tcb 4)\<lparr>tcb_type := I40E_TX_DMA,
                  tcb_bind_info := [\<lparr>dbi_paddr = 0x7000, dbi_len = 4\<rparr>]\<rparr>,
       (ex_tcb 5)\<lparr>tcb_type := I40E_TX_DMA, tcb_mp := Some ex_arp,
                  tcb_bind_info := [\<lparr>dbi_paddr = 0x5000, dbi_len = 8\<rparr>,
                                    \<lparr>dbi_paddr = 0x6000, dbi_len = 4\<rparr>]\<rparr>],
     itrq_tcb_free_list := [Some 0, Some 1, Some 2, Some 3, None, None],
     itrq_tcb_free := 4\<rparr>"

section \<open>Properties\<close>

subsection \<open>DMA buffer release\<close>

lemma free_dma_buffer_returns:
  "dmab_dma_address d \<noteq> 0 \<longrightarrow> dmab_dma_handle d \<noteq> None \<Longrightarrow>
     \<exists>d' cs. i40e_free_dma_buffer d = Inr (d', cs)"
  by (simp add: i40e_free_dma_buffer_def Let_def split: prod.splits)

lemma free_dma_buffer_after:
  "i40e_free_dma_buffer d = Inr (d', cs) \<Longrightarrow>
     i40e_free_dma_buffer d' = Inr (d', []) \<and>
     dmab_dma_handle d' = None \<and> dmab_acc_handle d' = None \<and>
     dmab_dma_address d' = 0 \<and> dmab_len d' = 0 \<and>
     (dmab_consistent d \<longrightarrow> dmab_address d' = 0 \<and> dmab_size d' = 0)"
  by (auto simp: i40e_free_dma_buffer_def dmab_consistent_def Let_def
           split: if_splits option.splits prod.splits)

text \<open>
  C9. \<^verbatim>\<open>i40e_free_dma_buffer\<close> is idempotent. On every buffer that passes its
  \<^verbatim>\<open>VERIFY\<close> (a bound bus address comes with a DMA handle), which includes the
  zeroed buffer and every state the allocation can leave behind, the call
  returns, and a second call on the result returns it unchanged and makes no
  DDI call. After the first call both handles and the bus address are null and
  the length is zero; the virtual address and the size are null/zero as well
  for every buffer whose fields are consistent.
\<close>

theorem i40e_free_dma_buffer_idempotent:
  "dmab_dma_address d \<noteq> 0 \<longrightarrow> dmab_dma_handle d \<noteq> None \<Longrightarrow>
     \<exists>d' cs. i40e_free_dma_buffer d = Inr (d', cs) \<and>
       i40e_free_dma_buffer d' = Inr (d', []) \<and>
       dmab_dma_handle d' = None \<and> dmab_acc_handle d' = None \<and>
       dmab_dma_address d' = 0 \<and> dmab_len d' = 0 \<and>
       (dmab_consistent d \<longrightarrow> dmab_address d' = 0 \<and> dmab_size d' = 0)"
proof -
  assume v: "dmab_dma_address d \<noteq> 0 \<longrightarrow> dmab_dma_handle d \<noteq> None"
  from free_dma_buffer_returns [OF v] obtain d' cs
    where r: "i40e_free_dma_buffer d = Inr (d', cs)" by blast
  from free_dma_buffer_after [OF r] r show ?thesis by blast
qed

text \<open>
  The theorem at a partially initialised buffer (handle and memory allocated,
  nothing bound yet, as after a failed fourth step of the allocation): the call
  leaves the zeroed buffer, on which a further call changes nothing.
\<close>

theorem i40e_free_dma_buffer_idempotent_witness:
  "dmab_dma_handle (dmab_zero\<lparr>dmab_address := 0x1000, dmab_dma_handle := Some 1,
        dmab_acc_handle := Some 2, dmab_mem := [0, 0]\<rparr>) \<noteq> None \<and>
   dmab_consistent (dmab_zero\<lparr>dmab_address := 0x1000, dmab_dma_handle := Some 1,
        dmab_acc_handle := Some 2, dmab_mem := [0, 0]\<rparr>) \<and>
   i40e_free_dma_buffer (dmab_zero\<lparr>dmab_address := 0x1000, dmab_dma_handle := Some 1,
        dmab_acc_handle := Some 2, dmab_mem := [0, 0]\<rparr>) =
     Inr (dmab_zero, [Ddi_dma_mem_free 2, Ddi_dma_free_handle 1]) \<and>
   i40e_free_dma_buffer dmab_zero = Inr (dmab_zero, []) \<and>
   dmab_dma_handle dmab_zero = None \<and> dmab_acc_handle dmab_zero = None \<and>
   dmab_dma_address dmab_zero = 0 \<and> dmab_len dmab_zero = 0 \<and>
   dmab_address dmab_zero = 0 \<and> dmab_size dmab_zero = 0"
proof -
  let ?d = "dmab_zero\<lparr>dmab_address := 0x1000, dmab_dma_handle := Some 1,
        dmab_acc_handle := Some 2, dmab_mem := [0, 0]\<rparr>"
  have pre: "dmab_dma_address ?d \<noteq> 0 \<longrightarrow> dmab_dma_handle ?d \<noteq> None"
    by (simp add: dmab_zero_def)
  have run: "i40e_free_dma_buffer ?d =
     Inr (dmab_zero, [Ddi_dma_mem_free 2, Ddi_dma_free_handle 1])"
    by (simp add: i40e_free_dma_buffer_def dmab_zero_def)
  have cons: "dmab_consistent ?d"
    by (simp add: dmab_consistent_def dmab_zero_def)
  have h: "dmab_dma_handle ?d \<noteq> None"
    by (simp add: dmab_zero_def)
  from i40e_free_dma_buffer_idempotent [OF pre] run cons h show ?thesis
    by auto
qed

subsection \<open>The receive recycle callback\<close>

text \<open>
  C10. When \<^verbatim>\<open>i40e_rx_recycle\<close> is called on a control block whose reference
  count is zero it returns at once: the whole state (free list, reference
  counts, pending-loan counters, DMA resources, and everything else) is the
  state it was called in.
\<close>

theorem i40e_rx_recycle_ref_zero:
  "arg < length (rxd_rcb_area (itrq_rxdata itrq)) \<Longrightarrow>
   rcb_ref (rxd_rcb_area (itrq_rxdata itrq) ! arg) = 0 \<Longrightarrow>
   i40e_rx_recycle desballoc_ok arg itrq = Inr itrq"
  by (simp add: i40e_rx_recycle_def Let_def)

subsection \<open>The receive ring engine: what a step preserves\<close>

lemma i40e_rcb_free_size:
  "i40e_rcb_free rxd r = Inr rxd' \<Longrightarrow>
     rxd_ring_size rxd' = rxd_ring_size rxd \<and> rxd_desc_next rxd' = rxd_desc_next rxd"
  by (auto simp: i40e_rcb_free_def split: if_splits)

lemma i40e_rcb_alloc_size:
  "i40e_rcb_alloc rxd = Inr (r, rxd') \<Longrightarrow>
     rxd_ring_size rxd' = rxd_ring_size rxd \<and> rxd_desc_next rxd' = rxd_desc_next rxd"
  by (auto simp: i40e_rcb_alloc_def Let_def split: if_splits option.splits)

lemma i40e_rx_bind_static:
  "i40e_rx_bind env index plen itrq = Inr (mp, itrq') \<Longrightarrow> rx_static itrq' = rx_static itrq"
  by (auto simp: i40e_rx_bind_def rx_static_def Let_def kstat_inc_def i40e_fm_error_def
           split: sum.splits option.splits if_splits prod.splits
           dest!: i40e_rcb_free_size i40e_rcb_alloc_size)

lemma i40e_rx_copy_static:
  "i40e_rx_copy env index plen itrq = Inr (mp, itrq') \<Longrightarrow> rx_static itrq' = rx_static itrq"
  by (auto simp: i40e_rx_copy_def rx_static_def Let_def kstat_inc_def i40e_fm_error_def
           split: sum.splits option.splits if_splits prod.splits)

lemma rx_frame_static:
  "rx_frame conf env index plen itrq = Inr (mp, itrq') \<Longrightarrow> rx_static itrq' = rx_static itrq"
  by (auto simp: rx_frame_def split: if_splits sum.splits option.splits prod.splits
           dest!: i40e_rx_bind_static i40e_rx_copy_static)

lemma i40e_rx_bind_len:
  "i40e_rx_bind env index plen itrq = Inr (Some mp, itrq') \<Longrightarrow> MBLKL mp = plen"
  by (auto simp: i40e_rx_bind_def Let_def MBLKL_def
           split: sum.splits option.splits if_splits prod.splits)

lemma i40e_rx_copy_len:
  "i40e_rx_copy env index plen itrq = Inr (Some mp, itrq') \<Longrightarrow> MBLKL mp = plen"
  by (auto simp: i40e_rx_copy_def Let_def MBLKL_def
           split: sum.splits option.splits if_splits prod.splits)

lemma rx_frame_len:
  "rx_frame conf env index plen itrq = Inr (Some mp, itrq') \<Longrightarrow> MBLKL mp = plen"
  by (auto simp: rx_frame_def split: if_splits sum.splits option.splits prod.splits
           dest: i40e_rx_bind_len i40e_rx_copy_len)

lemma rx_discard_props:
  assumes "rx_discard conf w = Inr r"
  shows "rx_static (rw_itrq (loop_val r)) = rx_static (rw_itrq w)"
    and "rw_rx_bytes (loop_val r) = rw_rx_bytes w"
    and "rw_mps (loop_val r) = rw_mps w"
    and "rw_rx_frames (loop_val r) = Suc (rw_rx_frames w)"
    and "rw_cur_head w < rxd_ring_size (itrq_rxdata (rw_itrq w)) \<Longrightarrow>
         rw_cur_head (loop_val r) < rxd_ring_size (itrq_rxdata (rw_itrq w))"
  using assms
  by (auto simp: rx_discard_def Let_def loop_val_def rx_static_def kstat_inc_def
                 i40e_next_desc_def
           split: sum.splits if_splits)


lemma rx_step_static:
  assumes "rx_step conf env poll_bytes w = Inr r"
  shows "rx_static (rw_itrq (loop_val r)) = rx_static (rw_itrq w)"
    and "rw_cur_head w < rxd_ring_size (itrq_rxdata (rw_itrq w)) \<Longrightarrow>
         rw_cur_head (loop_val r) < rxd_ring_size (itrq_rxdata (rw_itrq w))"
proof -
  have kst: "rx_static (kstat_inc k q) = rx_static q" for k q
    by (simp add: rx_static_def kstat_inc_def)
  have size: "rxd_ring_size (itrq_rxdata q') = rxd_ring_size (itrq_rxdata q)"
    if "rx_static q' = rx_static q" for q q'
    using that by (simp add: rx_static_def)
  show "rx_static (rw_itrq (loop_val r)) = rx_static (rw_itrq w)"
    using assms
    by (auto simp: rx_step_def Let_def kst split: if_splits sum.splits prod.splits
             dest!: rx_discard_props(1) rx_frame_static)
       (simp_all add: loop_val_def)
  show "rw_cur_head (loop_val r) < rxd_ring_size (itrq_rxdata (rw_itrq w))"
    if "rw_cur_head w < rxd_ring_size (itrq_rxdata (rw_itrq w))"
    using assms that
    by (auto simp: rx_step_def Let_def split: if_splits sum.splits prod.splits
             dest!: rx_discard_props(5) rx_frame_static[THEN size])
       (simp_all add: loop_val_def kstat_inc_def)
qed

lemma loop_val_simps [simp]:
  "loop_val (Break x) = x" "loop_val (Continue x) = x"
  by (simp_all add: loop_val_def)

lemma rx_discard_data:
  "rx_discard conf w = Inr r \<Longrightarrow>
     rw_rx_bytes (loop_val r) = rw_rx_bytes w \<and> rw_mps (loop_val r) = rw_mps w \<and>
     rw_rx_frames (loop_val r) = Suc (rw_rx_frames w)"
  by (simp add: rx_discard_props)

lemma rx_step_quota:
  assumes "rx_step conf env poll_bytes w = Inr r"
    and "0 \<le> poll_bytes" "poll_bytes < 2 ^ 31"
    and "sum_list (map MBLKL (rw_mps w)) \<le> rw_rx_bytes w"
    and "int (rw_rx_bytes w) \<le> poll_bytes"
  shows "sum_list (map MBLKL (rw_mps (loop_val r))) \<le> rw_rx_bytes (loop_val r) \<and>
         int (rw_rx_bytes (loop_val r)) \<le> poll_bytes"
proof -
  have u: "uint64_of_int poll_bytes = nat poll_bytes"
    using assms(2,3) by (simp add: uint64_of_int_def)
  have np: "poll_bytes \<noteq> I40E_POLL_NULL"
    using assms(2) by (simp add: I40E_POLL_NULL_def)
  have hck: "MBLKL (mac_hcksum_set m f) = MBLKL m" for m f
    by (simp add: mac_hcksum_set_def MBLKL_def)
  show ?thesis
    using assms(1,2,4,5)
    by (auto simp: rx_step_def Let_def u np hck
             split: if_splits sum.splits prod.splits option.splits
             dest!: rx_discard_data rx_frame_len)
qed

lemma rx_step_frames:
  "rx_step conf env poll_bytes w = Inr r \<Longrightarrow>
     rw_rx_frames (loop_val r) \<le> Suc (rw_rx_frames w) \<and>
     (r = Continue (loop_val r) \<longrightarrow> rw_rx_frames (loop_val r) \<le> i40e_rx_limit_per_intr conf)"
  by (auto simp: rx_step_def rx_discard_def Let_def
           split: if_splits sum.splits prod.splits option.splits)

lemma rx_loop_static:
  "rx_loop conf envs poll_bytes w = Inr w' \<Longrightarrow>
     rx_static (rw_itrq w') = rx_static (rw_itrq w) \<and>
     (rw_cur_head w < rxd_ring_size (itrq_rxdata (rw_itrq w)) \<longrightarrow>
      rw_cur_head w' < rxd_ring_size (itrq_rxdata (rw_itrq w)))"
proof (induction conf envs poll_bytes w rule: rx_loop.induct)
  case (1 conf envs poll_bytes w)
  show ?case
  proof (cases "rx_step conf (envs (rw_rx_frames w)) poll_bytes w")
    case (Inl f)
    with "1.prems" show ?thesis by (simp add: rx_loop.simps[of conf envs poll_bytes w])
  next
    case (Inr r)
    note st = rx_step_static[OF Inr]
    show ?thesis
    proof (cases r)
      case (Break x)
      with Inr "1.prems" st show ?thesis
        by (simp add: rx_loop.simps[of conf envs poll_bytes w])
    next
      case (Continue x)
      with Inr "1.prems" have "rx_loop conf envs poll_bytes x = Inr w'"
        by (simp add: rx_loop.simps[of conf envs poll_bytes w])
      from "1.IH"[OF Inr Continue this] st Continue show ?thesis
        by (simp add: rx_static_def)
    qed
  qed
qed

lemma rx_loop_quota:
  "rx_loop conf envs poll_bytes w = Inr w' \<Longrightarrow> 0 \<le> poll_bytes \<Longrightarrow> poll_bytes < 2 ^ 31 \<Longrightarrow>
     sum_list (map MBLKL (rw_mps w)) \<le> rw_rx_bytes w \<Longrightarrow> int (rw_rx_bytes w) \<le> poll_bytes \<Longrightarrow>
     sum_list (map MBLKL (rw_mps w')) \<le> rw_rx_bytes w' \<and> int (rw_rx_bytes w') \<le> poll_bytes"
proof (induction conf envs poll_bytes w rule: rx_loop.induct)
  case (1 conf envs poll_bytes w)
  show ?case
  proof (cases "rx_step conf (envs (rw_rx_frames w)) poll_bytes w")
    case (Inl f)
    with "1.prems" show ?thesis by (simp add: rx_loop.simps[of conf envs poll_bytes w])
  next
    case (Inr r)
    note st = rx_step_quota[OF Inr "1.prems"(2,3,4,5)]
    show ?thesis
    proof (cases r)
      case (Break x)
      with Inr "1.prems" st show ?thesis
        by (simp add: rx_loop.simps[of conf envs poll_bytes w])
    next
      case (Continue x)
      with Inr "1.prems" have "rx_loop conf envs poll_bytes x = Inr w'"
        by (simp add: rx_loop.simps[of conf envs poll_bytes w])
      from "1.IH"[OF Inr Continue this "1.prems"(2,3)] st Continue show ?thesis
        by simp
    qed
  qed
qed


lemma rx_loop_frames:
  "rx_loop conf envs poll_bytes w = Inr w' \<Longrightarrow>
     rw_rx_frames w \<le> i40e_rx_limit_per_intr conf \<Longrightarrow>
     rw_rx_frames w' \<le> Suc (i40e_rx_limit_per_intr conf)"
proof (induction conf envs poll_bytes w rule: rx_loop.induct)
  case (1 conf envs poll_bytes w)
  show ?case
  proof (cases "rx_step conf (envs (rw_rx_frames w)) poll_bytes w")
    case (Inl f)
    with "1.prems" show ?thesis by (simp add: rx_loop.simps[of conf envs poll_bytes w])
  next
    case (Inr r)
    note st = rx_step_frames[OF Inr]
    show ?thesis
    proof (cases r)
      case (Break x)
      with Inr "1.prems" st show ?thesis
        by (simp add: rx_loop.simps[of conf envs poll_bytes w])
    next
      case (Continue x)
      with Inr "1.prems" have "rx_loop conf envs poll_bytes x = Inr w'"
        by (simp add: rx_loop.simps[of conf envs poll_bytes w])
      from "1.IH"[OF Inr Continue this] st Continue show ?thesis
        by simp
    qed
  qed
qed

subsection \<open>The receive ring engine: the polling quota\<close>

text \<open>
  C4. A polled call of \<^verbatim>\<open>i40e_ring_rx\<close> (a quota \<open>poll_bytes\<close> that is a
  non-negative \<^verbatim>\<open>int\<close>, hence not the sentinel \<^verbatim>\<open>I40E_POLL_NULL\<close>) delivers
  frames whose lengths sum to at most \<open>poll_bytes\<close>; and when the walk looks at
  a completed, error-free descriptor whose length would take the running total
  past the quota, it stops there with every walk variable unchanged: the
  descriptor is not consumed.
\<close>

theorem i40e_ring_rx_poll_quota:
  assumes "0 \<le> poll_bytes" and "poll_bytes < 2 ^ 31"
  shows "(i40e_ring_rx conf plat poll_bytes itrq = Inr (mps, itrq') \<longrightarrow>
            int (sum_list (map MBLKL mps)) \<le> poll_bytes) \<and>
         (rw_cur_head w < length (rxd_desc_ring (itrq_rxdata (rw_itrq w))) \<and>
          rx_desc_dd (rx_stword w) \<and> rx_desc_eop (rx_stword w) \<and>
          rx_desc_error (rx_stword w) AND I40E_RX_ERR_BITS = 0 \<and>
          poll_bytes < int (rw_rx_bytes w + rx_desc_plen (rx_stword w)) \<longrightarrow>
            rx_loop conf envs poll_bytes w = Inr w)"
proof (intro conjI impI)
  assume run: "i40e_ring_rx conf plat poll_bytes itrq = Inr (mps, itrq')"
  show "int (sum_list (map MBLKL mps)) \<le> poll_bytes"
  proof (cases "i40e_state_ok (i40e_state (itrq_i40e itrq)) \<and> plat_desc_dma_ok_entry plat")
    case False
    with run assms show ?thesis
      by (auto simp: i40e_ring_rx_def split: if_splits)
  next
    case True
    with run obtain w' where
      loop: "rx_loop conf (plat_frames plat) poll_bytes (rx_walk_init itrq) = Inr w'"
      and mps: "mps = rw_mps w'"
      by (auto simp: i40e_ring_rx_def split: sum.splits)
    have "sum_list (map MBLKL (rw_mps w')) \<le> rw_rx_bytes w' \<and> int (rw_rx_bytes w') \<le> poll_bytes"
      using assms by (intro rx_loop_quota[OF loop]) (simp_all add: rx_walk_init_def)
    with mps have a: "sum_list (map MBLKL mps) \<le> rw_rx_bytes w'"
      and b: "int (rw_rx_bytes w') \<le> poll_bytes"
      by simp_all
    from a have "int (sum_list (map MBLKL mps)) \<le> int (rw_rx_bytes w')"
      by (simp only: of_nat_le_iff)
    also note b
    finally show ?thesis .
  qed
next
  assume h: "rw_cur_head w < length (rxd_desc_ring (itrq_rxdata (rw_itrq w))) \<and>
          rx_desc_dd (rx_stword w) \<and> rx_desc_eop (rx_stword w) \<and>
          rx_desc_error (rx_stword w) AND I40E_RX_ERR_BITS = 0 \<and>
          poll_bytes < int (rw_rx_bytes w + rx_desc_plen (rx_stword w))"
  have u: "uint64_of_int poll_bytes = nat poll_bytes"
    using assms by (simp add: uint64_of_int_def)
  have np: "poll_bytes \<noteq> I40E_POLL_NULL"
    using assms by (simp add: I40E_POLL_NULL_def)
  from h assms have "rx_step conf (envs (rw_rx_frames w)) poll_bytes w = Inr (Break w)"
    by (auto simp: rx_step_def Let_def rx_stword_def u np)
  then show "rx_loop conf envs poll_bytes w = Inr w"
    by (simp add: rx_loop.simps[of conf envs poll_bytes w])
qed

theorem i40e_ring_rx_poll_quota_witness:
  "(0::int) \<le> 5 \<and> (5::int) < 2 ^ 31 \<and>
   map_sum id (\<lambda>(mps, q). map MBLKL mps) (i40e_ring_rx ex_conf ex_plat 5 ex_three) = Inr [4] \<and>
   (\<exists>mps q. i40e_ring_rx ex_conf ex_plat 5 ex_three = Inr (mps, q) \<and>
            int (sum_list (map MBLKL mps)) \<le> 5) \<and>
   rw_cur_head (rx_walk_init ex_three\<lparr>rw_rx_bytes := 4\<rparr>)
     < length (rxd_desc_ring (itrq_rxdata (rw_itrq (rx_walk_init ex_three\<lparr>rw_rx_bytes := 4\<rparr>)))) \<and>
   rx_desc_dd (rx_stword (rx_walk_init ex_three\<lparr>rw_rx_bytes := 4\<rparr>)) \<and>
   rx_desc_eop (rx_stword (rx_walk_init ex_three\<lparr>rw_rx_bytes := 4\<rparr>)) \<and>
   rx_desc_error (rx_stword (rx_walk_init ex_three\<lparr>rw_rx_bytes := 4\<rparr>)) AND I40E_RX_ERR_BITS = 0 \<and>
   (5::int) < int (rw_rx_bytes (rx_walk_init ex_three\<lparr>rw_rx_bytes := 4\<rparr>) +
                   rx_desc_plen (rx_stword (rx_walk_init ex_three\<lparr>rw_rx_bytes := 4\<rparr>))) \<and>
   rx_loop ex_conf (\<lambda>n. ex_env) 5 (rx_walk_init ex_three\<lparr>rw_rx_bytes := 4\<rparr>) =
     Inr (rx_walk_init ex_three\<lparr>rw_rx_bytes := 4\<rparr>)"
proof -
  have ev: "map_sum id (\<lambda>(mps, q). map MBLKL mps) (i40e_ring_rx ex_conf ex_plat 5 ex_three) = Inr [4]"
    by code_simp
  then obtain mps q where run: "i40e_ring_rx ex_conf ex_plat 5 ex_three = Inr (mps, q)"
    by (cases "i40e_ring_rx ex_conf ex_plat 5 ex_three") auto
  have h: "rw_cur_head (rx_walk_init ex_three\<lparr>rw_rx_bytes := 4\<rparr>)
     < length (rxd_desc_ring (itrq_rxdata (rw_itrq (rx_walk_init ex_three\<lparr>rw_rx_bytes := 4\<rparr>)))) \<and>
   rx_desc_dd (rx_stword (rx_walk_init ex_three\<lparr>rw_rx_bytes := 4\<rparr>)) \<and>
   rx_desc_eop (rx_stword (rx_walk_init ex_three\<lparr>rw_rx_bytes := 4\<rparr>)) \<and>
   rx_desc_error (rx_stword (rx_walk_init ex_three\<lparr>rw_rx_bytes := 4\<rparr>)) AND I40E_RX_ERR_BITS = 0 \<and>
   (5::int) < int (rw_rx_bytes (rx_walk_init ex_three\<lparr>rw_rx_bytes := 4\<rparr>) +
                   rx_desc_plen (rx_stword (rx_walk_init ex_three\<lparr>rw_rx_bytes := 4\<rparr>)))"
    by code_simp
  have b: "(0::int) \<le> 5" "(5::int) < 2 ^ 31" by simp_all
  from i40e_ring_rx_poll_quota[OF b, of ex_conf ex_plat ex_three mps q
         "rx_walk_init ex_three\<lparr>rw_rx_bytes := 4\<rparr>" "\<lambda>n. ex_env"] run h ev b
  show ?thesis by blast
qed

text \<open>The theorem at a control block without references.\<close>

theorem i40e_rx_recycle_ref_zero_witness:
  "0 < length (rxd_rcb_area (itrq_rxdata ex_ref_zero)) \<and>
   rcb_ref (rxd_rcb_area (itrq_rxdata ex_ref_zero) ! 0) = 0 \<and>
   i40e_rx_recycle True 0 ex_ref_zero = Inr ex_ref_zero"
proof -
  have a: "0 < length (rxd_rcb_area (itrq_rxdata ex_ref_zero))"
    by (simp add: ex_ref_zero_def)
  have b: "rcb_ref (rxd_rcb_area (itrq_rxdata ex_ref_zero) ! 0) = 0"
    by (simp add: ex_ref_zero_def)
  from i40e_rx_recycle_ref_zero[OF a b, of True] a b show ?thesis
    by simp
qed

subsection \<open>The receive ring engine: the frame limit\<close>

text \<open>
  C5. The number of frames one interrupt-mode call of \<^verbatim>\<open>i40e_ring_rx\<close> consumes
  is not bounded by \<open>i40e_rx_limit_per_intr\<close>: with a limit of 1 and three
  completed descriptors on the ring, the call (with the sentinel
  \<^verbatim>\<open>I40E_POLL_NULL\<close>) consumes two descriptors and delivers two frames, of 4
  and 5 bytes. The loop counts the frame first and leaves only when the count
  is greater than the limit.
\<close>

theorem i40e_ring_rx_limit_exceeded:
  "i40e_rx_limit_per_intr (ex_conf\<lparr>i40e_rx_limit_per_intr := 1\<rparr>) = 1 \<and>
   map_sum id rw_rx_frames
     (rx_loop (ex_conf\<lparr>i40e_rx_limit_per_intr := 1\<rparr>) (plat_frames ex_plat) I40E_POLL_NULL
        (rx_walk_init ex_three)) = Inr 2 \<and>
   map_sum id (map MBLKL \<circ> fst)
     (i40e_ring_rx (ex_conf\<lparr>i40e_rx_limit_per_intr := 1\<rparr>) ex_plat I40E_POLL_NULL ex_three)
     = Inr [4, 5]"
  by code_simp

subsection \<open>The receive ring engine: bind and copy\<close>

text \<open>
  C6. For a frame whose length is at least the copy threshold
  \<open>i40e_rx_dma_min\<close>, the loop body first calls \<^verbatim>\<open>i40e_rx_bind\<close> and uses its
  block when there is one, calling \<^verbatim>\<open>i40e_rx_copy\<close> only on \<^verbatim>\<open>NULL\<close>. When
  the free list is empty, \<^verbatim>\<open>i40e_rx_bind\<close> returns \<^verbatim>\<open>NULL\<close> (counting
  \<^verbatim>\<open>irxs_rx_bind_norcb\<close>) and the frame is the result of \<^verbatim>\<open>i40e_rx_copy\<close>.
  That copy, when the DMA handle is sound and \<^verbatim>\<open>allocb\<close> succeeds, delivers a
  fresh block of \<open>plen + 2\<close> bytes whose read pointer is two bytes in and whose
  \<open>plen\<close> data bytes are the first \<open>plen\<close> bytes of the DMA buffer; the queue
  pair, and with it the buffer on the work list, stays as it was.
\<close>

theorem i40e_ring_rx_bind_fallback:
  assumes "i40e_rx_dma_min conf \<le> plen"
  shows "rx_frame conf env index plen itrq =
           (case i40e_rx_bind env index plen itrq of
              Inl f \<Rightarrow> Inl f
            | Inr (Some mp, itrq') \<Rightarrow> Inr (Some mp, itrq')
            | Inr (None, itrq') \<Rightarrow> i40e_rx_copy env index plen itrq') \<and>
         (rxd_rcb_free (itrq_rxdata itrq) = 0 \<longrightarrow>
            i40e_rx_bind env index plen itrq = Inr (None, kstat_inc Irxs_rx_bind_norcb itrq) \<and>
            rx_frame conf env index plen itrq =
              i40e_rx_copy env index plen (kstat_inc Irxs_rx_bind_norcb itrq)) \<and>
         (rx_work_rcb (itrq_rxdata q) index = Inr rcb \<and> env_copy_dma_ok env \<and>
          env_allocb_ok env \<and>
          plen \<le> length (dmab_mem (rcb_dma (rxd_rcb_area (itrq_rxdata q) ! rcb))) \<longrightarrow>
            (\<exists>mp. i40e_rx_copy env index plen q = Inr (Some mp, q) \<and>
                  length (db_mem mp) = plen + I40E_BUF_IPHDR_ALIGNMENT \<and>
                  b_rptr mp = I40E_BUF_IPHDR_ALIGNMENT \<and> MBLKL mp = plen \<and>
                  take plen (drop (b_rptr mp) (db_mem mp)) =
                    take plen (dmab_mem (rcb_dma (rxd_rcb_area (itrq_rxdata q) ! rcb)))))"
proof (intro conjI impI)
  show "rx_frame conf env index plen itrq =
           (case i40e_rx_bind env index plen itrq of
              Inl f \<Rightarrow> Inl f
            | Inr (Some mp, itrq') \<Rightarrow> Inr (Some mp, itrq')
            | Inr (None, itrq') \<Rightarrow> i40e_rx_copy env index plen itrq')"
    using assms by (simp add: rx_frame_def)
next
  assume e: "rxd_rcb_free (itrq_rxdata itrq) = 0"
  then show b: "i40e_rx_bind env index plen itrq = Inr (None, kstat_inc Irxs_rx_bind_norcb itrq)"
    by (simp add: i40e_rx_bind_def i40e_rcb_alloc_def)
  with assms show "rx_frame conf env index plen itrq =
              i40e_rx_copy env index plen (kstat_inc Irxs_rx_bind_norcb itrq)"
    by (simp add: rx_frame_def)
next
  assume "rx_work_rcb (itrq_rxdata q) index = Inr rcb \<and> env_copy_dma_ok env \<and>
          env_allocb_ok env \<and>
          plen \<le> length (dmab_mem (rcb_dma (rxd_rcb_area (itrq_rxdata q) ! rcb)))"
  then show "\<exists>mp. i40e_rx_copy env index plen q = Inr (Some mp, q) \<and>
                  length (db_mem mp) = plen + I40E_BUF_IPHDR_ALIGNMENT \<and>
                  b_rptr mp = I40E_BUF_IPHDR_ALIGNMENT \<and> MBLKL mp = plen \<and>
                  take plen (drop (b_rptr mp) (db_mem mp)) =
                    take plen (dmab_mem (rcb_dma (rxd_rcb_area (itrq_rxdata q) ! rcb)))"
    by (simp add: i40e_rx_copy_def Let_def MBLKL_def I40E_BUF_IPHDR_ALIGNMENT_def)
qed

text \<open>
  The theorem at a frame of four bytes, a threshold of two and an empty free
  list.
\<close>

theorem i40e_ring_rx_bind_fallback_witness:
  "i40e_rx_dma_min (ex_conf\<lparr>i40e_rx_dma_min := 2\<rparr>) \<le> 4 \<and>
   rxd_rcb_free (itrq_rxdata ex_no_free) = 0 \<and>
   rx_work_rcb (itrq_rxdata (kstat_inc Irxs_rx_bind_norcb ex_no_free)) 0 = Inr 0 \<and>
   env_copy_dma_ok ex_env \<and> env_allocb_ok ex_env \<and>
   4 \<le> length (dmab_mem (rcb_dma
          (rxd_rcb_area (itrq_rxdata (kstat_inc Irxs_rx_bind_norcb ex_no_free)) ! 0))) \<and>
   i40e_rx_bind ex_env 0 4 ex_no_free = Inr (None, kstat_inc Irxs_rx_bind_norcb ex_no_free) \<and>
   rx_frame (ex_conf\<lparr>i40e_rx_dma_min := 2\<rparr>) ex_env 0 4 ex_no_free =
     i40e_rx_copy ex_env 0 4 (kstat_inc Irxs_rx_bind_norcb ex_no_free) \<and>
   (\<exists>mp. i40e_rx_copy ex_env 0 4 (kstat_inc Irxs_rx_bind_norcb ex_no_free) =
           Inr (Some mp, kstat_inc Irxs_rx_bind_norcb ex_no_free) \<and>
         length (db_mem mp) = 4 + I40E_BUF_IPHDR_ALIGNMENT \<and>
         b_rptr mp = I40E_BUF_IPHDR_ALIGNMENT \<and> MBLKL mp = 4 \<and>
         take 4 (drop (b_rptr mp) (db_mem mp)) = [1, 2, 3, 4])"
proof -
  have h1: "i40e_rx_dma_min (ex_conf\<lparr>i40e_rx_dma_min := 2\<rparr>) \<le> 4"
    by simp
  have h2: "rxd_rcb_free (itrq_rxdata ex_no_free) = 0"
    by (simp add: ex_no_free_def)
  have h3: "rx_work_rcb (itrq_rxdata (kstat_inc Irxs_rx_bind_norcb ex_no_free)) 0 = Inr 0 \<and>
      env_copy_dma_ok ex_env \<and> env_allocb_ok ex_env \<and>
      4 \<le> length (dmab_mem (rcb_dma
          (rxd_rcb_area (itrq_rxdata (kstat_inc Irxs_rx_bind_norcb ex_no_free)) ! 0)))"
    by code_simp
  have mem: "take 4 (dmab_mem (rcb_dma
          (rxd_rcb_area (itrq_rxdata (kstat_inc Irxs_rx_bind_norcb ex_no_free)) ! 0)))
        = [1, 2, 3, 4]"
    by code_simp
  from i40e_ring_rx_bind_fallback[OF h1, of ex_env 0 ex_no_free
         "kstat_inc Irxs_rx_bind_norcb ex_no_free" 0] h1 h2 h3 mem
  show ?thesis
    by auto
qed

subsection \<open>The receive ring engine: the tail register\<close>

lemma i40e_prev_desc_mod:
  "0 \<le> base \<Longrightarrow> base < sz \<Longrightarrow> i40e_prev_desc base 1 sz = (base - 1) mod sz"
proof (cases "base = 0")
  case True
  assume "base < sz"
  with True have "(- 1) mod sz = sz - 1"
    by (simp add: zmod_minus1)
  with True show ?thesis
    by (simp add: i40e_prev_desc_def)
next
  case False
  assume "0 \<le> base" "base < sz"
  with False show ?thesis
    by (simp add: i40e_prev_desc_def)
qed

text \<open>
  C7 (as amended). When the walk of \<^verbatim>\<open>i40e_ring_rx\<close> has run (the device is
  started and free of errors, the descriptor area is sound) and has consumed at
  least one descriptor, the call writes the tail register \<^verbatim>\<open>I40E_QRX_TAIL\<close> of
  the ring exactly once, with \<open>(software_head - 1) mod ring_size\<close>, where the
  software head \<open>rxd_desc_next\<close> is now the index of the first descriptor that was
  not processed. When the walk has consumed nothing, no register is written and
  the software head is unchanged.
\<close>

theorem i40e_ring_rx_tail:
  assumes ok: "i40e_state_ok (i40e_state (itrq_i40e itrq))" "plat_desc_dma_ok_entry plat"
    and head: "rxd_desc_next (itrq_rxdata itrq) < rxd_ring_size (itrq_rxdata itrq)"
    and size: "rxd_ring_size (itrq_rxdata itrq) < 2 ^ 31"
    and walk: "rx_loop conf (plat_frames plat) poll_bytes (rx_walk_init itrq) = Inr w"
  shows "\<exists>itrq'. i40e_ring_rx conf plat poll_bytes itrq = Inr (rw_mps w, itrq') \<and>
           i40e_reg_writes (itrq_i40e itrq') = i40e_reg_writes (itrq_i40e itrq) @
             (if rw_rx_frames w = 0 then []
              else [(I40E_QRX_TAIL (itrq_index itrq),
                     nat ((int (rxd_desc_next (itrq_rxdata itrq')) - 1) mod
                          int (rxd_ring_size (itrq_rxdata itrq))))]) \<and>
           rxd_desc_next (itrq_rxdata itrq') =
             (if rw_rx_frames w = 0 then rxd_desc_next (itrq_rxdata itrq) else rw_cur_head w)"
proof -
  from rx_loop_static[OF walk] head
  have st: "rx_static (rw_itrq w) = rx_static itrq"
    and h: "rw_cur_head w < rxd_ring_size (itrq_rxdata itrq)"
    by (simp_all add: rx_walk_init_def)
  from st have idx: "itrq_index (rw_itrq w) = itrq_index itrq"
    and sz: "rxd_ring_size (itrq_rxdata (rw_itrq w)) = rxd_ring_size (itrq_rxdata itrq)"
    and rg: "i40e_reg_writes (itrq_i40e (rw_itrq w)) = i40e_reg_writes (itrq_i40e itrq)"
    by (simp_all add: rx_static_def)
  have prev: "i40e_prev_desc (int (rw_cur_head w)) 1 (int (rxd_ring_size (itrq_rxdata itrq)))
      = (int (rw_cur_head w) - 1) mod int (rxd_ring_size (itrq_rxdata itrq))"
    using h by (intro i40e_prev_desc_mod) simp_all
  have lt: "(int (rw_cur_head w) - 1) mod int (rxd_ring_size (itrq_rxdata itrq)) < 2 ^ 32"
  proof -
    have "(int (rw_cur_head w) - 1) mod int (rxd_ring_size (itrq_rxdata itrq))
          < int (rxd_ring_size (itrq_rxdata itrq))"
      using h by (intro pos_mod_bound) simp
    also have "\<dots> < 2 ^ 31" using size by simp
    finally show ?thesis by simp
  qed
  have ge: "0 \<le> (int (rw_cur_head w) - 1) mod int (rxd_ring_size (itrq_rxdata itrq))"
    using h by (intro pos_mod_sign) simp
  have m32: "((int (rw_cur_head w) - 1) mod int (rxd_ring_size (itrq_rxdata itrq)))
               mod 4294967296
      = (int (rw_cur_head w) - 1) mod int (rxd_ring_size (itrq_rxdata itrq))"
    using lt ge by (intro mod_pos_pos_trivial) simp_all
  from st have nx0: "rxd_desc_next (itrq_rxdata (rw_itrq w)) = rxd_desc_next (itrq_rxdata itrq)"
    by (simp add: rx_static_def)
  show ?thesis
    using ok walk idx sz rg nx0
    by (simp add: i40e_ring_rx_def rx_finish_def Let_def i40e_fm_error_def kstat_add_def
                  prev m32)
qed

text \<open>The theorem on the ring of three completed frames: the tail becomes 2.\<close>

theorem i40e_ring_rx_tail_witness:
  "i40e_state_ok (i40e_state (itrq_i40e ex_three)) \<and> plat_desc_dma_ok_entry ex_plat \<and>
   rxd_desc_next (itrq_rxdata ex_three) < rxd_ring_size (itrq_rxdata ex_three) \<and>
   rxd_ring_size (itrq_rxdata ex_three) < 2 ^ 31 \<and>
   (\<exists>w itrq'. rx_loop ex_conf (plat_frames ex_plat) I40E_POLL_NULL (rx_walk_init ex_three) = Inr w \<and>
      rw_rx_frames w = 3 \<and>
      i40e_ring_rx ex_conf ex_plat I40E_POLL_NULL ex_three = Inr (rw_mps w, itrq') \<and>
      i40e_reg_writes (itrq_i40e itrq') = [(I40E_QRX_TAIL 0, 2)] \<and>
      rxd_desc_next (itrq_rxdata itrq') = 3)"
proof -
  have h: "i40e_state_ok (i40e_state (itrq_i40e ex_three))" "plat_desc_dma_ok_entry ex_plat"
    "rxd_desc_next (itrq_rxdata ex_three) < rxd_ring_size (itrq_rxdata ex_three)"
    "rxd_ring_size (itrq_rxdata ex_three) < 2 ^ 31"
    by (simp_all add: ex_three_def ex_itrq_def ex_dev_def ex_rxd_def ex_plat_def
          i40e_state_ok_def I40E_STARTED_def I40E_OVERTEMP_def I40E_SUSPENDED_def
          I40E_ERROR_def)
  have c: "itrq_index ex_three = 0" "rxd_ring_size (itrq_rxdata ex_three) = 4"
    "i40e_reg_writes (itrq_i40e ex_three) = []"
    by (simp_all add: ex_three_def ex_itrq_def ex_dev_def ex_rxd_def)
  have "map_sum id (\<lambda>w. (rw_rx_frames w, rw_cur_head w))
          (rx_loop ex_conf (plat_frames ex_plat) I40E_POLL_NULL (rx_walk_init ex_three))
        = Inr (3, 3)"
    by code_simp
  then obtain w where
    w: "rx_loop ex_conf (plat_frames ex_plat) I40E_POLL_NULL (rx_walk_init ex_three) = Inr w"
    and f: "rw_rx_frames w = 3" "rw_cur_head w = 3"
    by (cases "rx_loop ex_conf (plat_frames ex_plat) I40E_POLL_NULL (rx_walk_init ex_three)")
       auto
  from i40e_ring_rx_tail[OF h w] f c h w show ?thesis
    by auto
qed

text \<open>
  C7 as stated fails: on a ring without a completed descriptor the walk runs and
  ends, and the call returns the queue pair as it was, with no register written.
\<close>

theorem i40e_ring_rx_tail_counterexample:
  "i40e_state_ok (i40e_state (itrq_i40e ex_idle)) \<and> plat_desc_dma_ok_entry ex_plat \<and>
   i40e_ring_rx ex_conf ex_plat I40E_POLL_NULL ex_idle = Inr ([], ex_idle) \<and>
   i40e_reg_writes (itrq_i40e ex_idle) = []"
  by (simp add: i40e_ring_rx_def ex_conf_def ex_plat_def ex_idle_def ex_itrq_def ex_dev_def
        i40e_state_ok_def I40E_STARTED_def I40E_OVERTEMP_def I40E_SUSPENDED_def I40E_ERROR_def
        rx_walk_init_def ex_rxd_def rx_step_def ex_armed_def rx_desc_dd_def rx_finish_def
        I40E_RX_DESC_STATUS_DD_SHIFT_def rx_loop.simps)

subsection \<open>The transmit ring engine: returning a frame\<close>

lemma tx_txfail_result:
  "tx_txfail mp c d itrq = Inr (r, itrq') \<Longrightarrow> r = Some mp \<and> itrq_tx_blocked itrq'"
  by (auto simp: tx_txfail_def split: sum.splits)

text \<open>
  C1. Whenever \<^verbatim>\<open>i40e_ring_tx\<close> returns a non-null value, that value is the frame
  it was called with, and the ring's \<^verbatim>\<open>itrq_tx_blocked\<close> flag is set in the
  state it returns in.
\<close>

theorem i40e_ring_tx_returned_frame:
  "i40e_ring_tx conf env mp itrq = Inr (Some r, itrq') \<Longrightarrow> r = mp \<and> itrq_tx_blocked itrq'"
  by (auto simp: i40e_ring_tx_def Let_def
           split: if_splits sum.splits prod.splits option.splits
           dest!: tx_txfail_result)

text \<open>
  The theorem at a send on a ring with fewer free descriptors than the block
  threshold: the ARP frame comes back and the ring is blocked.
\<close>

theorem i40e_ring_tx_returned_frame_witness:
  "map_sum id (map_prod id itrq_tx_blocked) (i40e_ring_tx ex_conf ex_tx_env ex_arp ex_low)
     = Inr (Some ex_arp, True) \<and>
   (\<exists>q. i40e_ring_tx ex_conf ex_tx_env ex_arp ex_low = Inr (Some ex_arp, q) \<and>
        itrq_tx_blocked q)"
proof -
  have ev: "map_sum id (map_prod id itrq_tx_blocked)
              (i40e_ring_tx ex_conf ex_tx_env ex_arp ex_low) = Inr (Some ex_arp, True)"
    by code_simp
  then obtain q where run: "i40e_ring_tx ex_conf ex_tx_env ex_arp ex_low = Inr (Some ex_arp, q)"
    by (cases "i40e_ring_tx ex_conf ex_tx_env ex_arp ex_low") auto
  from i40e_ring_tx_returned_frame[OF run] run ev show ?thesis
    by blast
qed

subsection \<open>Transmit completion reclaim: unblocking\<close>

lemma tx_recycle_descs_upstream:
  "tx_recycle_descs n itrq toclean count = Inr (itrq', toclean', count') \<Longrightarrow>
     tx_upstream itrq' = tx_upstream itrq"
  by (induction n arbitrary: itrq toclean count) (auto simp: tx_upstream_def split: if_splits)

lemma tx_recycle_loop_upstream:
  "tx_recycle_loop itrq toclean count tcbhead = Inr (itrq', count', tcbhead') \<Longrightarrow>
     tx_upstream itrq' = tx_upstream itrq"
proof (induction itrq toclean count tcbhead rule: tx_recycle_loop.induct)
  case (1 itrq toclean count tcbhead)
  show ?case
  proof (cases "toclean = itrq_desc_wbhead itrq")
    case True
    with "1.prems" show ?thesis
      by (subst (asm) tx_recycle_loop.simps) simp
  next
    case False
    define n where "n = (\<lambda>t. if tcb_type (itrq_tcb_area itrq ! t) = I40E_TX_DMA
                            then length (tcb_bind_info (itrq_tcb_area itrq ! t)) else 1)"
    from "1.prems" False obtain t itrq1 toclean1 count1 where
      a: "\<not> length (itrq_tcb_work_list itrq) \<le> toclean"
         "itrq_tcb_work_list itrq ! toclean = Some t"
         "\<not> length (itrq_tcb_area itrq) \<le> t"
      and d: "tx_recycle_descs (n t)
                (itrq\<lparr>itrq_tcb_work_list := (itrq_tcb_work_list itrq)[toclean := None]\<rparr>)
                toclean count = Inr (itrq1, toclean1, count1)"
      and l: "tx_recycle_loop itrq1 toclean1 count1 (t # tcbhead) = Inr (itrq', count', tcbhead')"
      unfolding n_def
      by (subst (asm) tx_recycle_loop.simps)
         (auto simp: Let_def split: if_splits option.splits sum.splits
               simp del: tx_recycle_descs.simps One_nat_def)
    have "tx_upstream itrq' = tx_upstream itrq1"
      using "1.IH"[OF False a refl refl d[unfolded n_def] refl refl l] .
    also have "\<dots> = tx_upstream (itrq\<lparr>itrq_tcb_work_list :=
                          (itrq_tcb_work_list itrq)[toclean := None]\<rparr>)"
      using d by (rule tx_recycle_descs_upstream)
    also have "\<dots> = tx_upstream itrq"
      by (simp add: tx_upstream_def)
    finally show ?thesis .
  qed
qed

lemma tx_tcb_reset_free_upstream:
  "tx_tcb_reset_free t itrq = Inr itrq' \<Longrightarrow> tx_upstream itrq' = tx_upstream itrq"
  by (auto simp: tx_tcb_reset_free_def i40e_tcb_free_def tx_upstream_def
           split: if_splits sum.splits prod.splits)

lemma tx_recycle_cleanup_upstream:
  "tx_recycle_cleanup ts itrq = Inr itrq' \<Longrightarrow> tx_upstream itrq' = tx_upstream itrq"
  by (induction ts arbitrary: itrq)
     (auto split: sum.splits dest!: tx_tcb_reset_free_upstream)

text \<open>
  C2. In every call of \<^verbatim>\<open>i40e_tx_recycle_ring\<close> that carries out the reclaim (the
  descriptor area's DMA handle is sound, or the ring is entirely free and there
  is nothing to reclaim) on a blocked ring, if the count of free descriptors
  after the reclaim is greater than the block threshold, then the ring is no
  longer blocked on return and \<^verbatim>\<open>mac_tx_ring_update\<close> has been called exactly
  once. A call that finds the DMA handle faulty returns before any reclaim.
\<close>

theorem i40e_tx_recycle_ring_unblocks:
  assumes run: "i40e_tx_recycle_ring conf env itrq = Inr itrq'"
    and blocked: "itrq_tx_blocked itrq"
    and reclaim: "unat (itrq_desc_free itrq) = itrq_tx_ring_size itrq \<or> rce_dma_ok env"
    and above: "i40e_tx_block_thresh conf < unat (itrq_desc_free itrq')"
  shows "\<not> itrq_tx_blocked itrq' \<and>
         i40e_mac_tx_ring_updates (itrq_i40e itrq') =
           i40e_mac_tx_ring_updates (itrq_i40e itrq) + 1"
proof (cases "unat (itrq_desc_free itrq) = itrq_tx_ring_size itrq")
  case True
  with run blocked show ?thesis
    by (auto simp: i40e_tx_recycle_ring_def tx_unblock_def kstat_inc_def)
next
  case False
  with run reclaim obtain itrq1 count tcbhead itrq3 where
    loop: "tx_recycle_loop itrq (itrq_desc_head itrq) 0 [] = Inr (itrq1, count, tcbhead)"
    and i3: "itrq3 = (let itrq2 = kstat_add Itxs_recycled (ucast count)
                    (itrq1\<lparr>itrq_desc_head := itrq_desc_wbhead itrq1,
                           itrq_desc_free := itrq_desc_free itrq1 + count\<rparr>)
               in if itrq_tx_blocked itrq2 \<and>
                     unat (itrq_desc_free itrq2) > i40e_tx_block_thresh conf
                  then tx_unblock itrq2 else itrq2)"
    and clean: "tx_recycle_cleanup tcbhead itrq3 = Inr itrq'"
    by (auto simp: i40e_tx_recycle_ring_def Let_def split: if_splits sum.splits)
  from tx_recycle_loop_upstream[OF loop] blocked
  have u1: "itrq_tx_blocked itrq1"
    and m1: "i40e_mac_tx_ring_updates (itrq_i40e itrq1) = i40e_mac_tx_ring_updates (itrq_i40e itrq)"
    by (simp_all add: tx_upstream_def)
  from tx_recycle_cleanup_upstream[OF clean]
  have u3: "itrq_tx_blocked itrq' = itrq_tx_blocked itrq3"
    and m3: "i40e_mac_tx_ring_updates (itrq_i40e itrq') = i40e_mac_tx_ring_updates (itrq_i40e itrq3)"
    and f3: "itrq_desc_free itrq' = itrq_desc_free itrq3"
    by (simp_all add: tx_upstream_def)
  from above f3 have "i40e_tx_block_thresh conf < unat (itrq_desc_free itrq3)"
    by simp
  with i3 u1 m1 have "\<not> itrq_tx_blocked itrq3 \<and>
      i40e_mac_tx_ring_updates (itrq_i40e itrq3) = i40e_mac_tx_ring_updates (itrq_i40e itrq) + 1"
    by (auto simp: Let_def tx_unblock_def kstat_inc_def kstat_add_def split: if_splits)
  with u3 m3 show ?thesis
    by simp
qed

text \<open>
  The theorem on the blocked ring whose one outstanding descriptor has
  completed: four descriptors are free afterwards, above the threshold of two.
\<close>

theorem i40e_tx_recycle_ring_unblocks_witness:
  "itrq_tx_blocked ex_blocked \<and>
   (unat (itrq_desc_free ex_blocked) = itrq_tx_ring_size ex_blocked \<or> rce_dma_ok ex_rce) \<and>
   i40e_mac_tx_ring_updates (itrq_i40e ex_blocked) = 0 \<and>
   (\<exists>q. i40e_tx_recycle_ring ex_conf ex_rce ex_blocked = Inr q \<and>
        itrq_desc_free q = 4 \<and> i40e_tx_block_thresh ex_conf < unat (itrq_desc_free q) \<and>
        \<not> itrq_tx_blocked q \<and> i40e_mac_tx_ring_updates (itrq_i40e q) = 1)"
proof -
  have h: "itrq_tx_blocked ex_blocked"
    "unat (itrq_desc_free ex_blocked) = itrq_tx_ring_size ex_blocked \<or> rce_dma_ok ex_rce"
    "i40e_mac_tx_ring_updates (itrq_i40e ex_blocked) = 0"
    by (simp_all add: ex_blocked_def ex_rce_def ex_idle_def ex_itrq_def ex_dev_def)
  have "map_sum id itrq_desc_free (i40e_tx_recycle_ring ex_conf ex_rce ex_blocked) = Inr 4"
    by code_simp
  then obtain q where run: "i40e_tx_recycle_ring ex_conf ex_rce ex_blocked = Inr q"
    and f: "itrq_desc_free q = 4"
    by (cases "i40e_tx_recycle_ring ex_conf ex_rce ex_blocked") auto
  have t: "i40e_tx_block_thresh ex_conf < unat (itrq_desc_free q)"
    by (simp add: f ex_conf_def)
  from i40e_tx_recycle_ring_unblocks[OF run h(1) h(2) t] run f t h show ?thesis
    by auto
qed

subsection \<open>The transmit frame parser\<close>

lemma mac_ether_offload_info_untagged:
  assumes "ttype = TTYPE_NONE \<or> ttype = TTYPE_VXLAN"
    and "i40e_meoi_get_uint16 mp (off_ether_type + off) = Inr (Some ether)"
    and "ether \<noteq> ETHERTYPE_VLAN" "ether \<noteq> ETHERTYPE_IP" "ether \<noteq> ETHERTYPE_IPV6"
  shows "mac_ether_offload_info mp ttype off =
           Inr (0, meoi_zero\<lparr>meoi_flags := MEOI_L2INFO_SET,
                  meoi_l2hlen := sizeof_ether_header, meoi_l3proto := ether\<rparr>)"
  using assms
  by (subst mac_ether_offload_info.simps) (auto simp: Let_def meoi_zero_def)

lemma mac_ether_offload_info_tagged:
  assumes "ttype = TTYPE_NONE \<or> ttype = TTYPE_VXLAN"
    and "i40e_meoi_get_uint16 mp (off_ether_type + off) = Inr (Some ETHERTYPE_VLAN)"
    and "i40e_meoi_get_uint16 mp (off_vlan_ether_type + off) = Inr (Some ether)"
    and "ether \<noteq> ETHERTYPE_IP" "ether \<noteq> ETHERTYPE_IPV6"
  shows "mac_ether_offload_info mp ttype off =
           Inr (0, meoi_zero\<lparr>meoi_flags := MEOI_VLAN_TAGGED OR MEOI_L2INFO_SET,
                  meoi_l2hlen := sizeof_ether_vlan_header, meoi_l3proto := ether\<rparr>)"
  using assms
  by (subst mac_ether_offload_info.simps) (auto simp: Let_def meoi_zero_def)

lemma mac_ether_offload_info_ret_none:
  "mac_ether_offload_info mp TTYPE_NONE off = Inr (ret, meo) \<Longrightarrow> ret = 0 \<or> ret = -1"
  by (subst (asm) mac_ether_offload_info.simps)
     (auto simp: Let_def TTYPE_NONE_def TTYPE_VXLAN_def
           split: if_splits sum.splits option.splits prod.splits)

lemma mac_ether_offload_info_ret:
  "mac_ether_offload_info mp ttype off = Inr (ret, meo) \<Longrightarrow> ret = 0 \<or> ret = -1"
  by (subst (asm) mac_ether_offload_info.simps)
     (auto simp: Let_def 
           split: if_splits sum.splits option.splits prod.splits
           dest: mac_ether_offload_info_ret_none)

lemma i40e_ring_tx_parser_failure:
  assumes ok: "i40e_state_ok (i40e_state (itrq_i40e itrq))"
      "i40e_link_state (itrq_i40e itrq) = LINK_STATE_UP"
    and en: "i40e_tx_hcksum_enable conf"
    and hd: "frame_head mp = Inr m"
    and fl: "db_cksumflags m \<noteq> 0 \<or> db_lsoflags m \<noteq> 0"
    and tn: "\<not> (tx_tunneled m \<and> db_ttype m \<noteq> TTYPE_VXLAN)"
    and pf: "mac_ether_offload_info mp (db_ttype m) 0 = Inr (ret, meo)" "ret \<noteq> 0"
  shows "i40e_ring_tx conf env mp itrq =
           Inr (None, kstat_inc Itxs_err_context
                        (i40e_freemsg mp (kstat_inc Itxs_hck_meoifail itrq)))"
proof -
  from mac_ether_offload_info_ret[OF pf(1)] pf(2) have r: "ret = -1"
    by simp
  from en hd fl tn pf r
  have "i40e_tx_context conf mp itrq =
          Inr (-1, tctx_zero\<lparr>itc_ctx_tunneled := tx_tunneled m\<rparr>,
               kstat_inc Itxs_hck_meoifail itrq)"
    by (auto simp: i40e_tx_context_def Let_def tx_tunneled_def)
  with ok show ?thesis
    by (simp add: i40e_ring_tx_def)
qed

text \<open>
  C3 (as amended). For a frame whose Ethernet type, read after an optional VLAN
  tag, is neither IP nor IPv6, \<^verbatim>\<open>mac_ether_offload_info\<close> does not fail: it
  returns 0 with the L2 information alone (\<^verbatim>\<open>MEOI_L2INFO_SET\<close>, and
  \<^verbatim>\<open>MEOI_VLAN_TAGGED\<close> for a tagged frame; header length 14 or 18; the type),
  for an untagged frame (first part) and for a tagged one (second part). When
  the parser does fail on a frame that \<^verbatim>\<open>i40e_tx_context\<close> hands to it, the
  failure reaches \<^verbatim>\<open>i40e_ring_tx\<close>, which frees the frame, counts it and
  returns \<^verbatim>\<open>NULL\<close> (third part).
\<close>

theorem mac_ether_offload_info_non_ip:
  "((ttype = TTYPE_NONE \<or> ttype = TTYPE_VXLAN) \<and>
    i40e_meoi_get_uint16 mp (off_ether_type + off) = Inr (Some ether) \<and>
    ether \<noteq> ETHERTYPE_VLAN \<and> ether \<noteq> ETHERTYPE_IP \<and> ether \<noteq> ETHERTYPE_IPV6 \<longrightarrow>
      mac_ether_offload_info mp ttype off =
        Inr (0, meoi_zero\<lparr>meoi_flags := MEOI_L2INFO_SET,
               meoi_l2hlen := sizeof_ether_header, meoi_l3proto := ether\<rparr>)) \<and>
   ((ttype = TTYPE_NONE \<or> ttype = TTYPE_VXLAN) \<and>
    i40e_meoi_get_uint16 mp (off_ether_type + off) = Inr (Some ETHERTYPE_VLAN) \<and>
    i40e_meoi_get_uint16 mp (off_vlan_ether_type + off) = Inr (Some ether) \<and>
    ether \<noteq> ETHERTYPE_IP \<and> ether \<noteq> ETHERTYPE_IPV6 \<longrightarrow>
      mac_ether_offload_info mp ttype off =
        Inr (0, meoi_zero\<lparr>meoi_flags := MEOI_VLAN_TAGGED OR MEOI_L2INFO_SET,
               meoi_l2hlen := sizeof_ether_vlan_header, meoi_l3proto := ether\<rparr>)) \<and>
   (i40e_state_ok (i40e_state (itrq_i40e itrq)) \<and>
    i40e_link_state (itrq_i40e itrq) = LINK_STATE_UP \<and>
    i40e_tx_hcksum_enable conf \<and> frame_head fr = Inr m \<and>
    (db_cksumflags m \<noteq> 0 \<or> db_lsoflags m \<noteq> 0) \<and>
    \<not> (tx_tunneled m \<and> db_ttype m \<noteq> TTYPE_VXLAN) \<and>
    mac_ether_offload_info fr (db_ttype m) 0 = Inr (ret, meo) \<and> ret \<noteq> 0 \<longrightarrow>
      i40e_ring_tx conf env fr itrq =
        Inr (None, kstat_inc Itxs_err_context
                     (i40e_freemsg fr (kstat_inc Itxs_hck_meoifail itrq))))"
  using mac_ether_offload_info_untagged[of ttype mp off ether]
        mac_ether_offload_info_tagged[of ttype mp off ether]
        i40e_ring_tx_parser_failure[of itrq conf fr m ret meo env]
  by blast

text \<open>
  The theorem at the ARP frame, at the tagged ARP frame, and at the frame whose
  IP header length is out of range.
\<close>

theorem mac_ether_offload_info_non_ip_witness:
  "i40e_meoi_get_uint16 ex_arp (off_ether_type + 0) = Inr (Some 0x0806) \<and>
   mac_ether_offload_info ex_arp TTYPE_NONE 0 =
     Inr (0, meoi_zero\<lparr>meoi_flags := MEOI_L2INFO_SET,
            meoi_l2hlen := sizeof_ether_header, meoi_l3proto := 0x0806\<rparr>) \<and>
   i40e_meoi_get_uint16 ex_vlan_arp (off_ether_type + 0) = Inr (Some ETHERTYPE_VLAN) \<and>
   i40e_meoi_get_uint16 ex_vlan_arp (off_vlan_ether_type + 0) = Inr (Some 0x0806) \<and>
   mac_ether_offload_info ex_vlan_arp TTYPE_NONE 0 =
     Inr (0, meoi_zero\<lparr>meoi_flags := MEOI_VLAN_TAGGED OR MEOI_L2INFO_SET,
            meoi_l2hlen := sizeof_ether_vlan_header, meoi_l3proto := 0x0806\<rparr>) \<and>
   i40e_state_ok (i40e_state (itrq_i40e ex_idle)) \<and>
   i40e_link_state (itrq_i40e ex_idle) = LINK_STATE_UP \<and>
   i40e_tx_hcksum_enable ex_conf \<and> frame_head ex_bad_ip = Inr (hd ex_bad_ip) \<and>
   db_cksumflags (hd ex_bad_ip) \<noteq> 0 \<and> \<not> tx_tunneled (hd ex_bad_ip) \<and>
   map_sum id fst (mac_ether_offload_info ex_bad_ip (db_ttype (hd ex_bad_ip)) 0) = Inr (- 1) \<and>
   i40e_ring_tx ex_conf ex_tx_env ex_bad_ip ex_idle =
     Inr (None, kstat_inc Itxs_err_context
                  (i40e_freemsg ex_bad_ip (kstat_inc Itxs_hck_meoifail ex_idle)))"
proof -
  have a: "i40e_meoi_get_uint16 ex_arp (off_ether_type + 0) = Inr (Some 0x0806)"
    "i40e_meoi_get_uint16 ex_vlan_arp (off_ether_type + 0) = Inr (Some ETHERTYPE_VLAN)"
    "i40e_meoi_get_uint16 ex_vlan_arp (off_vlan_ether_type + 0) = Inr (Some 0x0806)"
    by code_simp+
  have n: "(0x0806 :: 16 word) \<noteq> ETHERTYPE_VLAN" "(0x0806 :: 16 word) \<noteq> ETHERTYPE_IP"
    "(0x0806 :: 16 word) \<noteq> ETHERTYPE_IPV6"
    by (simp_all add: ETHERTYPE_VLAN_def ETHERTYPE_IP_def ETHERTYPE_IPV6_def)
  have s: "i40e_state_ok (i40e_state (itrq_i40e ex_idle))"
    "i40e_link_state (itrq_i40e ex_idle) = LINK_STATE_UP"
    "i40e_tx_hcksum_enable ex_conf" "frame_head ex_bad_ip = Inr (hd ex_bad_ip)"
    "db_cksumflags (hd ex_bad_ip) \<noteq> 0" "\<not> tx_tunneled (hd ex_bad_ip)"
    by code_simp+
  have "map_sum id fst (mac_ether_offload_info ex_bad_ip (db_ttype (hd ex_bad_ip)) 0) = Inr (- 1)"
    by code_simp
  then obtain meo where
    p: "mac_ether_offload_info ex_bad_ip (db_ttype (hd ex_bad_ip)) 0 = Inr (- 1, meo)"
    by (cases "mac_ether_offload_info ex_bad_ip (db_ttype (hd ex_bad_ip)) 0") auto
  from mac_ether_offload_info_non_ip[of TTYPE_NONE ex_arp 0 "0x0806" ex_idle ex_conf
         ex_bad_ip "hd ex_bad_ip" "- 1" meo ex_tx_env]
  have 1: "mac_ether_offload_info ex_arp TTYPE_NONE 0 =
     Inr (0, meoi_zero\<lparr>meoi_flags := MEOI_L2INFO_SET,
            meoi_l2hlen := sizeof_ether_header, meoi_l3proto := 0x0806\<rparr>)"
    and 3: "i40e_ring_tx ex_conf ex_tx_env ex_bad_ip ex_idle =
     Inr (None, kstat_inc Itxs_err_context
                  (i40e_freemsg ex_bad_ip (kstat_inc Itxs_hck_meoifail ex_idle)))"
    using a n s p by simp_all
  from mac_ether_offload_info_non_ip[of TTYPE_NONE ex_vlan_arp 0 "0x0806" ex_idle ex_conf
         ex_bad_ip "hd ex_bad_ip" "- 1" meo ex_tx_env]
  have 2: "mac_ether_offload_info ex_vlan_arp TTYPE_NONE 0 =
     Inr (0, meoi_zero\<lparr>meoi_flags := MEOI_VLAN_TAGGED OR MEOI_L2INFO_SET,
            meoi_l2hlen := sizeof_ether_vlan_header, meoi_l3proto := 0x0806\<rparr>)"
    using a n by simp
  from 1 2 3 a s p show ?thesis
    by simp
qed

text \<open>
  C3 as stated fails: the Ethernet type of the ARP frame is \<open>0x0806\<close>, the parser
  returns 0 on it, so does \<^verbatim>\<open>i40e_tx_context\<close>, and \<^verbatim>\<open>i40e_ring_tx\<close> does not
  drop the frame: nothing is freed and the tail register is written.
\<close>

theorem mac_ether_offload_info_non_ip_counterexample:
  "i40e_meoi_get_uint16 ex_arp_ck off_ether_type = Inr (Some 0x0806) \<and>
   map_sum id fst (mac_ether_offload_info ex_arp_ck TTYPE_NONE 0) = Inr 0 \<and>
   map_sum id fst (i40e_tx_context ex_conf ex_arp_ck ex_idle) = Inr 0 \<and>
   map_sum id (map_prod id (i40e_freemsgs \<circ> itrq_i40e))
     (i40e_ring_tx ex_conf ex_tx_env ex_arp_ck ex_idle) = Inr (None, []) \<and>
   map_sum id (i40e_reg_writes \<circ> itrq_i40e \<circ> snd)
     (i40e_ring_tx ex_conf ex_tx_env ex_arp_ck ex_idle) = Inr [(I40E_QTX_TAIL 0, 1)]"
  by code_simp

subsection \<open>The transmit ring engine: data descriptors of the bind path\<close>

lemma and_1_bit: "(w :: 32 word) AND 1 \<noteq> 0 \<longleftrightarrow> bit w 0"
  using and_exp_eq_0_iff_not_bit[of w 0] by simp

lemma and_2_bit: "(w :: 32 word) AND 2 \<noteq> 0 \<longleftrightarrow> bit w 1"
  using and_exp_eq_0_iff_not_bit[of w 1] by simp

lemma and_4_bit: "(w :: 32 word) AND 4 \<noteq> 0 \<longleftrightarrow> bit w 2"
  using and_exp_eq_0_iff_not_bit[of w 2] by simp

lemma bit_1023: "bit (1023 :: int) n \<longleftrightarrow> n < 10"
proof -
  have m: "(mask 10 :: int) = 1023"
    by (simp add: mask_eq_exp_minus_1)
  have "bit (mask 10 :: int) n \<longleftrightarrow> possible_bit TYPE(int) n \<and> n < 10"
    by (rule bit_mask_iff)
  then have "bit (mask 10 :: int) n \<longleftrightarrow> n < 10"
    by simp
  then show ?thesis
    unfolding m .
qed

lemma txd_cmd_bit:
  "n < 10 \<Longrightarrow> bit (txd_cmd (tx_data_desc tctx dbi last_desc)) n \<longleftrightarrow>
     bit (if last_desc
          then I40E_TX_DESC_CMD_ICRC OR itc_data_cmdflags tctx OR I40E_TX_DESC_CMD_EOP OR
               I40E_TX_DESC_CMD_RS
          else I40E_TX_DESC_CMD_ICRC OR itc_data_cmdflags tctx) n"
  by (auto simp: txd_cmd_def tx_data_desc_def Let_def I40E_TXD_QW1_CMD_MASK_def
        I40E_TXD_QW1_CMD_SHIFT_def I40E_TXD_QW1_OFFSET_SHIFT_def
        I40E_TXD_QW1_TX_BUF_SZ_SHIFT_def I40E_TX_DESC_DTYPE_DATA_def bit_simps bit_1023)

lemma tx_data_desc_flags:
  assumes "itc_data_cmdflags tctx AND 3 = 0"
  shows "txd_cmd (tx_data_desc tctx dbi last_desc) AND I40E_TX_DESC_CMD_ICRC \<noteq> 0"
    and "txd_cmd (tx_data_desc tctx dbi last_desc) AND I40E_TX_DESC_CMD_EOP \<noteq> 0 \<longleftrightarrow> last_desc"
    and "txd_cmd (tx_data_desc tctx dbi last_desc) AND I40E_TX_DESC_CMD_RS \<noteq> 0 \<longleftrightarrow> last_desc"
proof -
  have "bit (itc_data_cmdflags tctx AND 3) n = False" for n
    using assms by simp
  from this[of 0] this[of 1]
  have b: "\<not> bit (itc_data_cmdflags tctx) 0" "\<not> bit (itc_data_cmdflags tctx) 1"
    by (simp_all add: bit_simps)
  show "txd_cmd (tx_data_desc tctx dbi last_desc) AND I40E_TX_DESC_CMD_ICRC \<noteq> 0"
    by (simp add: I40E_TX_DESC_CMD_ICRC_def and_4_bit txd_cmd_bit bit_simps)
  show "txd_cmd (tx_data_desc tctx dbi last_desc) AND I40E_TX_DESC_CMD_EOP \<noteq> 0 \<longleftrightarrow> last_desc"
    using b
    by (simp add: I40E_TX_DESC_CMD_EOP_def I40E_TX_DESC_CMD_RS_def I40E_TX_DESC_CMD_ICRC_def
          and_1_bit txd_cmd_bit bit_simps)
  show "txd_cmd (tx_data_desc tctx dbi last_desc) AND I40E_TX_DESC_CMD_RS \<noteq> 0 \<longleftrightarrow> last_desc"
    using b
    by (simp add: I40E_TX_DESC_CMD_EOP_def I40E_TX_DESC_CMD_RS_def I40E_TX_DESC_CMD_ICRC_def
          and_2_bit txd_cmd_bit bit_simps)
qed

lemma or_and3:
  "((a :: 32 word) OR b) AND 3 = 0 \<longleftrightarrow> a AND 3 = 0 \<and> b AND 3 = 0"
  by (simp add: bit.conj_disj_distrib2 or_eq_0_iff)

lemma tx_l4t_and3: "tx_l4t p = Some l \<Longrightarrow> l AND 3 = 0"
  by (auto simp: tx_l4t_def I40E_TX_DESC_CMD_L4T_EOFT_TCP_def I40E_TX_DESC_CMD_L4T_EOFT_UDP_def
        I40E_TX_DESC_CMD_L4T_EOFT_SCTP_def split: if_splits)

lemma tx_context_tunneled_cmdflags:
  "tx_context_tunneled chkflags meo tctx itrq = (ret, tctx', itrq') \<Longrightarrow>
     itc_data_cmdflags tctx AND 3 = 0 \<Longrightarrow> itc_data_cmdflags tctx' AND 3 = 0"
  by (auto simp: tx_context_tunneled_def Let_def or_and3
        I40E_TX_DESC_CMD_IIPT_IPV4_def I40E_TX_DESC_CMD_IIPT_IPV6_def
        I40E_TX_DESC_CMD_IIPT_IPV4_CSUM_def
        split: if_splits option.splits dest: tx_l4t_and3)

lemma tx_context_plain_cmdflags:
  "tx_context_plain chkflags meo tctx itrq = (ret, tctx', itrq') \<Longrightarrow>
     itc_data_cmdflags tctx AND 3 = 0 \<Longrightarrow> itc_data_cmdflags tctx' AND 3 = 0"
  by (auto simp: tx_context_plain_def Let_def or_and3
        I40E_TX_DESC_CMD_IIPT_IPV4_def I40E_TX_DESC_CMD_IIPT_IPV6_def
        I40E_TX_DESC_CMD_IIPT_IPV4_CSUM_def
        split: if_splits option.splits sum.splits dest: tx_l4t_and3)

lemma i40e_tx_context_cmdflags:
  "i40e_tx_context conf mp itrq = Inr (ret, tctx, itrq') \<Longrightarrow> itc_data_cmdflags tctx AND 3 = 0"
  by (auto simp: i40e_tx_context_def Let_def tctx_zero_def
        split: if_splits option.splits sum.splits prod.splits
        dest!: tx_context_plain_cmdflags tx_context_tunneled_cmdflags)

lemma tx_put_desc_view:
  "tx_put_desc d itrq = Inr itrq' \<Longrightarrow>
     tx_ring_view itrq' = ring_put d (tx_ring_view itrq) \<and>
     itrq_tcb_area itrq' = itrq_tcb_area itrq"
  by (auto simp: tx_put_desc_def tx_ring_view_def ring_put_def split: if_splits)

lemma tx_set_work_view:
  "tx_set_work t itrq = Inr itrq' \<Longrightarrow>
     tx_ring_view itrq' = tx_ring_view itrq \<and> itrq_tcb_area itrq' = itrq_tcb_area itrq"
  by (auto simp: tx_set_work_def tx_ring_view_def split: if_splits)

lemma tx_bind_cookies_inner:
  "tx_bind_cookies tctx False cs False itrq = Inr (l, itrq') \<Longrightarrow>
     \<not> l \<and> tx_ring_view itrq' =
       fold ring_put (map (\<lambda>c. tx_data_desc tctx c False) cs) (tx_ring_view itrq) \<and>
     itrq_tcb_area itrq' = itrq_tcb_area itrq"
proof (induction cs arbitrary: itrq)
  case Nil
  then show ?case by simp
next
  case (Cons c cs)
  from Cons.prems obtain itrq1 where
    p: "tx_put_desc (tx_data_desc tctx c False) itrq = Inr itrq1"
    and r: "tx_bind_cookies tctx False cs False itrq1 = Inr (l, itrq')"
    by (auto simp: i40e_tx_set_data_desc_def split: sum.splits)
  from Cons.IH[OF r] tx_put_desc_view[OF p] show ?case
    by simp
qed

lemma tx_bind_cookies_last:
  "tx_bind_cookies tctx True cs False itrq = Inr (l, itrq') \<Longrightarrow> cs \<noteq> [] \<Longrightarrow>
     tx_ring_view itrq' = fold ring_put (tx_bind_expected tctx cs) (tx_ring_view itrq) \<and>
     itrq_tcb_area itrq' = itrq_tcb_area itrq"
proof (induction cs arbitrary: itrq)
  case Nil
  then show ?case by simp
next
  case (Cons c cs)
  show ?case
  proof (cases "cs = []")
    case True
    with Cons.prems obtain
      p: "tx_put_desc (tx_data_desc tctx c True) itrq = Inr itrq'"
      by (auto simp: i40e_tx_set_data_desc_def split: sum.splits)
    from tx_put_desc_view[OF p] True show ?thesis
      by (simp add: tx_bind_expected_def)
  next
    case False
    with Cons.prems obtain itrq1 where
      p: "tx_put_desc (tx_data_desc tctx c False) itrq = Inr itrq1"
      and r: "tx_bind_cookies tctx True cs False itrq1 = Inr (l, itrq')"
      by (auto simp: i40e_tx_set_data_desc_def split: sum.splits)
    from Cons.IH[OF r False] tx_put_desc_view[OF p] False show ?thesis
      by (simp add: tx_bind_expected_def)
  qed
qed

lemma tx_bind_expected_append:
  "cs2 \<noteq> [] \<Longrightarrow> tx_bind_expected tctx (cs1 @ cs2) =
     map (\<lambda>c. tx_data_desc tctx c False) cs1 @ tx_bind_expected tctx cs2"
  by (simp add: tx_bind_expected_def butlast_append)

lemma tx_bind_bufs_view:
  "tx_bind_bufs tctx tcbs False itrq = Inr itrq' \<Longrightarrow> tcbs \<noteq> [] \<Longrightarrow>
   tcb_bind_info (itrq_tcb_area itrq ! last tcbs) \<noteq> [] \<Longrightarrow>
     tx_ring_view itrq' =
       fold ring_put (tx_bind_expected tctx (tx_cookies itrq tcbs)) (tx_ring_view itrq) \<and>
     itrq_tcb_area itrq' = itrq_tcb_area itrq"
proof (induction tcbs arbitrary: itrq)
  case Nil
  then show ?case by simp
next
  case (Cons t ts)
  from Cons.prems(1) obtain itrq1 l itrq2 where
    w: "tx_set_work t itrq = Inr itrq1"
    and c: "tx_bind_cookies tctx (ts = []) (tcb_bind_info (itrq_tcb_area itrq1 ! t)) False itrq1
            = Inr (l, itrq2)"
    and r: "tx_bind_bufs tctx ts l itrq2 = Inr itrq'"
    by (auto split: sum.splits if_splits)
  note w' = tx_set_work_view[OF w]
  show ?case
  proof (cases "ts = []")
    case True
    with Cons.prems(3) w' have ne: "tcb_bind_info (itrq_tcb_area itrq1 ! t) \<noteq> []"
      by simp
    from True c have "tx_bind_cookies tctx True (tcb_bind_info (itrq_tcb_area itrq1 ! t))
            False itrq1 = Inr (l, itrq2)"
      by simp
    from tx_bind_cookies_last[OF this ne] r True w' show ?thesis
      by (simp add: tx_cookies_def)
  next
    case False
    with c have "tx_bind_cookies tctx False (tcb_bind_info (itrq_tcb_area itrq1 ! t))
            False itrq1 = Inr (l, itrq2)"
      by simp
    note c' = tx_bind_cookies_inner[OF this]
    from c' r have r': "tx_bind_bufs tctx ts False itrq2 = Inr itrq'"
      by simp
    from c' w' have area: "itrq_tcb_area itrq2 = itrq_tcb_area itrq"
      by simp
    with Cons.prems(3) False have "tcb_bind_info (itrq_tcb_area itrq2 ! last ts) \<noteq> []"
      by simp
    note ih = Cons.IH[OF r' False this]
    from False Cons.prems(3) have "tcb_bind_info (itrq_tcb_area itrq ! last ts) \<in>
        set (map (\<lambda>t. tcb_bind_info (itrq_tcb_area itrq ! t)) ts)"
      by simp
    with Cons.prems(3) False have ne: "tx_cookies itrq ts \<noteq> []"
      unfolding tx_cookies_def by (metis concat_eq_Nil_conv last.simps)
    have cook: "tx_cookies itrq2 ts = tx_cookies itrq ts"
      by (simp add: tx_cookies_def area)
    have "tx_cookies itrq (t # ts) = tcb_bind_info (itrq_tcb_area itrq ! t) @ tx_cookies itrq ts"
      by (simp add: tx_cookies_def)
    with ne have "tx_bind_expected tctx (tx_cookies itrq (t # ts)) =
            map (\<lambda>c. tx_data_desc tctx c False) (tcb_bind_info (itrq_tcb_area itrq ! t)) @
            tx_bind_expected tctx (tx_cookies itrq ts)"
      by (simp add: tx_bind_expected_append)
    with ih c' w' cook area show ?thesis
      by simp
  qed
qed

lemma mod_shift_ne:
  "tail < sz \<Longrightarrow> 0 < m \<Longrightarrow> m < sz \<Longrightarrow> (tail + m) mod sz \<noteq> (tail :: nat)"
  by (cases "tail + m < sz") (simp_all add: le_mod_geq)

lemma next_desc_mod:
  "tail < sz \<Longrightarrow> nat (i40e_next_desc (int tail) 1 (int sz)) = (tail + 1) mod sz"
  by (cases "tail + 1 < sz") (auto simp: i40e_next_desc_def le_mod_geq nat_add_distrib)

lemma ring_put_step:
  "tail < sz \<Longrightarrow> ring_put d (ring, tail, sz) = (ring[tail := d], (tail + 1) mod sz, sz)"
  by (simp add: ring_put_def next_desc_mod)

lemma ring_put_window:
  "fold ring_put ds (ring, tail, sz) = (ring', tail', sz') \<Longrightarrow> length ring = sz \<Longrightarrow>
   tail < sz \<Longrightarrow> length ds \<le> sz \<Longrightarrow>
     length ring' = sz \<and>
     (\<forall>k < length ds. ring' ! ((tail + k) mod sz) = ds ! k) \<and>
     (\<forall>j < sz. (\<forall>k < length ds. j \<noteq> (tail + k) mod sz) \<longrightarrow> ring' ! j = ring ! j)"
proof (induction ds arbitrary: ring tail)
  case Nil
  then show ?case by simp
next
  case (Cons d ds)
  let ?t1 = "(tail + 1) mod sz"
  from Cons.prems have f: "fold ring_put ds (ring[tail := d], ?t1, sz) = (ring', tail', sz')"
    by (simp add: ring_put_step)
  from Cons.prems have t1: "?t1 < sz" and len: "length ds \<le> sz" "length (ring[tail := d]) = sz"
    by simp_all
  note ih = Cons.IH[OF f len(2) t1 len(1)]
  have shift: "(?t1 + k) mod sz = (tail + Suc k) mod sz" for k
    by (simp add: mod_add_left_eq)
  have away: "(?t1 + k) mod sz \<noteq> tail" if "k < length ds" for k
  proof -
    from that Cons.prems(4) have "0 < Suc k" "Suc k < sz" by simp_all
    from mod_shift_ne[OF Cons.prems(3) this] show ?thesis
      unfolding shift .
  qed
  have head: "ring' ! tail = d"
  proof -
    from ih Cons.prems(3) away have "ring' ! tail = (ring[tail := d]) ! tail"
      by (metis)
    with Cons.prems show ?thesis by simp
  qed
  show ?case
  proof (intro conjI allI impI)
    show "length ring' = sz" using ih by simp
  next
    fix k assume k: "k < length (d # ds)"
    show "ring' ! ((tail + k) mod sz) = (d # ds) ! k"
    proof (cases k)
      case 0
      with head Cons.prems(3) show ?thesis by simp
    next
      case (Suc k')
      with k have "k' < length ds" by simp
      with ih have "ring' ! ((?t1 + k') mod sz) = ds ! k'" by blast
      then have "ring' ! ((tail + Suc k') mod sz) = ds ! k'" unfolding shift .
      with Suc show ?thesis by simp
    qed
  next
    fix j assume j: "j < sz" and out: "\<forall>k<length (d # ds). j \<noteq> (tail + k) mod sz"
    from out have j0: "j \<noteq> tail"
      using Cons.prems(3) by (metis length_greater_0_conv list.distinct(1) add.right_neutral mod_less)
    have "\<forall>k<length ds. j \<noteq> (?t1 + k) mod sz"
    proof (intro allI impI)
      fix k assume "k < length ds"
      then have "Suc k < length (d # ds)" by simp
      with out have "j \<noteq> (tail + Suc k) mod sz" by blast
      then show "j \<noteq> (?t1 + k) mod sz" unfolding shift .
    qed
    with ih j have "ring' ! j = (ring[tail := d]) ! j" by blast
    with j0 show "ring' ! j = ring ! j" by simp
  qed
qed

lemma tx_bind_expected_nth:
  assumes "cs \<noteq> []" "k < length cs"
  shows "tx_bind_expected tctx cs ! k = tx_data_desc tctx (cs ! k) (Suc k = length cs)"
proof (cases "k < length (butlast cs)")
  case True
  then have "Suc k \<noteq> length cs" by simp
  with True show ?thesis
    by (simp add: tx_bind_expected_def nth_append nth_butlast)
next
  case False
  with assms have k: "Suc k = length cs" by simp
  then have "k = length (butlast cs)" by simp
  moreover from k have "length cs - 1 = k" by arith
  with last_conv_nth[OF assms(1)] have "last cs = cs ! k"
    by simp
  ultimately show ?thesis
    using k by (simp add: tx_bind_expected_def nth_append)
qed

text \<open>
  C8. In the bind path the loop over the bound control blocks writes one data
  descriptor per cookie, in order, from the tail on. With a context made by
  \<^verbatim>\<open>i40e_tx_context\<close>, a ring that holds all the descriptors, and a last
  control block with at least one cookie (a successful DMA binding has one),
  the \<open>k\<close>-th descriptor carries the bus address of the \<open>k\<close>-th cookie, has
  \<^verbatim>\<open>ICRC\<close> among its command flags, and has \<^verbatim>\<open>EOP\<close> set exactly when it is
  the last one, and likewise \<^verbatim>\<open>RS\<close>: the descriptor of the last cookie of the
  last control block has both, every earlier one has neither.
\<close>

theorem i40e_ring_tx_bind_descriptors:
  assumes ctx: "i40e_tx_context conf mp q0 = Inr (ret, tctx, q1)"
    and ring: "length (itrq_desc_ring itrq) = itrq_tx_ring_size itrq"
      "itrq_desc_tail itrq < itrq_tx_ring_size itrq"
    and tcbs: "tcbs \<noteq> []" "tcb_bind_info (itrq_tcb_area itrq ! last tcbs) \<noteq> []"
    and fits: "length (tx_cookies itrq tcbs) \<le> itrq_tx_ring_size itrq"
    and run: "tx_bind_bufs tctx tcbs False itrq = Inr itrq'"
    and k: "k < length (tx_cookies itrq tcbs)"
  shows "txd_qword0 (itrq_desc_ring itrq' !
              ((itrq_desc_tail itrq + k) mod itrq_tx_ring_size itrq)) =
           dbi_paddr (tx_cookies itrq tcbs ! k) \<and>
         txd_cmd (itrq_desc_ring itrq' !
              ((itrq_desc_tail itrq + k) mod itrq_tx_ring_size itrq)) AND
           I40E_TX_DESC_CMD_ICRC \<noteq> 0 \<and>
         (txd_cmd (itrq_desc_ring itrq' !
              ((itrq_desc_tail itrq + k) mod itrq_tx_ring_size itrq)) AND
           I40E_TX_DESC_CMD_EOP \<noteq> 0 \<longleftrightarrow> Suc k = length (tx_cookies itrq tcbs)) \<and>
         (txd_cmd (itrq_desc_ring itrq' !
              ((itrq_desc_tail itrq + k) mod itrq_tx_ring_size itrq)) AND
           I40E_TX_DESC_CMD_RS \<noteq> 0 \<longleftrightarrow> Suc k = length (tx_cookies itrq tcbs))"
proof -
  let ?cs = "tx_cookies itrq tcbs"
  let ?ds = "tx_bind_expected tctx ?cs"
  from k have ne: "?cs \<noteq> []" by auto
  have len: "length ?ds = length ?cs"
    using ne by (simp add: tx_bind_expected_def)
  from tx_bind_bufs_view[OF run tcbs]
  have v: "tx_ring_view itrq' = fold ring_put ?ds (tx_ring_view itrq)"
    by simp
  obtain ring' tail' sz' where
    f: "fold ring_put ?ds (itrq_desc_ring itrq, itrq_desc_tail itrq, itrq_tx_ring_size itrq)
        = (ring', tail', sz')"
    by (cases "fold ring_put ?ds
          (itrq_desc_ring itrq, itrq_desc_tail itrq, itrq_tx_ring_size itrq)") auto
  with v have r: "itrq_desc_ring itrq' = ring'"
    by (simp add: tx_ring_view_def)
  from ring_put_window[OF f ring] fits len k
  have "ring' ! ((itrq_desc_tail itrq + k) mod itrq_tx_ring_size itrq) = ?ds ! k"
    by simp
  also have "\<dots> = tx_data_desc tctx (?cs ! k) (Suc k = length ?cs)"
    using ne k by (rule tx_bind_expected_nth)
  finally have d: "itrq_desc_ring itrq' !
      ((itrq_desc_tail itrq + k) mod itrq_tx_ring_size itrq)
      = tx_data_desc tctx (?cs ! k) (Suc k = length ?cs)"
    using r by simp
  note fl = tx_data_desc_flags[OF i40e_tx_context_cmdflags[OF ctx]]
  show ?thesis
    unfolding d using fl by (simp add: tx_data_desc_def Let_def)
qed

text \<open>
  The theorem on the two bound control blocks, at the last descriptor and at
  the first.
\<close>

theorem i40e_ring_tx_bind_descriptors_witness:
  "i40e_tx_context ex_conf ex_arp ex_idle = Inr (0, tctx_zero, ex_idle) \<and>
   length (itrq_desc_ring ex_bound) = itrq_tx_ring_size ex_bound \<and>
   itrq_desc_tail ex_bound < itrq_tx_ring_size ex_bound \<and>
   [5, 4] \<noteq> ([] :: nat list) \<and>
   tcb_bind_info (itrq_tcb_area ex_bound ! last [5, 4]) \<noteq> [] \<and>
   length (tx_cookies ex_bound [5, 4]) = 3 \<and>
   length (tx_cookies ex_bound [5, 4]) \<le> itrq_tx_ring_size ex_bound \<and>
   (\<exists>q. tx_bind_bufs tctx_zero [5, 4] False ex_bound = Inr q \<and>
        txd_qword0 (itrq_desc_ring q ! 2) = 0x7000 \<and>
        txd_cmd (itrq_desc_ring q ! 2) AND I40E_TX_DESC_CMD_ICRC \<noteq> 0 \<and>
        txd_cmd (itrq_desc_ring q ! 2) AND I40E_TX_DESC_CMD_EOP \<noteq> 0 \<and>
        txd_cmd (itrq_desc_ring q ! 2) AND I40E_TX_DESC_CMD_RS \<noteq> 0 \<and>
        txd_cmd (itrq_desc_ring q ! 0) AND I40E_TX_DESC_CMD_ICRC \<noteq> 0 \<and>
        txd_cmd (itrq_desc_ring q ! 0) AND I40E_TX_DESC_CMD_EOP = 0 \<and>
        txd_cmd (itrq_desc_ring q ! 0) AND I40E_TX_DESC_CMD_RS = 0)"
proof -
  have ctx: "i40e_tx_context ex_conf ex_arp ex_idle = Inr (0, tctx_zero, ex_idle)"
    by (simp add: i40e_tx_context_def ex_conf_def ex_arp_def ex_mblk_def frame_head_def)
  have h: "length (itrq_desc_ring ex_bound) = itrq_tx_ring_size ex_bound"
    "itrq_desc_tail ex_bound < itrq_tx_ring_size ex_bound"
    "[5, 4] \<noteq> ([] :: nat list)"
    "tcb_bind_info (itrq_tcb_area ex_bound ! last [5, 4]) \<noteq> []"
    by (simp_all add: ex_bound_def ex_idle_def ex_itrq_def ex_tcb_def)
  have c: "tx_cookies ex_bound [5, 4] =
      [\<lparr>dbi_paddr = 0x5000, dbi_len = 8\<rparr>, \<lparr>dbi_paddr = 0x6000, dbi_len = 4\<rparr>,
       \<lparr>dbi_paddr = 0x7000, dbi_len = 4\<rparr>]"
    by (simp add: tx_cookies_def ex_bound_def ex_idle_def ex_itrq_def ex_tcb_def)
  have fits: "length (tx_cookies ex_bound [5, 4]) \<le> itrq_tx_ring_size ex_bound"
    unfolding c by (simp add: ex_bound_def ex_idle_def ex_itrq_def)
  have t: "itrq_desc_tail ex_bound = 0" "itrq_tx_ring_size ex_bound = 4"
    by (simp_all add: ex_bound_def ex_idle_def ex_itrq_def)
  have "\<not> isl (tx_bind_bufs tctx_zero [5, 4] False ex_bound)"
    by code_simp
  then obtain q where run: "tx_bind_bufs tctx_zero [5, 4] False ex_bound = Inr q"
    by (cases "tx_bind_bufs tctx_zero [5, 4] False ex_bound") auto
  have k2: "2 < length (tx_cookies ex_bound [5, 4])"
    and k0: "0 < length (tx_cookies ex_bound [5, 4])"
    by (simp_all add: c)
  have l3: "length (tx_cookies ex_bound [5, 4]) = 3"
    by (simp add: c)
  have r2: "txd_qword0 (itrq_desc_ring q ! 2) = 0x7000 \<and>
        txd_cmd (itrq_desc_ring q ! 2) AND I40E_TX_DESC_CMD_ICRC \<noteq> 0 \<and>
        txd_cmd (itrq_desc_ring q ! 2) AND I40E_TX_DESC_CMD_EOP \<noteq> 0 \<and>
        txd_cmd (itrq_desc_ring q ! 2) AND I40E_TX_DESC_CMD_RS \<noteq> 0"
    using i40e_ring_tx_bind_descriptors[OF ctx h fits run k2]
    by (simp add: c t numeral_2_eq_2)
  have r0: "txd_cmd (itrq_desc_ring q ! 0) AND I40E_TX_DESC_CMD_ICRC \<noteq> 0 \<and>
        txd_cmd (itrq_desc_ring q ! 0) AND I40E_TX_DESC_CMD_EOP = 0 \<and>
        txd_cmd (itrq_desc_ring q ! 0) AND I40E_TX_DESC_CMD_RS = 0"
    using i40e_ring_tx_bind_descriptors[OF ctx h fits run k0] by (simp add: c t)
  from r2 r0 ctx h l3 fits run show ?thesis
    by blast
qed

end
